theory Spec2Isabelle
  imports Main "HOL-Library.Sublist" "HOL-Library.AList" "HOL-Library.Multiset"
    "HOL-Library.Char_ord" "HOL-Library.List_Lexorder"
begin

section \<open>Provider API errors (pkg/fivetran/errors.go)\<close>

text \<open>
  \<^verbatim>\<open>type APIError struct { StatusCode int; Code, Message, RawError string }\<close>.
  Go's \<^verbatim>\<open>int\<close> is only compared with constants here, so it is an \<open>int\<close>.
\<close>

record APIError =
  StatusCode :: int
  Code :: string
  Message :: string
  RawError :: string

text \<open>
  \<^verbatim>\<open>func (e *APIError) IsRetryable() bool\<close>: the switch on the status code, case by case
  (429; 500, 502, 503, 504; default).
\<close>

definition APIError_IsRetryable :: "APIError \<Rightarrow> bool" where
  "APIError_IsRetryable e =
     (if StatusCode e = 429 then True
      else if StatusCode e = 500 \<or> StatusCode e = 502 \<or> StatusCode e = 503 \<or> StatusCode e = 504
        then True
      else StatusCode e < 400 \<or> StatusCode e \<ge> 500)"

section \<open>Go values used throughout\<close>

text \<open>
  A Go \<^verbatim>\<open>string\<close> is a byte sequence: a \<open>string\<close> (a \<open>char list\<close>). A pointer that the code
  tests against \<^verbatim>\<open>nil\<close> is an \<open>option\<close>. A Go map that the code only looks keys up in is a
  map \<open>string \<rightharpoonup> 'v\<close>; a Go map that the code ranges over is an association list, whose
  order stands for the order in which one run of the \<^verbatim>\<open>range\<close> statement visits the keys
  (Go leaves that order unspecified, so a theorem about such a map is stated for every
  list). A \<^verbatim>\<open>nil\<close> map and an empty map behave alike under lookup, \<^verbatim>\<open>range\<close> and \<^verbatim>\<open>len\<close>, the
  only operations the code applies to them, and both are the empty list or the empty map.

  Dereferencing a \<^verbatim>\<open>nil\<close> pointer panics; a function that can do so returns an \<open>outcome\<close>.
\<close>

datatype 'a outcome = Panics | Returns 'a

text \<open>\<^verbatim>\<open>strings.Join(elems, sep)\<close>.\<close>

fun strings_Join :: "string list \<Rightarrow> string \<Rightarrow> string" where
  "strings_Join [] sep = []"
| "strings_Join [x] sep = x"
| "strings_Join (x # y # ys) sep = x @ sep @ strings_Join (y # ys) sep"

text \<open>The verb \<^verbatim>\<open>%v\<close> of \<^verbatim>\<open>fmt\<close> applied to a \<^verbatim>\<open>bool\<close>.\<close>

definition fmt_bool :: "bool \<Rightarrow> string" where
  "fmt_bool b = (if b then ''true'' else ''false'')"

section \<open>The declared schema (api/v1alpha1) and the live schema (provider response)\<close>

record ColumnObject =
  Enabled :: bool
  Hashed :: bool
  IsPrimaryKey :: bool
  MaskingAlgorithm :: string

record TableObject =
  Enabled :: bool
  Columns :: "(string \<times> ColumnObject option) list"
  SyncMode :: string

record SchemaObject =
  Enabled :: bool
  Tables :: "(string \<times> TableObject option) list"

record ConnectorSchemaConfig =
  Schemas :: "(string \<times> SchemaObject option) list"
  SchemaChangeHandling :: string

text \<open>
  The response types belong to the provider's SDK (\<^verbatim>\<open>go-fivetran/connections\<close>); the records
  hold the fields the repository reads: \<^verbatim>\<open>Enabled *bool\<close>, \<^verbatim>\<open>SyncMode *string\<close>, the table and
  schema maps (of pointers), \<^verbatim>\<open>Data.SchemaChangeHandling\<close> and the embedded
  \<^verbatim>\<open>CommonResponse\<close>'s \<^verbatim>\<open>Code\<close> and \<^verbatim>\<open>Message\<close>.
\<close>

record ConnectionSchemaConfigTableResponse =
  Enabled :: "bool option"
  SyncMode :: "string option"

record ConnectionSchemaConfigSchemaResponse =
  Enabled :: "bool option"
  Tables :: "string \<rightharpoonup> ConnectionSchemaConfigTableResponse option"

record ConnectionSchemaDetailsResponse_Data =
  SchemaChangeHandling :: string
  Schemas :: "string \<rightharpoonup> ConnectionSchemaConfigSchemaResponse option"

record ConnectionSchemaDetailsResponse =
  Code :: string
  Message :: string
  Data :: ConnectionSchemaDetailsResponse_Data

section \<open>The structural schema comparator (CompareSchemaWithCR and its helpers)\<close>

record SchemaMismatch =
  HasMismatch :: bool
  SchemaChangeHandling :: "string option"
  MissingSchemas :: "string list"
  SchemaMismatches :: "(string \<times> string) list"
  TableMismatches :: "(string \<times> string list) list"

text \<open>\<^verbatim>\<open>func (sm *SchemaMismatch) String() string\<close>.\<close>

definition SchemaMismatch_String :: "SchemaMismatch \<Rightarrow> string" where
  "SchemaMismatch_String sm =
     (if \<not> HasMismatch sm then ''No schema mismatches found''
      else strings_Join
        ((case SchemaMismatch.SchemaChangeHandling sm of
            None \<Rightarrow> []
          | Some reason \<Rightarrow> [''Schema Change Handling: '' @ reason])
         @ (if length (MissingSchemas sm) > 0
            then [''Missing Schemas: '' @ strings_Join (MissingSchemas sm) '', '']
            else [])
         @ map (\<lambda>(schema, reason). ''Schema '' @ schema @ '': '' @ reason) (SchemaMismatches sm)
         @ map (\<lambda>(schema, issues).
                  ''Schema '' @ schema @ '' tables: '' @ strings_Join issues '', '')
               (TableMismatches sm))
        ''; '')"

text \<open>
  The local \<^verbatim>\<open>tableIssues\<close> of \<^verbatim>\<open>compareTablesWithFivetran\<close>, as it stands after the two checks
  of one loop iteration: the enabled state (only when the live flag is set) and the sync mode
  (only when the declared one is not empty).
\<close>

definition tableIssues :: "ConnectionSchemaConfigTableResponse \<Rightarrow> TableObject \<Rightarrow> string list" where
  "tableIssues fivetranTableObj crTableObj =
     (case ConnectionSchemaConfigTableResponse.Enabled fivetranTableObj of
        Some en \<Rightarrow>
          if en \<noteq> TableObject.Enabled crTableObj
          then [''enabled state mismatch: expected '' @ fmt_bool (TableObject.Enabled crTableObj)
                @ '', got '' @ fmt_bool en]
          else []
      | None \<Rightarrow> [])
     @ (if TableObject.SyncMode crTableObj \<noteq> []
        then (case ConnectionSchemaConfigTableResponse.SyncMode fivetranTableObj of
                None \<Rightarrow> [''sync mode mismatch: expected '' @ TableObject.SyncMode crTableObj
                         @ '', got nil'']
              | Some live \<Rightarrow>
                  if live \<noteq> TableObject.SyncMode crTableObj
                  then [''sync mode mismatch: expected '' @ TableObject.SyncMode crTableObj
                        @ '', got '' @ live]
                  else [])
        else [])"

text \<open>
  \<^verbatim>\<open>compareTablesWithFivetran\<close>: the \<^verbatim>\<open>range\<close> loop over the declared tables, with the slice
  \<^verbatim>\<open>tableMismatches\<close> as accumulator. A live or declared table that is a \<^verbatim>\<open>nil\<close> pointer is
  dereferenced by the first check that reads it.
\<close>

fun compareTables_range ::
  "(string \<rightharpoonup> ConnectionSchemaConfigTableResponse option) \<Rightarrow> (string \<times> TableObject option) list
     \<Rightarrow> string list \<Rightarrow> string list outcome" where
  "compareTables_range fivetranTables [] tableMismatches = Returns tableMismatches"
| "compareTables_range fivetranTables ((crTableName, crTableObj) # rest) tableMismatches =
     (case fivetranTables crTableName of
        None \<Rightarrow>
          compareTables_range fivetranTables rest
            (tableMismatches @ [''table '' @ crTableName @ '' not found in source''])
      | Some None \<Rightarrow> Panics
      | Some (Some fivetranTableObj) \<Rightarrow>
          (case crTableObj of
             None \<Rightarrow> Panics
           | Some cr \<Rightarrow>
               compareTables_range fivetranTables rest
                 (if length (tableIssues fivetranTableObj cr) > 0
                  then tableMismatches
                       @ [''table '' @ crTableName @ '': ''
                          @ strings_Join (tableIssues fivetranTableObj cr) '', '']
                  else tableMismatches)))"

definition compareTablesWithFivetran ::
  "(string \<rightharpoonup> ConnectionSchemaConfigTableResponse option) \<Rightarrow> (string \<times> TableObject option) list
     \<Rightarrow> string list outcome" where
  "compareTablesWithFivetran fivetranTables crTables =
     compareTables_range fivetranTables crTables []"

text \<open>
  \<^verbatim>\<open>CompareSchemaWithCR\<close>: the \<^verbatim>\<open>range\<close> loop over the declared schemas, with the report as
  accumulator. The guard \<^verbatim>\<open>crSchemaObj.Tables != nil\<close> only skips a call that returns no
  mismatch for an empty map.
\<close>

fun compareSchemas_range ::
  "(string \<rightharpoonup> ConnectionSchemaConfigSchemaResponse option) \<Rightarrow> (string \<times> SchemaObject option) list
     \<Rightarrow> SchemaMismatch \<Rightarrow> SchemaMismatch outcome" where
  "compareSchemas_range fivetranSchemas [] mismatch = Returns mismatch"
| "compareSchemas_range fivetranSchemas ((crSchemaName, crSchemaObj) # rest) mismatch =
     (case fivetranSchemas crSchemaName of
        None \<Rightarrow>
          compareSchemas_range fivetranSchemas rest
            (mismatch\<lparr>HasMismatch := True,
                      MissingSchemas := MissingSchemas mismatch @ [crSchemaName]\<rparr>)
      | Some None \<Rightarrow> Panics
      | Some (Some fivetranSchemaObj) \<Rightarrow>
          (case crSchemaObj of
             None \<Rightarrow> Panics
           | Some cr \<Rightarrow>
               let m1 =
                 (case ConnectionSchemaConfigSchemaResponse.Enabled fivetranSchemaObj of
                    Some en \<Rightarrow>
                      if en \<noteq> SchemaObject.Enabled cr
                      then mismatch\<lparr>HasMismatch := True,
                             SchemaMismatches :=
                               AList.update crSchemaName
                                 (''enabled state mismatch: expected ''
                                    @ fmt_bool (SchemaObject.Enabled cr) @ '', got '' @ fmt_bool en)
                                 (SchemaMismatches mismatch)\<rparr>
                      else mismatch
                  | None \<Rightarrow> mismatch)
               in (case compareTablesWithFivetran
                          (ConnectionSchemaConfigSchemaResponse.Tables fivetranSchemaObj)
                          (SchemaObject.Tables cr) of
                     Panics \<Rightarrow> Panics
                   | Returns tableMismatches \<Rightarrow>
                       compareSchemas_range fivetranSchemas rest
                         (if length tableMismatches > 0
                          then m1\<lparr>HasMismatch := True,
                                 TableMismatches :=
                                   AList.update crSchemaName tableMismatches (TableMismatches m1)\<rparr>
                          else m1))))"

definition CompareSchemaWithCR ::
  "ConnectionSchemaDetailsResponse \<Rightarrow> ConnectorSchemaConfig option
     \<Rightarrow> (bool \<times> SchemaMismatch) outcome" where
  "CompareSchemaWithCR fivetranSchema crSchema =
     (let mismatch = \<lparr>HasMismatch = False, SchemaChangeHandling = None, MissingSchemas = [],
                       SchemaMismatches = [], TableMismatches = []\<rparr>
      in case crSchema of
           None \<Rightarrow> Returns (True, mismatch)
         | Some cr \<Rightarrow>
             let m1 =
               (if ConnectorSchemaConfig.SchemaChangeHandling cr \<noteq> []
                   \<and> ConnectionSchemaDetailsResponse_Data.SchemaChangeHandling (Data fivetranSchema)
                       \<noteq> ConnectorSchemaConfig.SchemaChangeHandling cr
                then mismatch\<lparr>HasMismatch := True,
                       SchemaChangeHandling :=
                         Some (''expected '' @ ConnectorSchemaConfig.SchemaChangeHandling cr
                               @ '', got ''
                               @ ConnectionSchemaDetailsResponse_Data.SchemaChangeHandling
                                   (Data fivetranSchema))\<rparr>
                else mismatch)
             in (case compareSchemas_range
                        (ConnectionSchemaDetailsResponse_Data.Schemas (Data fivetranSchema))
                        (ConnectorSchemaConfig.Schemas cr) m1 of
                   Panics \<Rightarrow> Panics
                 | Returns m \<Rightarrow> Returns (\<not> HasMismatch m, m)))"

text \<open>
  The inputs of the test case \<^verbatim>\<open>table sync mode mismatch - nil in Fivetran\<close> of
  \<^verbatim>\<open>TestCompareSchemaWithCR\<close>.
\<close>

definition test_fivetranSchema_sync_mode_nil :: ConnectionSchemaDetailsResponse where
  "test_fivetranSchema_sync_mode_nil =
     \<lparr>ConnectionSchemaDetailsResponse.Code = [], Message = [],
      Data = \<lparr>ConnectionSchemaDetailsResponse_Data.SchemaChangeHandling = ''ALLOW_ALL'',
        Schemas = [''test_schema'' \<mapsto>
          Some \<lparr>ConnectionSchemaConfigSchemaResponse.Enabled = Some True,
            Tables = [''test_table'' \<mapsto>
              Some \<lparr>ConnectionSchemaConfigTableResponse.Enabled = Some True,
                     SyncMode = None\<rparr>]\<rparr>]\<rparr>\<rparr>"

definition test_crSchema_soft_delete :: ConnectorSchemaConfig where
  "test_crSchema_soft_delete =
     \<lparr>ConnectorSchemaConfig.Schemas =
        [(''test_schema'',
          Some \<lparr>SchemaObject.Enabled = True,
            Tables = [(''test_table'',
              Some \<lparr>TableObject.Enabled = True, Columns = [], SyncMode = ''SOFT_DELETE''\<rparr>)]\<rparr>)],
      SchemaChangeHandling = ''ALLOW_ALL''\<rparr>"

section \<open>The schema builder (pkg/fivetran/schema_builder.go)\<close>

text \<open>
  The builder fills configuration objects of the provider's SDK
  (\<^verbatim>\<open>connections.ConnectionSchemaConfigSchema\<close>, \<^verbatim>\<open>...Table\<close>, \<^verbatim>\<open>...Column\<close>) through their
  setters and keeps pointers to them. The objects live in an explicit store, so that a
  write through one pointer is seen through every other pointer to the same object. The SDK
  is not part of the repository; the records name its private fields after the object they
  belong to, and its setters are stores into the object: \<^verbatim>\<open>Enabled(v)\<close>,
  \<^verbatim>\<open>SyncMode(v)\<close>, \<^verbatim>\<open>Hashed(v)\<close> and \<^verbatim>\<open>IsPrimaryKey(v)\<close> set that field to a pointer to \<open>v\<close>,
  \<^verbatim>\<open>Table(name, t)\<close> stores the pointer \<open>t\<close> under \<open>name\<close> in the schema's table map, and
  \<^verbatim>\<open>Column(name, c)\<close> stores \<open>c\<close> under \<open>name\<close> in the table's column map. A column object is
  filled before it is stored and never written again, so it is held by value.
\<close>

type_synonym addr = nat

record ConnectionSchemaConfigColumn =
  column_enabled :: "bool option"
  column_hashed :: "bool option"
  column_isPrimaryKey :: "bool option"

record ConnectionSchemaConfigTable =
  table_enabled :: "bool option"
  table_syncMode :: "string option"
  table_columns :: "string \<rightharpoonup> ConnectionSchemaConfigColumn"

record ConnectionSchemaConfigSchema =
  schema_enabled :: "bool option"
  schema_tables :: "string \<rightharpoonup> addr"

record store =
  schemaObjs :: "addr \<rightharpoonup> ConnectionSchemaConfigSchema"
  tableObjs :: "addr \<rightharpoonup> ConnectionSchemaConfigTable"
  fresh :: addr

text \<open>\<^verbatim>\<open>&connections.ConnectionSchemaConfigSchema{}\<close>: a new object at an unused address.\<close>

definition new_Schema :: "store \<Rightarrow> addr \<times> store" where
  "new_Schema h =
     (fresh h,
      h\<lparr>schemaObjs := (schemaObjs h)(fresh h \<mapsto>
             \<lparr>schema_enabled = None, schema_tables = Map.empty\<rparr>),
        fresh := Suc (fresh h)\<rparr>)"

text \<open>\<^verbatim>\<open>&connections.ConnectionSchemaConfigTable{}\<close>.\<close>

definition new_Table :: "store \<Rightarrow> addr \<times> store" where
  "new_Table h =
     (fresh h,
      h\<lparr>tableObjs := (tableObjs h)(fresh h \<mapsto>
             \<lparr>table_enabled = None, table_syncMode = None, table_columns = Map.empty\<rparr>),
        fresh := Suc (fresh h)\<rparr>)"

text \<open>
  A write through a pointer. Every pointer the builder holds comes from an allocation, so
  the object is there; the store is left as it is otherwise.
\<close>

definition write_Schema ::
  "addr \<Rightarrow> (ConnectionSchemaConfigSchema \<Rightarrow> ConnectionSchemaConfigSchema) \<Rightarrow> store \<Rightarrow> store" where
  "write_Schema a f h =
     (case schemaObjs h a of
        None \<Rightarrow> h
      | Some obj \<Rightarrow> h\<lparr>schemaObjs := (schemaObjs h)(a \<mapsto> f obj)\<rparr>)"

definition write_Table ::
  "addr \<Rightarrow> (ConnectionSchemaConfigTable \<Rightarrow> ConnectionSchemaConfigTable) \<Rightarrow> store \<Rightarrow> store" where
  "write_Table a f h =
     (case tableObjs h a of
        None \<Rightarrow> h
      | Some obj \<Rightarrow> h\<lparr>tableObjs := (tableObjs h)(a \<mapsto> f obj)\<rparr>)"

text \<open>The SDK's setters.\<close>

definition Schema_Enabled :: "addr \<Rightarrow> bool \<Rightarrow> store \<Rightarrow> store" where
  "Schema_Enabled s v = write_Schema s (\<lambda>obj. obj\<lparr>schema_enabled := Some v\<rparr>)"

definition Schema_Table :: "addr \<Rightarrow> string \<Rightarrow> addr \<Rightarrow> store \<Rightarrow> store" where
  "Schema_Table s name t = write_Schema s (\<lambda>obj. obj\<lparr>schema_tables := (schema_tables obj)(name \<mapsto> t)\<rparr>)"

definition Table_Enabled :: "addr \<Rightarrow> bool \<Rightarrow> store \<Rightarrow> store" where
  "Table_Enabled t v = write_Table t (\<lambda>obj. obj\<lparr>table_enabled := Some v\<rparr>)"

definition Table_SyncMode :: "addr \<Rightarrow> string \<Rightarrow> store \<Rightarrow> store" where
  "Table_SyncMode t v = write_Table t (\<lambda>obj. obj\<lparr>table_syncMode := Some v\<rparr>)"

definition Table_Column :: "addr \<Rightarrow> string \<Rightarrow> ConnectionSchemaConfigColumn \<Rightarrow> store \<Rightarrow> store" where
  "Table_Column t name c = write_Table t (\<lambda>obj. obj\<lparr>table_columns := (table_columns obj)(name \<mapsto> c)\<rparr>)"

text \<open>
  The builder's \<^verbatim>\<open>err\<close> is set at four places; the datatype names them (the messages are
  \<open>schema name cannot be empty\<close>, \<open>schema and table names cannot be empty\<close>,
  \<open>schema, table, and column names cannot be empty\<close> and \<open>schema "..." not found\<close>).
\<close>

datatype builder_error =
    SchemaNameEmpty
  | SchemaOrTableNameEmpty
  | SchemaTableOrColumnNameEmpty
  | SchemaNotFound string

record SchemaBuilder =
  schemas :: "string \<rightharpoonup> addr"
  schemaChangeHandling :: string
  err :: "builder_error option"

text \<open>A builder together with the objects its pointers lead to.\<close>

type_synonym builder = "SchemaBuilder \<times> store"

definition NewSchemaBuilder :: builder where
  "NewSchemaBuilder =
     (\<lparr>SchemaBuilder.schemas = Map.empty, schemaChangeHandling = [], err = None\<rparr>,
      \<lparr>schemaObjs = Map.empty, tableObjs = Map.empty, fresh = 0\<rparr>)"

fun WithSchemaChangeHandling :: "string \<Rightarrow> builder \<Rightarrow> builder" where
  "WithSchemaChangeHandling handling (b, h) =
     (if err b \<noteq> None then (b, h)
      else (b\<lparr>schemaChangeHandling := handling\<rparr>, h))"

fun AddSchema :: "string \<Rightarrow> bool \<Rightarrow> builder \<Rightarrow> builder" where
  "AddSchema name enabled (b, h) =
     (if err b \<noteq> None then (b, h)
      else if name = [] then (b\<lparr>err := Some SchemaNameEmpty\<rparr>, h)
      else (case new_Schema h of
              (schema, h1) \<Rightarrow>
                (b\<lparr>SchemaBuilder.schemas := (SchemaBuilder.schemas b)(name \<mapsto> schema)\<rparr>,
                 Schema_Enabled schema enabled h1)))"

fun AddTable :: "string \<Rightarrow> string \<Rightarrow> bool \<Rightarrow> string \<Rightarrow> builder \<Rightarrow> builder" where
  "AddTable schema table enabled syncMode (b, h) =
     (if err b \<noteq> None then (b, h)
      else if schema = [] \<or> table = [] then (b\<lparr>err := Some SchemaOrTableNameEmpty\<rparr>, h)
      else (case SchemaBuilder.schemas b schema of
              None \<Rightarrow> (b\<lparr>err := Some (SchemaNotFound schema)\<rparr>, h)
            | Some s \<Rightarrow>
                (case new_Table h of
                   (tableConfig, h1) \<Rightarrow>
                     let h2 = Table_Enabled tableConfig enabled h1;
                         h3 = (if syncMode \<noteq> [] then Table_SyncMode tableConfig syncMode h2 else h2)
                     in (b, Schema_Table s table tableConfig h3))))"

fun AddColumn :: "string \<Rightarrow> string \<Rightarrow> string \<Rightarrow> bool \<Rightarrow> bool \<Rightarrow> bool \<Rightarrow> builder \<Rightarrow> builder" where
  "AddColumn schema table column enabled hashed isPrimaryKey (b, h) =
     (if err b \<noteq> None then (b, h)
      else if schema = [] \<or> table = [] \<or> column = []
        then (b\<lparr>err := Some SchemaTableOrColumnNameEmpty\<rparr>, h)
      else (case SchemaBuilder.schemas b schema of
              None \<Rightarrow> (b\<lparr>err := Some (SchemaNotFound schema)\<rparr>, h)
            | Some s \<Rightarrow>
                let columnConfig =
                      \<lparr>column_enabled = Some enabled,
                       column_hashed = Some hashed, column_isPrimaryKey = Some isPrimaryKey\<rparr>
                in (case new_Table h of
                      (tableConfig, h1) \<Rightarrow>
                        let h2 = Schema_Table s table tableConfig h1
                        in (b, Table_Column tableConfig column columnConfig h2))))"

text \<open>\<^verbatim>\<open>Build\<close> returns the builder's schema map and policy, or its error.\<close>

fun Build :: "builder \<Rightarrow> builder_error + (string \<rightharpoonup> addr) \<times> string" where
  "Build (b, h) =
     (case err b of
        Some e \<Rightarrow> Inl e
      | None \<Rightarrow> Inr (SchemaBuilder.schemas b, schemaChangeHandling b))"

text \<open>
  What a schema map holds for a table: the pointers of the map followed through the store.
\<close>

definition table_config ::
  "store \<Rightarrow> (string \<rightharpoonup> addr) \<Rightarrow> string \<Rightarrow> string \<Rightarrow> ConnectionSchemaConfigTable option" where
  "table_config h m schema table =
     (case m schema of
        None \<Rightarrow> None
      | Some s \<Rightarrow>
          (case schemaObjs h s of
             None \<Rightarrow> None
           | Some obj \<Rightarrow>
               (case schema_tables obj table of
                  None \<Rightarrow> None
                | Some t \<Rightarrow> tableObjs h t)))"

text \<open>A sequence of calls on a builder, to state what holds after every such sequence.\<close>

datatype builder_call =
    CallWithSchemaChangeHandling string
  | CallAddSchema string bool
  | CallAddTable string string bool string
  | CallAddColumn string string string bool bool bool

fun builder_step :: "builder_call \<Rightarrow> builder \<Rightarrow> builder" where
  "builder_step (CallWithSchemaChangeHandling handling) st = WithSchemaChangeHandling handling st"
| "builder_step (CallAddSchema name enabled) st = AddSchema name enabled st"
| "builder_step (CallAddTable schema table enabled syncMode) st =
     AddTable schema table enabled syncMode st"
| "builder_step (CallAddColumn schema table column enabled hashed isPrimaryKey) st =
     AddColumn schema table column enabled hashed isPrimaryKey st"

definition builder_calls :: "builder_call list \<Rightarrow> builder \<Rightarrow> builder" where
  "builder_calls cs st = fold builder_step cs st"

text \<open>
  The invariant of the model's store: every pointer in the builder's schema map leads to an
  object (in Go a pointer obtained from an allocation always does).
\<close>

definition builder_wf :: "builder \<Rightarrow> bool" where
  "builder_wf st = (\<forall>name s. SchemaBuilder.schemas (fst st) name = Some s \<longrightarrow> s \<in> dom (schemaObjs (snd st)))"

section \<open>Formatting numbers and prefixes\<close>

text \<open>The verb \<^verbatim>\<open>%d\<close> of \<^verbatim>\<open>fmt\<close>: a number in decimal.\<close>

definition digit_char :: "nat \<Rightarrow> char" where
  "digit_char d =
     (if d = 0 then CHR ''0'' else if d = 1 then CHR ''1'' else if d = 2 then CHR ''2''
      else if d = 3 then CHR ''3'' else if d = 4 then CHR ''4'' else if d = 5 then CHR ''5''
      else if d = 6 then CHR ''6'' else if d = 7 then CHR ''7'' else if d = 8 then CHR ''8''
      else CHR ''9'')"

function fmt_nat :: "nat \<Rightarrow> string" where
  "fmt_nat n = (if n < 10 then [digit_char n] else fmt_nat (n div 10) @ [digit_char (n mod 10)])"
  by pat_completeness auto
termination
  by (relation "measure (\<lambda>n. n)") auto

declare fmt_nat.simps [simp del]

definition fmt_int :: "int \<Rightarrow> string" where
  "fmt_int i = (if i < 0 then CHR ''-'' # fmt_nat (nat (- i)) else fmt_nat (nat i))"

text \<open>\<^verbatim>\<open>strings.HasPrefix\<close> is \<open>prefix\<close>; this is \<^verbatim>\<open>strings.TrimPrefix(s, p)\<close>.\<close>

definition strings_TrimPrefix :: "string \<Rightarrow> string \<Rightarrow> string" where
  "strings_TrimPrefix s p = (if prefix p s then drop (length p) s else s)"

text \<open>
  \<^verbatim>\<open>strings.SplitN(s, "#", 2)\<close>: the text before the first \<open>#\<close> and the text after it, or
  \<open>s\<close> alone when it holds no \<open>#\<close>.
\<close>

definition strings_SplitN2 :: "string \<Rightarrow> string list" where
  "strings_SplitN2 s =
     (case dropWhile (\<lambda>c. c \<noteq> CHR ''#'') s of
        [] \<Rightarrow> [s]
      | c # rest \<Rightarrow> [takeWhile (\<lambda>c. c \<noteq> CHR ''#'') s, rest])"

section \<open>Documents and the secret store (pkg/fivetran/vault)\<close>

text \<open>
  A decoded JSON document, as \<^verbatim>\<open>json.Unmarshal\<close> into an \<^verbatim>\<open>any\<close> gives it: \<^verbatim>\<open>nil\<close>, \<^verbatim>\<open>bool\<close>,
  \<^verbatim>\<open>float64\<close>, \<^verbatim>\<open>string\<close>, \<^verbatim>\<open>[]any\<close> or \<^verbatim>\<open>map[string]any\<close>. The code never computes with a
  number, so \<open>float64\<close> is left uninterpreted.
\<close>

typedecl float64

datatype json =
    JNull
  | JBool bool
  | JNumber float64
  | JString string
  | JArray "json list"
  | JObject "(string \<times> json) list"

text \<open>
  The store's answer to \<^verbatim>\<open>KVv2(mount).Get(ctx, path)\<close>: an error, or a secret whose \<^verbatim>\<open>Raw\<close> may
  be \<^verbatim>\<open>nil\<close> and whose \<^verbatim>\<open>Raw.Data\<close> may be \<^verbatim>\<open>nil\<close>.
\<close>

record vaultapi_Secret =
  Data :: "(string \<times> json) list option"

datatype kv_get = KVGetError string | KVGetSecret "vaultapi_Secret option"

record VaultClient =
  Client :: "string \<Rightarrow> string \<Rightarrow> kv_get"
  MountPath :: string

text \<open>
  The error a \<^verbatim>\<open>VaultError\<close> carries in \<^verbatim>\<open>Err\<close>, one constructor per place that builds one:
  the invalid reference with its details, \<^verbatim>\<open>ErrSecretDataNil\<close>, \<^verbatim>\<open>ErrSecretNotFound\<close> with the
  path, \<^verbatim>\<open>ErrKeyNotFound\<close> with key, path and the available keys, and the store's own error
  behind \<open>failed to read vault secret\<close>.
\<close>

datatype vault_cause =
    InvalidVaultReference string
  | SecretDataNil
  | SecretNotFound string
  | KeyNotFound string string "string list"
  | ReadFailed string

record VaultError =
  Err :: vault_cause
  Retryable :: bool
  KeyPath :: string
  VaultRef :: string

definition msgInvalidVaultReference :: string where
  "msgInvalidVaultReference = ''invalid vault reference format (expected format: vault:path#key)''"

fun vault_cause_Error :: "vault_cause \<Rightarrow> string" where
  "vault_cause_Error (InvalidVaultReference details) = msgInvalidVaultReference @ '': '' @ details"
| "vault_cause_Error SecretDataNil = ''secret data is nil''"
| "vault_cause_Error (SecretNotFound path) = ''secret not found at path '' @ [CHR 0x27] @ path @ [CHR 0x27]"
| "vault_cause_Error (KeyNotFound key path availableKeys) =
     ''key not found in vault secret '' @ [CHR 0x27] @ key @ [CHR 0x27] @ '' at path ''
       @ [CHR 0x27] @ path @ [CHR 0x27] @ '' (available keys: ['' @ strings_Join availableKeys '' ''
       @ ''])''"
| "vault_cause_Error (ReadFailed e) = ''failed to read vault secret: '' @ e"

definition VaultError_Error :: "VaultError \<Rightarrow> string" where
  "VaultError_Error e =
     (if KeyPath e \<noteq> [] \<and> VaultRef e \<noteq> []
      then KeyPath e @ '': vault reference '' @ [CHR 0x27] @ VaultRef e @ [CHR 0x27] @ '': ''
             @ vault_cause_Error (Err e)
      else vault_cause_Error (Err e))"

definition VaultError_IsRetryable :: "VaultError \<Rightarrow> bool" where
  "VaultError_IsRetryable e = Retryable e"

definition NewInvalidReferenceError :: "string \<Rightarrow> string \<Rightarrow> string \<Rightarrow> VaultError" where
  "NewInvalidReferenceError keyPath vaultRef details =
     \<lparr>Err = InvalidVaultReference details, Retryable = False, KeyPath = keyPath,
      VaultRef = vaultRef\<rparr>"

definition NewKeyNotFoundError :: "string \<Rightarrow> string \<Rightarrow> string \<Rightarrow> string list \<Rightarrow> VaultError" where
  "NewKeyNotFoundError keyPath key path availableKeys =
     \<lparr>Err = KeyNotFound key path availableKeys, Retryable = False, KeyPath = keyPath,
      VaultRef = ''vault:'' @ path @ ''#'' @ key\<rparr>"

definition NewSecretNotFoundError :: "string \<Rightarrow> string \<Rightarrow> string \<Rightarrow> VaultError" where
  "NewSecretNotFoundError keyPath vaultRef path =
     \<lparr>Err = SecretNotFound path, Retryable = False, KeyPath = keyPath, VaultRef = vaultRef\<rparr>"

definition NewSecretDataNilError :: "string \<Rightarrow> string \<Rightarrow> VaultError" where
  "NewSecretDataNilError keyPath vaultRef =
     \<lparr>Err = SecretDataNil, Retryable = False, KeyPath = keyPath, VaultRef = vaultRef\<rparr>"

definition NewVaultAPIError :: "string \<Rightarrow> string \<Rightarrow> string \<Rightarrow> VaultError" where
  "NewVaultAPIError keyPath vaultRef e =
     \<lparr>Err = ReadFailed e, Retryable = True, KeyPath = keyPath, VaultRef = vaultRef\<rparr>"

text \<open>
  \<^verbatim>\<open>parseVaultReference\<close>; the error is its message, which is all the caller reads of it.
\<close>

definition parseVaultReference :: "string \<Rightarrow> string + string \<times> string" where
  "parseVaultReference v =
     (let parts = strings_SplitN2 (strings_TrimPrefix v ''vault:'')
      in if length parts \<noteq> 2 \<or> length (parts ! 0) = 0 \<or> length (parts ! 1) = 0
         then Inl (msgInvalidVaultReference @ '': '' @ [CHR 0x27] @ v @ [CHR 0x27])
         else Inr (parts ! 0, parts ! 1))"

text \<open>
  \<^verbatim>\<open>extractSecretData\<close>: \<open>True\<close> on the left is \<^verbatim>\<open>ErrSecretDataNil\<close>, \<open>False\<close> the format error.
  The type assertion \<^verbatim>\<open>secret.Data["data"].(map[string]any)\<close> holds for an object.
\<close>

definition extractSecretData :: "vaultapi_Secret option \<Rightarrow> bool + (string \<times> json) list" where
  "extractSecretData secret =
     (case secret of
        None \<Rightarrow> Inl True
      | Some s \<Rightarrow>
          (case vaultapi_Secret.Data s of
             None \<Rightarrow> Inl True
           | Some d \<Rightarrow>
               (case map_of d ''data'' of
                  Some (JObject kvs) \<Rightarrow> Inr kvs
                | _ \<Rightarrow> Inl False)))"

definition buildKeyPath :: "string \<Rightarrow> string \<Rightarrow> string" where
  "buildKeyPath parent child = (if parent = [] then child else parent @ ''.'' @ child)"

definition getKeys :: "(string \<times> json) list \<Rightarrow> string list" where
  "getKeys kvs = map fst kvs"

text \<open>
  The state of one resolution pass: the per-call cache, and the paths fetched from the store
  so far, in order. The list of fetches is not a variable of the program; it records each
  call of \<^verbatim>\<open>Get\<close> so that the calls can be counted.
\<close>

record resolve_state =
  cache :: "string \<rightharpoonup> (string \<times> json) list"
  fetched :: "string list"

definition getPathData ::
  "VaultClient \<Rightarrow> resolve_state \<Rightarrow> string \<Rightarrow> string \<Rightarrow> string
     \<Rightarrow> (VaultError + (string \<times> json) list) \<times> resolve_state" where
  "getPathData vaultClient st path keyPath vaultRef =
     (case cache st path of
        Some kvs \<Rightarrow> (Inr kvs, st)
      | None \<Rightarrow>
          (let st1 = st\<lparr>fetched := fetched st @ [path]\<rparr>
           in case Client vaultClient (MountPath vaultClient) path of
                KVGetError e \<Rightarrow> (Inl (NewVaultAPIError keyPath vaultRef e), st1)
              | KVGetSecret raw \<Rightarrow>
                  (case extractSecretData raw of
                     Inl nil \<Rightarrow>
                       (if nil then (Inl (NewSecretDataNilError keyPath vaultRef), st1)
                        else (Inl (NewSecretNotFoundError keyPath vaultRef path), st1))
                   | Inr kvs \<Rightarrow> (Inr kvs, st1\<lparr>cache := (cache st1)(path \<mapsto> kvs)\<rparr>))))"

definition resolveString ::
  "VaultClient \<Rightarrow> resolve_state \<Rightarrow> string \<Rightarrow> string \<Rightarrow> (VaultError + json) \<times> resolve_state" where
  "resolveString vaultClient st v keyPath =
     (if \<not> prefix ''vault:'' v then (Inr (JString v), st)
      else (case parseVaultReference v of
              Inl e \<Rightarrow> (Inl (NewInvalidReferenceError keyPath v e), st)
            | Inr (path, key) \<Rightarrow>
                (case getPathData vaultClient st path keyPath v of
                   (Inl e, st1) \<Rightarrow> (Inl e, st1)
                 | (Inr secretData, st1) \<Rightarrow>
                     (case map_of secretData key of
                        None \<Rightarrow>
                          (Inl (NewKeyNotFoundError keyPath key path (getKeys secretData)), st1)
                      | Some secretValue \<Rightarrow> (Inr secretValue, st1)))))"

text \<open>
  \<^verbatim>\<open>resolveValue\<close>, \<^verbatim>\<open>resolveMap\<close> and \<^verbatim>\<open>resolveSlice\<close>. The two loops carry their \<^verbatim>\<open>result\<close>:
  a map written by key, and a slice of the input's length written by index.
\<close>

fun resolveValue ::
    "VaultClient \<Rightarrow> resolve_state \<Rightarrow> json \<Rightarrow> string \<Rightarrow> (VaultError + json) \<times> resolve_state"
  and resolveMap_range ::
    "VaultClient \<Rightarrow> resolve_state \<Rightarrow> (string \<times> json) list \<Rightarrow> string \<Rightarrow> (string \<times> json) list
       \<Rightarrow> (VaultError + (string \<times> json) list) \<times> resolve_state"
  and resolveSlice_range ::
    "VaultClient \<Rightarrow> resolve_state \<Rightarrow> json list \<Rightarrow> string \<Rightarrow> nat \<Rightarrow> json list
       \<Rightarrow> (VaultError + json list) \<times> resolve_state" where
  "resolveValue vaultClient st (JObject kvs) keyPath =
     (case resolveMap_range vaultClient st kvs keyPath [] of
        (Inl e, st1) \<Rightarrow> (Inl e, st1)
      | (Inr result, st1) \<Rightarrow> (Inr (JObject result), st1))"
| "resolveValue vaultClient st (JArray items) keyPath =
     (case resolveSlice_range vaultClient st items keyPath 0 (replicate (length items) JNull) of
        (Inl e, st1) \<Rightarrow> (Inl e, st1)
      | (Inr result, st1) \<Rightarrow> (Inr (JArray result), st1))"
| "resolveValue vaultClient st (JString v) keyPath = resolveString vaultClient st v keyPath"
| "resolveValue vaultClient st JNull keyPath = (Inr JNull, st)"
| "resolveValue vaultClient st (JBool b) keyPath = (Inr (JBool b), st)"
| "resolveValue vaultClient st (JNumber n) keyPath = (Inr (JNumber n), st)"
| "resolveMap_range vaultClient st [] keyPath result = (Inr result, st)"
| "resolveMap_range vaultClient st ((key, v) # rest) keyPath result =
     (case resolveValue vaultClient st v (buildKeyPath keyPath key) of
        (Inl e, st1) \<Rightarrow> (Inl e, st1)
      | (Inr resolvedValue, st1) \<Rightarrow>
          resolveMap_range vaultClient st1 rest keyPath (AList.update key resolvedValue result))"
| "resolveSlice_range vaultClient st [] keyPath i result = (Inr result, st)"
| "resolveSlice_range vaultClient st (item # rest) keyPath i result =
     (case resolveValue vaultClient st item (keyPath @ ''['' @ fmt_nat i @ '']'') of
        (Inl e, st1) \<Rightarrow> (Inl e, st1)
      | (Inr resolvedValue, st1) \<Rightarrow>
          resolveSlice_range vaultClient st1 rest keyPath (Suc i) (result[i := resolvedValue]))"

section \<open>Go errors\<close>

text \<open>
  The error values the controller tells apart: the package's sentinel errors, a
  \<^verbatim>\<open>*vault.VaultError\<close>, a \<^verbatim>\<open>*fivetran.APIError\<close>, an error that wraps another one with
  \<^verbatim>\<open>%w\<close> (with its whole message), a list joined by \<^verbatim>\<open>errors.Join\<close>, and any other error,
  known by its message only.
\<close>

datatype error =
    ErrFivetranClientNotInitialized
  | ErrVaultClientInitializationFailed
  | ErrSchemaMismatchAfterRetry
  | ErrSetupTestsFailed
  | ErrConnectorValidationFailed
  | VaultErr VaultError
  | APIErr APIError
  | ErrorString string
  | Wrapped string error
  | Joined "error list"

section \<open>Resolving the secrets of a document (ResolveSecrets)\<close>

record RawExtension =
  Raw :: "string option"

text \<open>
  \<^verbatim>\<open>json.Unmarshal\<close> into an \<^verbatim>\<open>any\<close> and \<^verbatim>\<open>json.Marshal\<close> of one belong to Go's library and are
  parameters of the model; an error is its message.
\<close>

record json_codec =
  json_Unmarshal :: "string \<Rightarrow> string + json"
  json_Marshal :: "json \<Rightarrow> string + string"

text \<open>
  \<^verbatim>\<open>ResolveSecrets\<close> returns its error and leaves the document behind the pointer
  \<^verbatim>\<open>rawConfig\<close>; the third component lists the store fetches of the call.
\<close>

definition ResolveSecrets ::
  "json_codec \<Rightarrow> VaultClient \<Rightarrow> RawExtension option
     \<Rightarrow> error option \<times> RawExtension option \<times> string list" where
  "ResolveSecrets lib vaultClient rawConfig =
     (case rawConfig of
        None \<Rightarrow> (None, rawConfig, [])
      | Some rc \<Rightarrow>
          (case Raw rc of
             None \<Rightarrow> (None, rawConfig, [])
           | Some bytes \<Rightarrow>
               (case json_Unmarshal lib bytes of
                  Inl e \<Rightarrow>
                    (Some (Wrapped (''ResolveSecrets: failed to unmarshal config: '' @ e)
                             (ErrorString e)),
                     rawConfig, [])
                | Inr doc \<Rightarrow>
                    (case resolveValue vaultClient \<lparr>cache = Map.empty, fetched = []\<rparr> doc [] of
                       (Inl e, st) \<Rightarrow> (Some (VaultErr e), rawConfig, fetched st)
                     | (Inr resolvedData, st) \<Rightarrow>
                         (case json_Marshal lib resolvedData of
                            Inl e \<Rightarrow>
                              (Some (Wrapped
                                 (''ResolveSecrets: failed to marshal resolved config: '' @ e)
                                 (ErrorString e)),
                               rawConfig, fetched st)
                          | Inr updatedConfig \<Rightarrow>
                              (None, Some (rc\<lparr>Raw := Some updatedConfig\<rparr>), fetched st))))))"

text \<open>
  The string values of a document (the keys of a mapping are not values), in the order of
  the traversal.
\<close>

fun strings_of :: "json \<Rightarrow> string list"
  and strings_of_map :: "(string \<times> json) list \<Rightarrow> string list"
  and strings_of_slice :: "json list \<Rightarrow> string list" where
  "strings_of (JObject kvs) = strings_of_map kvs"
| "strings_of (JArray items) = strings_of_slice items"
| "strings_of (JString v) = [v]"
| "strings_of JNull = []"
| "strings_of (JBool b) = []"
| "strings_of (JNumber n) = []"
| "strings_of_map [] = []"
| "strings_of_map ((key, v) # rest) = strings_of v @ strings_of_map rest"
| "strings_of_slice [] = []"
| "strings_of_slice (item # rest) = strings_of item @ strings_of_slice rest"

text \<open>
  What the store holds at a path, when a fetch of the path gives a key/value mapping; and
  whether a reference resolves against the store: it parses, its path gives a mapping, and
  the mapping has its key.
\<close>

definition store_data :: "VaultClient \<Rightarrow> string \<Rightarrow> (string \<times> json) list option" where
  "store_data vaultClient path =
     (case Client vaultClient (MountPath vaultClient) path of
        KVGetError e \<Rightarrow> None
      | KVGetSecret raw \<Rightarrow>
          (case extractSecretData raw of Inl nil \<Rightarrow> None | Inr kvs \<Rightarrow> Some kvs))"

definition reference_resolves :: "VaultClient \<Rightarrow> string \<Rightarrow> bool" where
  "reference_resolves vaultClient v =
     (case parseVaultReference v of
        Inl e \<Rightarrow> False
      | Inr (path, key) \<Rightarrow>
          (case store_data vaultClient path of
             None \<Rightarrow> False
           | Some kvs \<Rightarrow> map_of kvs key \<noteq> None))"

text \<open>A string value that is a reference and does not resolve.\<close>

definition unresolvable :: "VaultClient \<Rightarrow> string \<Rightarrow> bool" where
  "unresolvable vaultClient v = (prefix ''vault:'' v \<and> \<not> reference_resolves vaultClient v)"

text \<open>Whether a string value is a reference to the path \<open>p\<close>.\<close>

definition refers_to :: "string \<Rightarrow> string \<Rightarrow> bool" where
  "refers_to p v =
     (prefix ''vault:'' v
      \<and> (case parseVaultReference v of Inl e \<Rightarrow> False | Inr (path, key) \<Rightarrow> path = p))"

text \<open>
  The cache of a pass holds what the store gave, and the paths fetched so far are exactly
  the cached ones, each fetched once.
\<close>

definition cache_sound :: "VaultClient \<Rightarrow> resolve_state \<Rightarrow> bool" where
  "cache_sound vaultClient st =
     (list_all (\<lambda>p. cache st p = store_data vaultClient p \<and> cache st p \<noteq> None) (fetched st)
      \<and> distinct (fetched st) \<and> dom (cache st) = set (fetched st))"

text \<open>
  What one step of a pass (from state \<open>st\<close> to \<open>st'\<close>, over the string values \<open>vs\<close>)
  guarantees: it fails exactly when one of the values does not resolve; when it succeeds it
  has fetched the paths the values refer to that were not fetched before; and no path is
  ever fetched twice.
\<close>

definition pass_ok ::
  "VaultClient \<Rightarrow> resolve_state \<Rightarrow> string list \<Rightarrow> bool \<Rightarrow> resolve_state \<Rightarrow> bool" where
  "pass_ok vaultClient st vs failed st' =
     ((failed \<longleftrightarrow> list_ex (unresolvable vaultClient) vs)
      \<and> (failed \<or> (cache_sound vaultClient st'
            \<and> set (fetched st') = set (fetched st) \<union> {p. list_ex (refers_to p) vs}))
      \<and> distinct (fetched st') \<and> prefix (fetched st) (fetched st'))"

text \<open>
  The store and the document of the test case \<^verbatim>\<open>failure stops processing\<close> of
  \<^verbatim>\<open>TestResolveSecrets\<close> (the test's secret \<^verbatim>\<open>test-secret\<close> with its three keys), with a codec
  that decodes the document's bytes to it; and a list with a failing reference before a
  resolvable reference to another path.
\<close>

definition test_vaultClient :: VaultClient where
  "test_vaultClient =
     \<lparr>Client = (\<lambda>mount path.
         if mount = ''apps'' \<and> path = ''test-secret''
         then KVGetSecret (Some \<lparr>vaultapi_Secret.Data = Some [(''data'',
                JObject [(''api_key'', JString ''my-test-key''),
                         (''username'', JString ''test-user''),
                         (''password'', JString ''test-pass'')])]\<rparr>)
         else if mount = ''apps'' \<and> path = ''other-secret''
         then KVGetSecret (Some \<lparr>vaultapi_Secret.Data = Some [(''data'',
                JObject [(''token'', JString ''t0'')])]\<rparr>)
         else KVGetError ''secret not found''),
      MountPath = ''apps''\<rparr>"

definition test_failure_stops_processing :: json where
  "test_failure_stops_processing =
     JObject [(''valid'', JString ''vault:test-secret#api_key''),
              (''invalid'', JString ''vault:test-secret#nonexistent''),
              (''plain'', JString ''no-vault-ref'')]"

definition test_failing_then_other_path :: json where
  "test_failing_then_other_path =
     JArray [JString ''vault:test-secret#nonexistent'', JString ''vault:other-secret#token'']"

definition test_codec :: "json \<Rightarrow> json_codec" where
  "test_codec doc = \<lparr>json_Unmarshal = (\<lambda>bytes. Inr doc), json_Marshal = (\<lambda>v. Inr ''{}'')\<rparr>"

text \<open>The document of the test case \<^verbatim>\<open>array with vault references\<close>.\<close>

definition test_array_with_vault_references :: json where
  "test_array_with_vault_references =
     JObject [(''list'', JArray [JString ''vault:test-secret#username'',
                                 JString ''vault:test-secret#password''])]"

section \<open>Errors: messages, \<^verbatim>\<open>errors.Is\<close> and \<^verbatim>\<open>errors.As\<close>\<close>

text \<open>\<^verbatim>\<open>func (e *APIError) Error() string\<close>.\<close>

definition APIError_Error :: "APIError \<Rightarrow> string" where
  "APIError_Error e =
     ''fivetran api error (status '' @ fmt_int (StatusCode e) @ ''): '' @ APIError.Code e
       @ '' - '' @ APIError.Message e"

text \<open>
  \<^verbatim>\<open>err.Error()\<close>. An error built by \<^verbatim>\<open>fmt.Errorf\<close> with \<^verbatim>\<open>%w\<close> carries its formatted message;
  \<^verbatim>\<open>errors.Join\<close> puts each message on a line of its own. The sources use
  \<^verbatim>\<open>ErrConnectorValidationFailed\<close> without its declaration; its message stands for the
  declared one, and nothing below depends on it.
\<close>

fun error_Error :: "error \<Rightarrow> string"
  and errors_Error_lines :: "error list \<Rightarrow> string" where
  "error_Error ErrFivetranClientNotInitialized = ''fivetran client is not initialized''"
| "error_Error ErrVaultClientInitializationFailed = ''failed to initialize vault client''"
| "error_Error ErrSchemaMismatchAfterRetry =
     ''schema still mismatches CR after retry; possible schema config issue''"
| "error_Error ErrSetupTestsFailed = ''setup tests failed''"
| "error_Error ErrConnectorValidationFailed = ''connector validation failed''"
| "error_Error (VaultErr e) = VaultError_Error e"
| "error_Error (APIErr e) = APIError_Error e"
| "error_Error (ErrorString m) = m"
| "error_Error (Wrapped m e) = m"
| "error_Error (Joined es) = errors_Error_lines es"
| "errors_Error_lines [] = []"
| "errors_Error_lines [e] = error_Error e"
| "errors_Error_lines (e # e' # es) = error_Error e @ [CHR 0x0A] @ errors_Error_lines (e' # es)"

text \<open>
  \<^verbatim>\<open>errors.Is(err, target)\<close> for a sentinel \<open>target\<close>: the error itself, or one it wraps, or one
  of a joined list, depth first.
\<close>

fun errors_Is :: "error \<Rightarrow> error \<Rightarrow> bool"
  and errors_Is_any :: "error list \<Rightarrow> error \<Rightarrow> bool" where
  "errors_Is (Wrapped m e) target = (Wrapped m e = target \<or> errors_Is e target)"
| "errors_Is (Joined es) target = (Joined es = target \<or> errors_Is_any es target)"
| "errors_Is ErrFivetranClientNotInitialized target = (ErrFivetranClientNotInitialized = target)"
| "errors_Is ErrVaultClientInitializationFailed target =
     (ErrVaultClientInitializationFailed = target)"
| "errors_Is ErrSchemaMismatchAfterRetry target = (ErrSchemaMismatchAfterRetry = target)"
| "errors_Is ErrSetupTestsFailed target = (ErrSetupTestsFailed = target)"
| "errors_Is ErrConnectorValidationFailed target = (ErrConnectorValidationFailed = target)"
| "errors_Is (VaultErr e) target = (VaultErr e = target)"
| "errors_Is (APIErr e) target = (APIErr e = target)"
| "errors_Is (ErrorString m) target = (ErrorString m = target)"
| "errors_Is_any [] target = False"
| "errors_Is_any (e # es) target = (errors_Is e target \<or> errors_Is_any es target)"

text \<open>\<^verbatim>\<open>errors.As(err, &vaultErr)\<close> and \<^verbatim>\<open>errors.As(err, &fivetranErr)\<close>: the first one found.\<close>

fun as_VaultError :: "error \<Rightarrow> VaultError option"
  and as_VaultError_any :: "error list \<Rightarrow> VaultError option" where
  "as_VaultError (VaultErr e) = Some e"
| "as_VaultError (Wrapped m e) = as_VaultError e"
| "as_VaultError (Joined es) = as_VaultError_any es"
| "as_VaultError ErrFivetranClientNotInitialized = None"
| "as_VaultError ErrVaultClientInitializationFailed = None"
| "as_VaultError ErrSchemaMismatchAfterRetry = None"
| "as_VaultError ErrSetupTestsFailed = None"
| "as_VaultError ErrConnectorValidationFailed = None"
| "as_VaultError (APIErr e) = None"
| "as_VaultError (ErrorString m) = None"
| "as_VaultError_any [] = None"
| "as_VaultError_any (e # es) =
     (case as_VaultError e of Some v \<Rightarrow> Some v | None \<Rightarrow> as_VaultError_any es)"

fun as_APIError :: "error \<Rightarrow> APIError option"
  and as_APIError_any :: "error list \<Rightarrow> APIError option" where
  "as_APIError (APIErr e) = Some e"
| "as_APIError (Wrapped m e) = as_APIError e"
| "as_APIError (Joined es) = as_APIError_any es"
| "as_APIError ErrFivetranClientNotInitialized = None"
| "as_APIError ErrVaultClientInitializationFailed = None"
| "as_APIError ErrSchemaMismatchAfterRetry = None"
| "as_APIError ErrSetupTestsFailed = None"
| "as_APIError ErrConnectorValidationFailed = None"
| "as_APIError (VaultErr e) = None"
| "as_APIError (ErrorString m) = None"
| "as_APIError_any [] = None"
| "as_APIError_any (e # es) =
     (case as_APIError e of Some v \<Rightarrow> Some v | None \<Rightarrow> as_APIError_any es)"

text \<open>\<^verbatim>\<open>fmt.Errorf(prefix + "%w", err)\<close>.\<close>

definition wrap_error :: "string \<Rightarrow> error \<Rightarrow> error" where
  "wrap_error pfx e = Wrapped (pfx @ error_Error e) e"

section \<open>The resource (api/v1alpha1) and the controller's constants\<close>

record Connector =
  GroupID :: string
  Service :: string
  Auth :: "RawExtension option"
  Config :: "RawExtension option"
  DailySyncTime :: string
  SyncFrequency :: int
  ScheduleType :: string
  Paused :: "bool option"
  RunSetupTests :: "bool option"
  PauseAfterTrial :: "bool option"
  TrustCertificates :: "bool option"
  TrustFingerprints :: "bool option"
  DataDelaySensitivity :: string
  DataDelayThreshold :: int
  NetworkingMethod :: string
  ProxyAgentID :: string
  PrivateLinkID :: string
  HybridDeploymentAgentID :: string

record FivetranConnectorSpec =
  Connector :: Connector
  ConnectorSchemas :: "ConnectorSchemaConfig option"

datatype ConditionStatus = ConditionTrue | ConditionFalse | ConditionUnknown

record Condition =
  Type :: string
  Status :: ConditionStatus
  Reason :: string
  Message :: string
  LastTransitionTime :: nat

record FivetranConnectorStatus =
  ConnectorURL :: string
  ConnectorID :: string
  Conditions :: "Condition list"

text \<open>
  Of the object's metadata the model keeps the annotations. \<^verbatim>\<open>Status\<close> of the resource is
  the field \<open>Status\<close> of this record; the condition's own \<^verbatim>\<open>Status\<close> is \<open>Condition.Status\<close>.
\<close>

record FivetranConnector =
  Annotations :: "string \<rightharpoonup> string"
  Spec :: FivetranConnectorSpec
  Status :: FivetranConnectorStatus

text \<open>\<^verbatim>\<open>ctrl.Result\<close>; \<^verbatim>\<open>RequeueAfter\<close> is a \<^verbatim>\<open>time.Duration\<close>, a number of nanoseconds.\<close>

record ctrl_Result =
  Requeue :: bool
  RequeueAfter :: int

definition time_Minute :: int where
  "time_Minute = 60000000000"

definition no_requeue :: ctrl_Result where
  "no_requeue = \<lparr>Requeue = False, RequeueAfter = 0\<rparr>"

definition annotationConnectorHash :: string where
  "annotationConnectorHash = ''operator.dataverse.redhat.com/connector-hash''"
definition annotationSchemaHash :: string where
  "annotationSchemaHash = ''operator.dataverse.redhat.com/schema-hash''"
definition fivetranConnectorURL_prefix :: string where
  "fivetranConnectorURL_prefix = ''https://fivetran.com/dashboard/connectors/''"
definition conditionTypeConnectorReady :: string where
  "conditionTypeConnectorReady = ''ConnectorReady''"
definition conditionTypeSetupTestReady :: string where
  "conditionTypeSetupTestReady = ''SetupTestReady''"
definition conditionTypeSchemaReady :: string where
  "conditionTypeSchemaReady = ''SchemaReady''"
definition ConnectorReasonSuccess :: string where
  "ConnectorReasonSuccess = ''ReconciledSuccessfully''"
definition ConnectorReasonExistingConnectorAdoptionFailed :: string where
  "ConnectorReasonExistingConnectorAdoptionFailed = ''ExistingConnectorAdoptionFailed''"
definition SetupTestsReasonReconciliationFailed :: string where
  "SetupTestsReasonReconciliationFailed = ''ReconciliationFailed''"
definition SetupTestsReasonReconciliationSuccess :: string where
  "SetupTestsReasonReconciliationSuccess = ''ReconciledSuccessfully''"
definition SetupTestsReasonReconciliationSuccessWithWarnings :: string where
  "SetupTestsReasonReconciliationSuccessWithWarnings = ''ReconciledSuccessfullyWithWarnings''"
definition SetupTestsReasonSkipped :: string where
  "SetupTestsReasonSkipped = ''Skipped''"
definition SchemaReasonReconciliationFailed :: string where
  "SchemaReasonReconciliationFailed = ''ReconciliationFailed''"
definition SchemaReasonReconciliationSuccess :: string where
  "SchemaReasonReconciliationSuccess = ''ReconciledSuccessfully''"
definition SchemaNotFoundError :: string where
  "SchemaNotFoundError = ''NotFound_SchemaConfig''"
definition setupTestStatusPassed :: string where
  "setupTestStatusPassed = ''PASSED''"
definition setupTestStatusSkipped :: string where
  "setupTestStatusSkipped = ''SKIPPED''"
definition setupTestStatusWarning :: string where
  "setupTestStatusWarning = ''WARNING''"
definition msgConnectorReady :: string where
  "msgConnectorReady = ''Connector is ready''"
definition msgSetupTestsCompletedSuccessfully :: string where
  "msgSetupTestsCompletedSuccessfully = ''Setup tests completed successfully''"
definition msgSetupTestsSkipped :: string where
  "msgSetupTestsSkipped = ''Setup tests skipped''"
definition msgSchemaReady :: string where
  "msgSchemaReady = ''Schema configuration is ready''"

section \<open>The collaborators of the controller\<close>

text \<open>
  The fields of the provider's responses that the controller reads: the setup tests of
  \<^verbatim>\<open>RunSetupTests\<close> and the identity attributes of \<^verbatim>\<open>GetConnection\<close>.
\<close>

record SetupTestResponse =
  Title :: string
  Status :: string
  Message :: string

record ConnectionDetails =
  ID :: string
  Service :: string
  GroupID :: string
  Schema :: string

text \<open>
  The connector in the provider's shape (\<^verbatim>\<open>fivetran.Connector\<close> of
  pkg/fivetran/connector_service.go); \<^verbatim>\<open>Config\<close> and \<^verbatim>\<open>Auth\<close> point to a decoded mapping.
\<close>

record fivetran_Connector =
  Service :: string
  Config :: "(string \<times> json) list option"
  Auth :: "(string \<times> json) list option"
  Paused :: "bool option"
  GroupID :: string
  SyncFrequency :: int
  DailySyncTime :: string
  RunSetupTests :: "bool option"
  ScheduleType :: string
  PauseAfterTrial :: "bool option"
  TrustCertificates :: "bool option"
  TrustFingerprints :: "bool option"
  DataDelaySensitivity :: string
  DataDelayThreshold :: int
  NetworkingMethod :: string
  ProxyAgentID :: string
  PrivateLinkID :: string
  HybridDeploymentAgentID :: string

text \<open>
  What the controller calls and does not implement: the two services of the provider's
  client (the interfaces \<^verbatim>\<open>ConnectorService\<close> and \<^verbatim>\<open>SchemaService\<close>), the cluster's client
  (\<^verbatim>\<open>r.Update\<close> and \<^verbatim>\<open>r.Status().Update\<close>), the clock (\<^verbatim>\<open>metav1.Now\<close>) and functions of Go's
  library (\<^verbatim>\<open>json.Marshal\<close> of the declared schema and of the declared connector, the
  hexadecimal MD5 digest \<^verbatim>\<open>fmt.Sprintf("%x", md5.Sum(bytes))\<close>, and \<^verbatim>\<open>json.Unmarshal\<close> into
  an \<^verbatim>\<open>any\<close>). Each call answers from the state \<open>'w\<close> of the world
  outside and may change it. The cluster's client is taken to leave the object it is given
  as the controller built it.
\<close>

record 'w Env =
  Schemas_GetSchemaDetails ::
    "string \<Rightarrow> 'w \<Rightarrow> (ConnectionSchemaDetailsResponse \<times> error option) \<times> 'w"
  Schemas_ReloadSchema :: "string \<Rightarrow> string \<Rightarrow> 'w \<Rightarrow> error option \<times> 'w"
  Schemas_UpdateSchema :: "string \<Rightarrow> builder \<Rightarrow> 'w \<Rightarrow> error option \<times> 'w"
  Connections_GetConnection :: "string \<Rightarrow> 'w \<Rightarrow> (ConnectionDetails \<times> error option) \<times> 'w"
  Connections_RunSetupTests ::
    "string \<Rightarrow> bool option \<Rightarrow> bool option \<Rightarrow> 'w
       \<Rightarrow> (SetupTestResponse list \<times> error option) \<times> 'w"
  Client_Update :: "FivetranConnector \<Rightarrow> 'w \<Rightarrow> error option \<times> 'w"
  Client_Status_Update :: "FivetranConnector \<Rightarrow> 'w \<Rightarrow> error option \<times> 'w"
  metav1_Now :: "'w \<Rightarrow> nat"
  json_Marshal_schema :: "ConnectorSchemaConfig \<Rightarrow> string + string"
  json_Marshal_connector :: "Connector \<Rightarrow> string + string"
  md5_hex :: "string \<Rightarrow> string"
  json_Unmarshal_any :: "string \<Rightarrow> string + json"

text \<open>
  The calls a run makes, each with its arguments, in order; a fetch of the schema also with
  its answer, and a schema reload, a schema update and an update of the resource also with
  the error they returned.
\<close>

datatype call =
    CallGetSchemaDetails string ConnectionSchemaDetailsResponse "error option"
  | CallReloadSchema string string "error option"
  | CallUpdateSchema string builder "error option"
  | CallGetConnection string
  | CallRunSetupTests string "bool option" "bool option"
  | CallUpdate FivetranConnector "error option"
  | CallStatusUpdate FivetranConnector

text \<open>
  The state a run threads: the resource behind the pointer \<^verbatim>\<open>connector\<close>, the world outside,
  and the calls made so far (a record of the run, not a variable of the program).
\<close>

record 'w run =
  connector :: FivetranConnector
  world :: 'w
  calls :: "call list"

definition do_GetSchemaDetails ::
  "'w Env \<Rightarrow> string \<Rightarrow> 'w run \<Rightarrow> (ConnectionSchemaDetailsResponse \<times> error option) \<times> 'w run" where
  "do_GetSchemaDetails env connectorID s =
     (case Schemas_GetSchemaDetails env connectorID (world s) of
        (r, w) \<Rightarrow>
          (r, s\<lparr>world := w,
                calls := calls s @ [CallGetSchemaDetails connectorID (fst r) (snd r)]\<rparr>))"

definition do_ReloadSchema ::
  "'w Env \<Rightarrow> string \<Rightarrow> string \<Rightarrow> 'w run \<Rightarrow> error option \<times> 'w run" where
  "do_ReloadSchema env connectorID excludeMode s =
     (case Schemas_ReloadSchema env connectorID excludeMode (world s) of
        (r, w) \<Rightarrow>
          (r, s\<lparr>world := w, calls := calls s @ [CallReloadSchema connectorID excludeMode r]\<rparr>))"

definition do_UpdateSchema ::
  "'w Env \<Rightarrow> string \<Rightarrow> builder \<Rightarrow> 'w run \<Rightarrow> error option \<times> 'w run" where
  "do_UpdateSchema env connectorID b s =
     (case Schemas_UpdateSchema env connectorID b (world s) of
        (r, w) \<Rightarrow> (r, s\<lparr>world := w, calls := calls s @ [CallUpdateSchema connectorID b r]\<rparr>))"

definition do_GetConnection ::
  "'w Env \<Rightarrow> string \<Rightarrow> 'w run \<Rightarrow> (ConnectionDetails \<times> error option) \<times> 'w run" where
  "do_GetConnection env connectorID s =
     (case Connections_GetConnection env connectorID (world s) of
        (r, w) \<Rightarrow> (r, s\<lparr>world := w, calls := calls s @ [CallGetConnection connectorID]\<rparr>))"

definition do_RunSetupTests ::
  "'w Env \<Rightarrow> string \<Rightarrow> bool option \<Rightarrow> bool option \<Rightarrow> 'w run
     \<Rightarrow> (SetupTestResponse list \<times> error option) \<times> 'w run" where
  "do_RunSetupTests env connectorID tc tf s =
     (case Connections_RunSetupTests env connectorID tc tf (world s) of
        (r, w) \<Rightarrow> (r, s\<lparr>world := w, calls := calls s @ [CallRunSetupTests connectorID tc tf]\<rparr>))"

text \<open>\<^verbatim>\<open>r.Update(ctx, connector)\<close> and \<^verbatim>\<open>r.Status().Update(ctx, connector)\<close>.\<close>

definition do_Update :: "'w Env \<Rightarrow> 'w run \<Rightarrow> error option \<times> 'w run" where
  "do_Update env s =
     (case Client_Update env (connector s) (world s) of
        (r, w) \<Rightarrow> (r, s\<lparr>world := w, calls := calls s @ [CallUpdate (connector s) r]\<rparr>))"

definition do_Status_Update :: "'w Env \<Rightarrow> 'w run \<Rightarrow> error option \<times> 'w run" where
  "do_Status_Update env s =
     (case Client_Status_Update env (connector s) (world s) of
        (r, w) \<Rightarrow> (r, s\<lparr>world := w, calls := calls s @ [CallStatusUpdate (connector s)]\<rparr>))"

section \<open>Status conditions and error handling (status_mgmt.go)\<close>

text \<open>
  The loop of \<^verbatim>\<open>setCondition\<close>: the first condition of the same type is replaced; \<open>None\<close> when
  the list holds none.
\<close>

fun setCondition_range :: "Condition \<Rightarrow> Condition list \<Rightarrow> Condition list option" where
  "setCondition_range condition [] = None"
| "setCondition_range condition (existingCondition # rest) =
     (if Type existingCondition = Type condition then Some (condition # rest)
      else map_option (\<lambda>cs. existingCondition # cs) (setCondition_range condition rest))"

definition setCondition ::
  "'w Env \<Rightarrow> string \<Rightarrow> ConditionStatus \<Rightarrow> string \<Rightarrow> string \<Rightarrow> 'w run \<Rightarrow> error option \<times> 'w run" where
  "setCondition env conditionType status reason message s =
     (let condition = \<lparr>Type = conditionType, Status = status, Reason = reason,
                        Message = message, LastTransitionTime = metav1_Now env (world s)\<rparr>;
          conds = Conditions (FivetranConnector.Status (connector s));
          conds' = (case setCondition_range condition conds of
                      Some replaced \<Rightarrow> replaced
                    | None \<Rightarrow> conds @ [condition])
      in do_Status_Update env
           (s\<lparr>connector := (connector s)\<lparr>FivetranConnector.Status :=
                 (FivetranConnector.Status (connector s))\<lparr>Conditions := conds'\<rparr>\<rparr>\<rparr>))"

text \<open>
  \<^verbatim>\<open>handleError\<close>: the result and error that \<^verbatim>\<open>Reconcile\<close> returns for a failure.
\<close>

definition handleError ::
  "'w Env \<Rightarrow> string \<Rightarrow> string \<Rightarrow> error \<Rightarrow> 'w run \<Rightarrow> (ctrl_Result \<times> error option) \<times> 'w run" where
  "handleError env conditionType reason e s =
     (if errors_Is e ErrSchemaMismatchAfterRetry then
        (case setCondition env conditionType ConditionFalse reason (error_Error e) s of
           (r, s1) \<Rightarrow> ((no_requeue, r), s1))
      else if errors_Is e ErrSetupTestsFailed then
        (case setCondition env conditionTypeConnectorReady ConditionTrue ConnectorReasonSuccess
                msgConnectorReady s of
           (Some e1, s1) \<Rightarrow> ((no_requeue, Some e1), s1)
         | (None, s1) \<Rightarrow>
             (case setCondition env conditionType ConditionFalse reason (error_Error e) s1 of
                (r, s2) \<Rightarrow> ((no_requeue, r), s2)))
      else if errors_Is e ErrConnectorValidationFailed then
        (case setCondition env conditionType ConditionFalse reason (error_Error e) s of
           (r, s1) \<Rightarrow> ((no_requeue, r), s1))
      else (case as_VaultError e of
              Some vaultErr \<Rightarrow>
                (case setCondition env conditionType ConditionFalse reason (error_Error e) s of
                   (r, s1) \<Rightarrow>
                     ((if VaultError_IsRetryable vaultErr
                       then \<lparr>Requeue = False, RequeueAfter = 5 * time_Minute\<rparr>
                       else no_requeue, r), s1))
            | None \<Rightarrow>
                (case as_APIError e of
                   Some fivetranErr \<Rightarrow>
                     (case setCondition env conditionType ConditionFalse reason
                             (APIError_Error fivetranErr) s of
                        (r, s1) \<Rightarrow>
                          ((if APIError_IsRetryable fivetranErr
                            then \<lparr>Requeue = False, RequeueAfter = 5 * time_Minute\<rparr>
                            else no_requeue, r), s1))
                 | None \<Rightarrow>
                     (case setCondition env conditionType ConditionFalse reason (error_Error e) s of
                        (Some e1, s1) \<Rightarrow> ((no_requeue, Some e1), s1)
                      | (None, s1) \<Rightarrow> ((no_requeue, Some e), s1)))))"

text \<open>
  What the controller runtime does with what \<^verbatim>\<open>Reconcile\<close> returns (the contract of
  controller-runtime's \<^verbatim>\<open>Reconciler\<close>): it runs the request again when the error is not
  \<^verbatim>\<open>nil\<close>, or else when the result asks for it.
\<close>

definition requeued :: "ctrl_Result \<times> error option \<Rightarrow> bool" where
  "requeued r =
     (case snd r of
        Some e \<Rightarrow> True
      | None \<Rightarrow> Requeue (fst r) \<or> RequeueAfter (fst r) > 0)"

text \<open>The first condition of a type, which is the one \<^verbatim>\<open>setCondition\<close> maintains.\<close>

definition condition_of :: "'w run \<Rightarrow> string \<Rightarrow> Condition option" where
  "condition_of s conditionType =
     find (\<lambda>c. Type c = conditionType) (Conditions (FivetranConnector.Status (connector s)))"

text \<open>The conditions of the resource whose type is not among \<open>ts\<close>.\<close>

definition conditions_except :: "string list \<Rightarrow> 'w run \<Rightarrow> Condition list" where
  "conditions_except ts s =
     filter (\<lambda>c. Type c \<notin> set ts) (Conditions (FivetranConnector.Status (connector s)))"

section \<open>Setup tests (setup_tests.go)\<close>

definition updateSetupTestsCondition :: "'w Env \<Rightarrow> string list \<Rightarrow> 'w run \<Rightarrow> error option \<times> 'w run" where
  "updateSetupTestsCondition env setupTestWarnings s =
     (let runTests =
            (case Connector.RunSetupTests (Connector (Spec (connector s))) of
               None \<Rightarrow> True
             | Some b \<Rightarrow> b)
      in if \<not> runTests
         then setCondition env conditionTypeSetupTestReady ConditionTrue SetupTestsReasonSkipped
                msgSetupTestsSkipped s
         else if length setupTestWarnings > 0
         then setCondition env conditionTypeSetupTestReady ConditionTrue
                SetupTestsReasonReconciliationSuccessWithWarnings
                (''Setup tests completed with warnings: '' @ strings_Join setupTestWarnings ''; '') s
         else setCondition env conditionTypeSetupTestReady ConditionTrue
                SetupTestsReasonReconciliationSuccess msgSetupTestsCompletedSuccessfully s)"

text \<open>
  The loop of \<^verbatim>\<open>reconcileSetupTests\<close> over the test results, with the warning messages and
  the errors it collects.
\<close>

fun setupTests_range ::
  "SetupTestResponse list \<Rightarrow> string list \<times> error list \<Rightarrow> string list \<times> error list" where
  "setupTests_range [] acc = acc"
| "setupTests_range (test # rest) (warningMessages, setupTestErrors) =
     (if SetupTestResponse.Status test = setupTestStatusWarning
      then setupTests_range rest
             (warningMessages
                @ [SetupTestResponse.Title test @ '': '' @ SetupTestResponse.Message test],
              setupTestErrors)
      else if SetupTestResponse.Status test \<noteq> setupTestStatusPassed
              \<and> SetupTestResponse.Status test \<noteq> setupTestStatusSkipped
      then setupTests_range rest
             (warningMessages,
              setupTestErrors
                @ [ErrorString (''reconcileSetupTests failed: '' @ SetupTestResponse.Title test
                     @ '' (status: '' @ SetupTestResponse.Status test @ '') - ''
                     @ SetupTestResponse.Message test)])
      else setupTests_range rest (warningMessages, setupTestErrors))"

definition reconcileSetupTests ::
  "'w Env \<Rightarrow> string \<Rightarrow> 'w run \<Rightarrow> (string list \<times> error option) \<times> 'w run" where
  "reconcileSetupTests env connectorID s =
     (let runTests =
            (case Connector.RunSetupTests (Connector (Spec (connector s))) of
               None \<Rightarrow> True
             | Some b \<Rightarrow> b)
      in if \<not> runTests
         then (case updateSetupTestsCondition env [] s of
                 (Some e, s1) \<Rightarrow> (([], Some e), s1)
               | (None, s1) \<Rightarrow> (([], None), s1))
         else (case do_RunSetupTests env connectorID
                      (Connector.TrustCertificates (Connector (Spec (connector s))))
                      (Connector.TrustFingerprints (Connector (Spec (connector s)))) s of
                 ((resp, Some e), s1) \<Rightarrow> (([], Some (wrap_error ''reconcileSetupTests: '' e)), s1)
               | ((resp, None), s1) \<Rightarrow>
                   (case setupTests_range resp ([], []) of
                      (warningMessages, setupTestErrors) \<Rightarrow>
                        if length setupTestErrors > 0
                        then ((warningMessages,
                               Some (Wrapped (error_Error ErrSetupTestsFailed @ '': ''
                                              @ error_Error (Joined setupTestErrors))
                                       ErrSetupTestsFailed)), s1)
                        else (case updateSetupTestsCondition env warningMessages s1 of
                                (r, s2) \<Rightarrow> ((warningMessages, r), s2)))))"

text \<open>The status, reason and message of the first condition of a type.\<close>

definition condition_summary :: "'w run \<Rightarrow> string \<Rightarrow> (ConditionStatus \<times> string \<times> string) option" where
  "condition_summary s conditionType =
     map_option (\<lambda>c. (Condition.Status c, Reason c, Condition.Message c))
       (condition_of s conditionType)"

text \<open>
  A setup test counts as failed when its status is neither \<open>PASSED\<close> nor \<open>SKIPPED\<close> nor
  \<open>WARNING\<close> (the comment in \<^verbatim>\<open>reconcileSetupTests\<close>).
\<close>

definition setup_test_failed :: "SetupTestResponse \<Rightarrow> bool" where
  "setup_test_failed test =
     (SetupTestResponse.Status test \<noteq> setupTestStatusWarning
      \<and> SetupTestResponse.Status test \<noteq> setupTestStatusPassed
      \<and> SetupTestResponse.Status test \<noteq> setupTestStatusSkipped)"

text \<open>
  A world for concrete runs: every call succeeds, \<^verbatim>\<open>RunSetupTests\<close> returns the given tests,
  \<^verbatim>\<open>GetSchemaDetails\<close> the given schema and \<^verbatim>\<open>GetConnection\<close> the given connection; the
  world's state counts the calls and is the clock. And a resource with a declared connector,
  no declared schema and a \<open>ConnectorReady\<close> condition.
\<close>

definition test_env ::
  "SetupTestResponse list \<Rightarrow> ConnectionSchemaDetailsResponse \<Rightarrow> ConnectionDetails \<Rightarrow> nat Env" where
  "test_env tests schemaDetails details =
     \<lparr>Schemas_GetSchemaDetails = (\<lambda>connectorID w. ((schemaDetails, None), Suc w)),
      Schemas_ReloadSchema = (\<lambda>connectorID excludeMode w. (None, Suc w)),
      Schemas_UpdateSchema = (\<lambda>connectorID b w. (None, Suc w)),
      Connections_GetConnection = (\<lambda>connectorID w. ((details, None), Suc w)),
      Connections_RunSetupTests = (\<lambda>connectorID tc tf w. ((tests, None), Suc w)),
      Client_Update = (\<lambda>obj w. (None, Suc w)),
      Client_Status_Update = (\<lambda>obj w. (None, Suc w)),
      metav1_Now = (\<lambda>w. w),
      json_Marshal_schema = (\<lambda>c. Inr ''{}''),
      json_Marshal_connector = (\<lambda>c. Inr ''{}''),
      md5_hex = (\<lambda>bytes. ''99914b932bd37a50b983c5e7c90ae93b''),
      json_Unmarshal_any = (\<lambda>bytes. Inr (JObject []))\<rparr>"

definition test_connector :: Connector where
  "test_connector =
     \<lparr>Connector.GroupID = ''group_1'', Service = ''postgres'', Auth = None,
      Config = Some \<lparr>Raw = Some ''{}''\<rparr>, DailySyncTime = [], SyncFrequency = 60,
      ScheduleType = ''auto'', Paused = Some False, RunSetupTests = Some True,
      PauseAfterTrial = Some False, TrustCertificates = Some True,
      TrustFingerprints = Some True, DataDelaySensitivity = [], DataDelayThreshold = 0,
      NetworkingMethod = [], ProxyAgentID = [], PrivateLinkID = [],
      HybridDeploymentAgentID = []\<rparr>"

definition test_run :: "nat run" where
  "test_run =
     \<lparr>connector =
        \<lparr>Annotations = Map.empty,
         Spec = \<lparr>Connector = test_connector, ConnectorSchemas = None\<rparr>,
         Status = \<lparr>ConnectorURL = ''https://fivetran.com/dashboard/connectors/conn_1'',
                   ConnectorID = ''conn_1'',
                   Conditions = [\<lparr>Type = ''ConnectorReady'', Status = ConditionTrue,
                                   Reason = ''ReconciledSuccessfully'',
                                   Message = ''Connector is ready'',
                                   LastTransitionTime = 0\<rparr>]\<rparr>\<rparr>,
      world = 1, calls = []\<rparr>"

definition test_no_schema :: ConnectionSchemaDetailsResponse where
  "test_no_schema =
     \<lparr>ConnectionSchemaDetailsResponse.Code = [], Message = [],
      Data = \<lparr>ConnectionSchemaDetailsResponse_Data.SchemaChangeHandling = ''ALLOW_ALL'',
               Schemas = Map.empty\<rparr>\<rparr>"

definition test_details :: ConnectionDetails where
  "test_details =
     \<lparr>ConnectionDetails.ID = ''conn_1'', Service = ''postgres'', GroupID = ''group_1'',
      Schema = ''public''\<rparr>"

section \<open>Reconciling the schema (utils.go, schema.go)\<close>

text \<open>
  \<^verbatim>\<open>processTableColumns\<close>, \<^verbatim>\<open>processSchemaTable\<close> and the loop of \<^verbatim>\<open>convertSchema\<close>: each ranges
  over a declared map and skips a \<^verbatim>\<open>nil\<close> entry.
\<close>

fun processTableColumns ::
  "string \<Rightarrow> string \<Rightarrow> (string \<times> ColumnObject option) list \<Rightarrow> builder \<Rightarrow> builder" where
  "processTableColumns schemaName tableName [] b = b"
| "processTableColumns schemaName tableName ((columnName, None) # rest) b =
     processTableColumns schemaName tableName rest b"
| "processTableColumns schemaName tableName ((columnName, Some col) # rest) b =
     processTableColumns schemaName tableName rest
       (AddColumn schemaName tableName columnName (ColumnObject.Enabled col) (Hashed col)
          (IsPrimaryKey col) b)"

fun processSchemaTable :: "string \<Rightarrow> (string \<times> TableObject option) list \<Rightarrow> builder \<Rightarrow> builder" where
  "processSchemaTable schemaName [] b = b"
| "processSchemaTable schemaName ((tableName, None) # rest) b =
     processSchemaTable schemaName rest b"
| "processSchemaTable schemaName ((tableName, Some t) # rest) b =
     processSchemaTable schemaName rest
       (processTableColumns schemaName tableName (Columns t)
          (AddTable schemaName tableName (TableObject.Enabled t) (TableObject.SyncMode t) b))"

fun convertSchema_range :: "(string \<times> SchemaObject option) list \<Rightarrow> builder \<Rightarrow> builder" where
  "convertSchema_range [] b = b"
| "convertSchema_range ((schemaName, None) # rest) b = convertSchema_range rest b"
| "convertSchema_range ((schemaName, Some sch) # rest) b =
     convertSchema_range rest
       (processSchemaTable schemaName (SchemaObject.Tables sch)
          (AddSchema schemaName (SchemaObject.Enabled sch) b))"

text \<open>\<^verbatim>\<open>convertSchema\<close>: \<open>None\<close> is the \<^verbatim>\<open>nil\<close> builder it returns for a \<^verbatim>\<open>nil\<close> schema.\<close>

definition convertSchema :: "ConnectorSchemaConfig option \<Rightarrow> builder option" where
  "convertSchema apiSchema =
     (case apiSchema of
        None \<Rightarrow> None
      | Some a \<Rightarrow>
          Some (let b0 = NewSchemaBuilder;
                    b1 = (if ConnectorSchemaConfig.SchemaChangeHandling a \<noteq> []
                          then WithSchemaChangeHandling
                                 (ConnectorSchemaConfig.SchemaChangeHandling a) b0
                          else b0)
                in if length (ConnectorSchemaConfig.Schemas a) > 0
                   then convertSchema_range (ConnectorSchemaConfig.Schemas a) b1
                   else b1))"

definition calculateSchemaHash :: "'w Env \<Rightarrow> FivetranConnector \<Rightarrow> error + string" where
  "calculateSchemaHash env c =
     (case ConnectorSchemas (Spec c) of
        None \<Rightarrow> Inr []
      | Some sch \<Rightarrow>
          (case json_Marshal_schema env sch of
             Inl e \<Rightarrow> Inl (ErrorString e)
           | Inr bytes \<Rightarrow> Inr (md5_hex env bytes)))"

text \<open>\<^verbatim>\<open>kubeutils.SetAnnotation\<close>.\<close>

definition SetAnnotation :: "string \<Rightarrow> string \<Rightarrow> FivetranConnector \<Rightarrow> FivetranConnector" where
  "SetAnnotation key v obj = obj\<lparr>Annotations := (Annotations obj)(key \<mapsto> v)\<rparr>"

definition updateSchemaHash :: "'w Env \<Rightarrow> 'w run \<Rightarrow> error option \<times> 'w run" where
  "updateSchemaHash env s =
     (case calculateSchemaHash env (connector s) of
        Inl e \<Rightarrow> (Some e, s)
      | Inr hash \<Rightarrow>
          do_Update env (s\<lparr>connector := SetAnnotation annotationSchemaHash hash (connector s)\<rparr>))"

text \<open>
  \<^verbatim>\<open>applySchema\<close>. The service's \<^verbatim>\<open>UpdateSchema\<close> (schema_service.go) calls \<^verbatim>\<open>builder.Build()\<close>
  first, which dereferences the builder: a \<^verbatim>\<open>nil\<close> builder panics.
\<close>

definition applySchema :: "'w Env \<Rightarrow> string \<Rightarrow> 'w run \<Rightarrow> error option outcome \<times> 'w run" where
  "applySchema env connectorID s =
     (case convertSchema (ConnectorSchemas (Spec (connector s))) of
        None \<Rightarrow> (Panics, s)
      | Some b \<Rightarrow>
          (case do_UpdateSchema env connectorID b s of
             (Some e, s1) \<Rightarrow> (Returns (Some (wrap_error ''applySchema: '' e)), s1)
           | (None, s1) \<Rightarrow>
               (case updateSchemaHash env s1 of (r, s2) \<Rightarrow> (Returns r, s2))))"

text \<open>
  \<^verbatim>\<open>reloadSchema\<close> reads \<^verbatim>\<open>connector.Spec.ConnectorSchemas.SchemaChangeHandling\<close> and so panics
  when no schema is declared.
\<close>

definition reloadSchema :: "'w Env \<Rightarrow> string \<Rightarrow> 'w run \<Rightarrow> error option outcome \<times> 'w run" where
  "reloadSchema env connectorID s =
     (case ConnectorSchemas (Spec (connector s)) of
        None \<Rightarrow> (Panics, s)
      | Some sch \<Rightarrow>
          (let excludeMode =
                 (if ConnectorSchemaConfig.SchemaChangeHandling sch = ''BLOCK_ALL''
                  then ''EXCLUDE'' else ''PRESERVE'')
           in case do_ReloadSchema env connectorID excludeMode s of
                (Some e, s1) \<Rightarrow> (Returns (Some (wrap_error ''reloadSchema: '' e)), s1)
              | (None, s1) \<Rightarrow> (Returns None, s1)))"

text \<open>
  The error \<^verbatim>\<open>reconcileSchema\<close> returns when the comparison after the retry mismatches:
  \<^verbatim>\<open>ErrSchemaMismatchAfterRetry\<close> wrapped in a message that holds the rendered report.
\<close>

definition mismatch_after_retry_error :: "SchemaMismatch \<Rightarrow> error" where
  "mismatch_after_retry_error retryMismatchDetails =
     Wrapped (''reconcileSchema compareSchemaWithCR retry: mismatches: ''
                @ SchemaMismatch_String retryMismatchDetails @ '' - ''
                @ error_Error ErrSchemaMismatchAfterRetry)
       ErrSchemaMismatchAfterRetry"

text \<open>
  \<^verbatim>\<open>reconcileSchema\<close>, in three parts: the recovery cycle (the body of \<^verbatim>\<open>if !matches\<close>), the
  part from \<open>Apply schema configuration\<close> on, and the whole function.
\<close>

definition reconcileSchema_retry ::
  "'w Env \<Rightarrow> string \<Rightarrow> 'w run \<Rightarrow> error option outcome \<times> 'w run" where
  "reconcileSchema_retry env connectorID s =
     (case reloadSchema env connectorID s of
        (Panics, s1) \<Rightarrow> (Panics, s1)
      | (Returns (Some e), s1) \<Rightarrow>
          (Returns (Some (wrap_error ''reconcileSchema reloadSchema retry: '' e)), s1)
      | (Returns None, s1) \<Rightarrow>
          (case applySchema env connectorID s1 of
             (Panics, s2) \<Rightarrow> (Panics, s2)
           | (Returns (Some e), s2) \<Rightarrow>
               (Returns (Some (wrap_error ''reconcileSchema applySchema retry: '' e)), s2)
           | (Returns None, s2) \<Rightarrow>
               (case do_GetSchemaDetails env connectorID s2 of
                  ((schemaDetails, Some e), s3) \<Rightarrow>
                    (Returns (Some (wrap_error ''reconcileSchema getSchemaDetails retry: '' e)), s3)
                | ((schemaDetails, None), s3) \<Rightarrow>
                    (case CompareSchemaWithCR schemaDetails
                            (ConnectorSchemas (Spec (connector s3))) of
                       Panics \<Rightarrow> (Panics, s3)
                     | Returns (retryMatches, retryMismatchDetails) \<Rightarrow>
                         if \<not> retryMatches
                         then (Returns (Some (mismatch_after_retry_error
                                                retryMismatchDetails)), s3)
                         else (Returns None, s3)))))"

definition reconcileSchema_done :: "'w Env \<Rightarrow> 'w run \<Rightarrow> error option outcome \<times> 'w run" where
  "reconcileSchema_done env s =
     (case setCondition env conditionTypeSchemaReady ConditionTrue
             SchemaReasonReconciliationSuccess msgSchemaReady s of
        (r, s1) \<Rightarrow> (Returns r, s1))"

definition reconcileSchema_apply ::
  "'w Env \<Rightarrow> string \<Rightarrow> 'w run \<Rightarrow> error option outcome \<times> 'w run" where
  "reconcileSchema_apply env connectorID s =
     (case applySchema env connectorID s of
        (Panics, s1) \<Rightarrow> (Panics, s1)
      | (Returns (Some e), s1) \<Rightarrow> (Returns (Some (wrap_error ''reconcileSchema: '' e)), s1)
      | (Returns None, s1) \<Rightarrow>
          (case do_GetSchemaDetails env connectorID s1 of
             ((schemaDetails, Some e), s2) \<Rightarrow>
               (Returns (Some (wrap_error
                  ''reconcileSchema: failed to get schema details after apply: '' e)), s2)
           | ((schemaDetails, None), s2) \<Rightarrow>
               (case CompareSchemaWithCR schemaDetails
                       (ConnectorSchemas (Spec (connector s2))) of
                  Panics \<Rightarrow> (Panics, s2)
                | Returns (matches, mismatchDetails) \<Rightarrow>
                    if \<not> matches
                    then (case reconcileSchema_retry env connectorID s2 of
                            (Returns None, s3) \<Rightarrow> reconcileSchema_done env s3
                          | (r, s3) \<Rightarrow> (r, s3))
                    else reconcileSchema_done env s2)))"

definition reconcileSchema :: "'w Env \<Rightarrow> string \<Rightarrow> 'w run \<Rightarrow> error option outcome \<times> 'w run" where
  "reconcileSchema env connectorID s =
     (case do_GetSchemaDetails env connectorID s of
        ((schemaDetails, Some e), s1) \<Rightarrow>
          if ConnectionSchemaDetailsResponse.Code schemaDetails \<noteq> SchemaNotFoundError
          then (Returns (Some (wrap_error ''reconcileSchema: failed to get schema details: '' e)),
                s1)
          else (case reloadSchema env connectorID s1 of
                  (Panics, s2) \<Rightarrow> (Panics, s2)
                | (Returns (Some e2), s2) \<Rightarrow>
                    (Returns (Some (wrap_error ''reconcileSchema: '' e2)), s2)
                | (Returns None, s2) \<Rightarrow> reconcileSchema_apply env connectorID s2)
      | ((schemaDetails, None), s1) \<Rightarrow> reconcileSchema_apply env connectorID s1)"

text \<open>
  Reading the record of a run against the declared schema. A fetch of the live schema either
  failed, or its answer matches the declared schema, or mismatches it with a report (or the
  comparison panics). A schema reload, a schema update and the write of the schema hash to
  the resource each succeeded (\<open>True\<close>) or returned an error (\<open>False\<close>). The recovery cycles of
  a run are its schema reloads after the first schema update (a reload before it creates a
  schema that was not found); the post-apply fetches are its fetches after the first schema
  update.
\<close>

datatype fetch_verdict =
    FetchFailed | FetchMatches | FetchMismatches SchemaMismatch | FetchComparePanics

datatype call_kind =
    Fetch fetch_verdict | Reload bool | ApplySchema bool | Persist bool | StatusWrite | OtherCall

fun kind_of :: "ConnectorSchemaConfig option \<Rightarrow> call \<Rightarrow> call_kind" where
  "kind_of crSchema (CallGetSchemaDetails connectorID schemaDetails e) =
     Fetch (case e of
              Some x \<Rightarrow> FetchFailed
            | None \<Rightarrow>
                (case CompareSchemaWithCR schemaDetails crSchema of
                   Panics \<Rightarrow> FetchComparePanics
                 | Returns (matches, mismatchDetails) \<Rightarrow>
                     if matches then FetchMatches else FetchMismatches mismatchDetails))"
| "kind_of crSchema (CallReloadSchema connectorID excludeMode r) = Reload (r = None)"
| "kind_of crSchema (CallUpdateSchema connectorID b r) = ApplySchema (r = None)"
| "kind_of crSchema (CallUpdate obj r) = Persist (r = None)"
| "kind_of crSchema (CallStatusUpdate obj) = StatusWrite"
| "kind_of crSchema (CallGetConnection connectorID) = OtherCall"
| "kind_of crSchema (CallRunSetupTests connectorID tc tf) = OtherCall"

fun is_ApplySchema :: "call_kind \<Rightarrow> bool" where
  "is_ApplySchema (ApplySchema ok) = True"
| "is_ApplySchema k = False"

fun is_Reload :: "call_kind \<Rightarrow> bool" where
  "is_Reload (Reload ok) = True"
| "is_Reload k = False"

definition after_first_apply :: "call_kind list \<Rightarrow> call_kind list" where
  "after_first_apply ks = dropWhile (\<lambda>k. \<not> is_ApplySchema k) ks"

definition recovery_cycles :: "call_kind list \<Rightarrow> nat" where
  "recovery_cycles ks = length (filter is_Reload (after_first_apply ks))"

definition schema_updates :: "call_kind list \<Rightarrow> nat" where
  "schema_updates ks = length (filter is_ApplySchema ks)"

fun fetches :: "call_kind list \<Rightarrow> fetch_verdict list" where
  "fetches [] = []"
| "fetches (Fetch v # ks) = v # fetches ks"
| "fetches (k # ks) = fetches ks"

definition post_apply_fetches :: "call_kind list \<Rightarrow> fetch_verdict list" where
  "post_apply_fetches ks = fetches (after_first_apply ks)"

text \<open>
  A run from \<open>s\<close> to \<open>s'\<close> leaves the declared resource as it is and adds calls of the
  kinds \<open>ks\<close> to the record.
\<close>

definition run_kinds :: "'w run \<Rightarrow> 'w run \<Rightarrow> call_kind list \<Rightarrow> bool" where
  "run_kinds s s' ks =
     (Spec (connector s') = Spec (connector s)
      \<and> (\<exists>cs. calls s' = calls s @ cs
               \<and> map (kind_of (ConnectorSchemas (Spec (connector s)))) cs = ks))"

text \<open>
  The calls of a recovery cycle with what the cycle returns. The reload is always made; the
  schema update is made when the reload succeeded, the write of the schema hash when the
  update succeeded, and the fetch with its comparison when that write succeeded; the cycle
  stops before the comparison only after a call that failed, and then returns an error.
\<close>

definition returns_error :: "error option outcome \<Rightarrow> bool" where
  "returns_error out = (\<exists>e. out = Returns (Some e))"

definition retry_shape :: "call_kind list \<Rightarrow> error option outcome \<Rightarrow> bool" where
  "retry_shape ks out =
     ((ks = [Reload False] \<and> returns_error out)
      \<or> (ks = [Reload True, ApplySchema False] \<and> returns_error out)
      \<or> (ks = [Reload True, ApplySchema True, Persist False] \<and> returns_error out)
      \<or> (ks = [Reload True, ApplySchema True, Persist True, Fetch FetchFailed]
          \<and> returns_error out)
      \<or> (ks = [Reload True, ApplySchema True, Persist True, Fetch FetchComparePanics]
          \<and> out = Panics)
      \<or> (ks = [Reload True, ApplySchema True, Persist True, Fetch FetchMatches]
          \<and> out = Returns None)
      \<or> (\<exists>report. ks = [Reload True, ApplySchema True, Persist True,
                           Fetch (FetchMismatches report)]
            \<and> HasMismatch report
            \<and> out = Returns (Some (mismatch_after_retry_error report))))"

text \<open>
  The calls of the part of \<^verbatim>\<open>reconcileSchema\<close> from the first schema update on, for the
  declared schema \<open>crSchema\<close>; \<open>hash_fails\<close> tells whether computing the schema hash fails.
  Without a declared schema the update panics before any call. A stop before the first
  comparison follows a call that failed, or the failure to compute the hash. After a first
  comparison that matches the status is written; after one that mismatches comes the
  recovery cycle, and the status is written when its comparison matches.
\<close>

definition apply_shape ::
  "ConnectorSchemaConfig option \<Rightarrow> bool \<Rightarrow> call_kind list \<Rightarrow> error option outcome \<Rightarrow> bool" where
  "apply_shape crSchema hash_fails ks out =
     ((crSchema = None \<and> ks = [] \<and> out = Panics)
      \<or> (crSchema \<noteq> None \<and> ks = [ApplySchema False] \<and> returns_error out)
      \<or> (crSchema \<noteq> None \<and> hash_fails \<and> ks = [ApplySchema True] \<and> returns_error out)
      \<or> (crSchema \<noteq> None \<and> \<not> hash_fails
          \<and> ks = [ApplySchema True, Persist False] \<and> returns_error out)
      \<or> (crSchema \<noteq> None \<and> \<not> hash_fails
          \<and> ks = [ApplySchema True, Persist True, Fetch FetchFailed] \<and> returns_error out)
      \<or> (crSchema \<noteq> None \<and> \<not> hash_fails
          \<and> ks = [ApplySchema True, Persist True, Fetch FetchComparePanics] \<and> out = Panics)
      \<or> (crSchema \<noteq> None \<and> \<not> hash_fails
          \<and> ks = [ApplySchema True, Persist True, Fetch FetchMatches, StatusWrite]
          \<and> out \<noteq> Panics)
      \<or> (crSchema \<noteq> None \<and> \<not> hash_fails
          \<and> (\<exists>first rs. ks = [ApplySchema True, Persist True, Fetch (FetchMismatches first)] @ rs
                 \<and> HasMismatch first \<and> retry_shape rs out \<and> out \<noteq> Returns None))
      \<or> (crSchema \<noteq> None \<and> \<not> hash_fails
          \<and> (\<exists>first. ks = [ApplySchema True, Persist True, Fetch (FetchMismatches first),
                              Reload True, ApplySchema True, Persist True, Fetch FetchMatches,
                              StatusWrite]
                 \<and> HasMismatch first \<and> out \<noteq> Panics)))"

text \<open>
  The calls of a whole run of \<^verbatim>\<open>reconcileSchema\<close>: the first fetch; when it failed, nothing
  more or the reload that creates a schema that was not found; and, after a fetch that
  answered or a reload that succeeded, the part from the first schema update on.
\<close>

definition reconcile_shape ::
  "ConnectorSchemaConfig option \<Rightarrow> bool \<Rightarrow> call_kind list \<Rightarrow> error option outcome \<Rightarrow> bool" where
  "reconcile_shape crSchema hash_fails ks out =
     ((ks = [Fetch FetchFailed] \<and> out \<noteq> Returns None)
      \<or> (ks = [Fetch FetchFailed, Reload False] \<and> returns_error out)
      \<or> (\<exists>rest. ks = [Fetch FetchFailed, Reload True] @ rest
            \<and> apply_shape crSchema hash_fails rest out)
      \<or> (\<exists>v rest. v \<noteq> FetchFailed \<and> ks = Fetch v # rest
            \<and> apply_shape crSchema hash_fails rest out))"

text \<open>
  The bound on drift recovery, read off the kinds of a run's calls and its outcome. A run
  makes at most two schema updates and at most one recovery cycle. It makes no recovery cycle
  unless its first post-apply fetch mismatches, and exactly one when it does. A second
  post-apply fetch is the last one; when it mismatches too, it is the last call of the run,
  and the run returns the mismatch-after-retry error made from the report of that second
  comparison.
\<close>

fun second_comparison ::
  "call_kind list \<Rightarrow> error option outcome \<Rightarrow> fetch_verdict list \<Rightarrow> bool" where
  "second_comparison ks out [] = True"
| "second_comparison ks out (FetchMismatches report # rest) =
     (rest = [] \<and> last ks = Fetch (FetchMismatches report) \<and> HasMismatch report
      \<and> out = Returns (Some (mismatch_after_retry_error report)))"
| "second_comparison ks out (v # rest) = (rest = [])"

fun first_comparison ::
  "call_kind list \<Rightarrow> error option outcome \<Rightarrow> fetch_verdict list \<Rightarrow> bool" where
  "first_comparison ks out [] = (recovery_cycles ks = 0)"
| "first_comparison ks out (FetchMismatches report # rest) =
     (recovery_cycles ks = 1 \<and> second_comparison ks out rest)"
| "first_comparison ks out (v # rest) = (recovery_cycles ks = 0 \<and> rest = [])"

definition drift_recovery_bounded :: "call_kind list \<Rightarrow> error option outcome \<Rightarrow> bool" where
  "drift_recovery_bounded ks out =
     (recovery_cycles ks \<le> 1
      \<and> schema_updates ks \<le> 2
      \<and> first_comparison ks out (post_apply_fetches ks))"

text \<open>
  A resource that declares the schema change handling \<open>BLOCK_ALL\<close> and no schema, for a
  provider that keeps answering \<open>ALLOW_ALL\<close>; and the report of each comparison of the two.
\<close>

definition test_drift_run :: "nat run" where
  "test_drift_run =
     test_run\<lparr>connector := (connector test_run)
       \<lparr>Spec := \<lparr>Connector = test_connector,
                  ConnectorSchemas =
                    Some \<lparr>ConnectorSchemaConfig.Schemas = [],
                          SchemaChangeHandling = ''BLOCK_ALL''\<rparr>\<rparr>\<rparr>\<rparr>"

definition test_drift_report :: SchemaMismatch where
  "test_drift_report =
     \<lparr>HasMismatch = True, SchemaChangeHandling = Some ''expected BLOCK_ALL, got ALLOW_ALL'',
      MissingSchemas = [], SchemaMismatches = [], TableMismatches = []\<rparr>"

text \<open>
  Two worlds for that resource: one whose status writes fail, and one whose schema reloads
  fail.
\<close>

definition test_status_conflict_env :: "nat Env" where
  "test_status_conflict_env =
     (test_env [] test_no_schema test_details)
       \<lparr>Client_Status_Update := (\<lambda>obj w. (Some (ErrorString ''conflict''), Suc w))\<rparr>"

definition test_reload_fails_env :: "nat Env" where
  "test_reload_fails_env =
     (test_env [] test_no_schema test_details)
       \<lparr>Schemas_ReloadSchema :=
          (\<lambda>connectorID excludeMode w. (Some (ErrorString ''unavailable''), Suc w))\<rparr>"

section \<open>Adopting an existing connector (connector.go, utils.go, controller.go)\<close>

definition annotationAdoptExistingConnectorID :: string where
  "annotationAdoptExistingConnectorID = ''operator.dataverse.redhat.com/adopt-existing-connector-id''"

text \<open>\<^verbatim>\<open>kubeutils.GetAnnotation\<close>: the empty string when the annotation is absent.\<close>

definition GetAnnotation :: "FivetranConnector \<Rightarrow> string \<Rightarrow> string" where
  "GetAnnotation obj key = (case Annotations obj key of None \<Rightarrow> [] | Some v \<Rightarrow> v)"

text \<open>
  \<^verbatim>\<open>json.Unmarshal(raw, &connectorConfig)\<close> for a \<^verbatim>\<open>map[string]any\<close>, by Go's library: an
  object gives its members, \<^verbatim>\<open>null\<close> leaves the map \<^verbatim>\<open>nil\<close>, and any other document is an
  error. The members of an object are listed with one entry for each key.
\<close>

definition unmarshal_map :: "'w Env \<Rightarrow> string \<Rightarrow> string + (string \<times> json) list" where
  "unmarshal_map env bytes =
     (case json_Unmarshal_any env bytes of
        Inl msg \<Rightarrow> Inl msg
      | Inr doc \<Rightarrow>
          (case doc of
             JObject members \<Rightarrow> Inr members
           | JNull \<Rightarrow> Inr []
           | JBool b \<Rightarrow>
               Inl ''json: cannot unmarshal bool into Go value of type map[string]interface {}''
           | JNumber n \<Rightarrow>
               Inl ''json: cannot unmarshal number into Go value of type map[string]interface {}''
           | JString x \<Rightarrow>
               Inl ''json: cannot unmarshal string into Go value of type map[string]interface {}''
           | JArray xs \<Rightarrow>
               Inl ''json: cannot unmarshal array into Go value of type map[string]interface {}''))"

text \<open>The type assertion \<^verbatim>\<open>v, ok := m[key].(string)\<close>.\<close>

definition assert_string :: "json option \<Rightarrow> string \<times> bool" where
  "assert_string v = (case v of Some (JString x) \<Rightarrow> (x, True) | _ \<Rightarrow> ([], False))"

text \<open>
  The schema name \<^verbatim>\<open>handleExistingConnectorAdoption\<close> expects, from the declared
  configuration. The last step compares the member \<^verbatim>\<open>table_group_name\<close>, an \<^verbatim>\<open>any\<close>, with the
  empty string, which only the empty string equals, and then asserts
  \<^verbatim>\<open>tablegroupname.(string)\<close> without the \<^verbatim>\<open>ok\<close> form, which panics when the member is
  not a string.
\<close>

definition expectedSchema_of :: "(string \<times> json) list \<Rightarrow> string outcome" where
  "expectedSchema_of connectorConfig =
     (case assert_string (map_of connectorConfig ''schema_prefix'') of
        (schemaPrefix, ok) \<Rightarrow>
          if ok \<and> schemaPrefix \<noteq> [] then Returns schemaPrefix
          else (case assert_string (map_of connectorConfig ''schema'') of
                  (schema, ok2) \<Rightarrow>
                    if ok2 \<and> schema \<noteq> [] then
                      (let expectedSchema =
                             (case assert_string (map_of connectorConfig ''table'') of
                                (table, ok3) \<Rightarrow>
                                  if ok3 \<and> table \<noteq> [] then schema @ ''.'' @ table
                                  else schema)
                       in case map_of connectorConfig ''table_group_name'' of
                            None \<Rightarrow> Returns expectedSchema
                          | Some (JString tablegroupname) \<Rightarrow>
                              if tablegroupname \<noteq> []
                              then Returns (schema @ ''.'' @ tablegroupname)
                              else Returns expectedSchema
                          | Some other \<Rightarrow> Panics)
                    else Returns []))"

text \<open>
  The block of \<^verbatim>\<open>handleExistingConnectorAdoption\<close> that validates the schema name; it is
  skipped when no configuration is declared.
\<close>

definition adoption_schema_check ::
  "'w Env \<Rightarrow> Connector \<Rightarrow> ConnectionDetails \<Rightarrow> error option outcome" where
  "adoption_schema_check env spec existingConnector =
     (case Connector.Config spec of
        None \<Rightarrow> Returns None
      | Some config \<Rightarrow>
          (case unmarshal_map env (case Raw config of None \<Rightarrow> [] | Some bytes \<Rightarrow> bytes) of
             Inl msg \<Rightarrow>
               Returns (Some (wrap_error
                 ''handleExistingConnectorAdoption: failed to unmarshal config: ''
                 (ErrorString msg)))
           | Inr connectorConfig \<Rightarrow>
               (case expectedSchema_of connectorConfig of
                  Panics \<Rightarrow> Panics
                | Returns expectedSchema \<Rightarrow>
                    if expectedSchema \<noteq> []
                       \<and> expectedSchema \<noteq> ConnectionDetails.Schema existingConnector
                    then Returns (Some (ErrorString
                           (''handleExistingConnectorAdoption: schema mismatch: expected ''
                            @ [CHR 0x27] @ expectedSchema @ [CHR 0x27] @ '', got ''
                            @ [CHR 0x27] @ ConnectionDetails.Schema existingConnector
                            @ [CHR 0x27])))
                    else Returns None)))"

definition updateConnectorIDStatus ::
  "'w Env \<Rightarrow> string \<Rightarrow> 'w run \<Rightarrow> error option \<times> 'w run" where
  "updateConnectorIDStatus env connectorID s =
     do_Status_Update env
       (s\<lparr>connector := (connector s)
            \<lparr>FivetranConnector.Status := (FivetranConnector.Status (connector s))
               \<lparr>ConnectorID := connectorID,
                ConnectorURL := fivetranConnectorURL_prefix @ connectorID\<rparr>\<rparr>\<rparr>)"

definition handleExistingConnectorAdoption ::
  "'w Env \<Rightarrow> string \<Rightarrow> 'w run \<Rightarrow> error option outcome \<times> 'w run" where
  "handleExistingConnectorAdoption env adoptConnectorID s =
     (case do_GetConnection env adoptConnectorID s of
        ((existingConnector, Some e), s1) \<Rightarrow>
          (Returns (Some (wrap_error
             (''handleExistingConnectorAdoption: failed to get existing connector ''
              @ adoptConnectorID @ '': '') e)), s1)
      | ((existingConnector, None), s1) \<Rightarrow>
          (let spec = Connector (Spec (connector s1)) in
           if Connector.Service spec \<noteq> ConnectionDetails.Service existingConnector
           then (Returns (Some (ErrorString
                   (''handleExistingConnectorAdoption: service mismatch: spec has ''
                    @ [CHR 0x27] @ Connector.Service spec @ [CHR 0x27]
                    @ '', existing connector has ''
                    @ [CHR 0x27] @ ConnectionDetails.Service existingConnector
                    @ [CHR 0x27]))), s1)
           else if Connector.GroupID spec \<noteq> ConnectionDetails.GroupID existingConnector
           then (Returns (Some (ErrorString
                   (''handleExistingConnectorAdoption: group_id mismatch: spec has ''
                    @ [CHR 0x27] @ Connector.GroupID spec @ [CHR 0x27]
                    @ '', existing connector has ''
                    @ [CHR 0x27] @ ConnectionDetails.GroupID existingConnector
                    @ [CHR 0x27]))), s1)
           else (case adoption_schema_check env spec existingConnector of
                   Panics \<Rightarrow> (Panics, s1)
                 | Returns (Some e) \<Rightarrow> (Returns (Some e), s1)
                 | Returns None \<Rightarrow>
                     (case updateConnectorIDStatus env adoptConnectorID s1 of
                        (r, s2) \<Rightarrow> (Returns r, s2)))))"

definition handleExistingConnectorAdoptionIfNeeded ::
  "'w Env \<Rightarrow> 'w run \<Rightarrow> (bool \<times> error option) outcome \<times> 'w run" where
  "handleExistingConnectorAdoptionIfNeeded env s =
     (if ConnectorID (FivetranConnector.Status (connector s)) = [] then
        (let adoptConnectorID = GetAnnotation (connector s) annotationAdoptExistingConnectorID
         in if adoptConnectorID \<noteq> [] then
              (case handleExistingConnectorAdoption env adoptConnectorID s of
                 (Panics, s1) \<Rightarrow> (Panics, s1)
               | (Returns (Some e), s1) \<Rightarrow> (Returns (False, Some e), s1)
               | (Returns None, s1) \<Rightarrow> (Returns (True, None), s1))
            else (Returns (False, None), s))
      else (Returns (False, None), s))"

text \<open>
  The adoption step of \<^verbatim>\<open>Reconcile\<close> (controller.go): what \<^verbatim>\<open>Reconcile\<close> returns when it
  returns at this step, \<open>None\<close> when it goes on.
\<close>

definition Reconcile_adoption ::
  "'w Env \<Rightarrow> 'w run \<Rightarrow> (ctrl_Result \<times> error option) option outcome \<times> 'w run" where
  "Reconcile_adoption env s =
     (case handleExistingConnectorAdoptionIfNeeded env s of
        (Panics, s1) \<Rightarrow> (Panics, s1)
      | (Returns (needRequeue, Some e), s1) \<Rightarrow>
          (case handleError env conditionTypeConnectorReady
                  ConnectorReasonExistingConnectorAdoptionFailed e s1 of
             (r, s2) \<Rightarrow> (Returns (Some r), s2))
      | (Returns (needRequeue, None), s1) \<Rightarrow>
          if needRequeue then (Returns (Some (\<lparr>Requeue = True, RequeueAfter = 0\<rparr>, None)), s1)
          else (Returns None, s1))"

text \<open>
  A resource that declares a \<open>postgres\<close> connector and asks to adopt the connector \<open>conn_1\<close>,
  which the provider reports as a \<open>mysql\<close> connector of the same group.
\<close>

definition test_adopt_run :: "nat run" where
  "test_adopt_run =
     \<lparr>connector =
        \<lparr>Annotations = [annotationAdoptExistingConnectorID \<mapsto> ''conn_1''],
         Spec = \<lparr>Connector = test_connector, ConnectorSchemas = None\<rparr>,
         Status = \<lparr>ConnectorURL = [], ConnectorID = [], Conditions = []\<rparr>\<rparr>,
      world = 1, calls = []\<rparr>"

definition test_mysql_details :: ConnectionDetails where
  "test_mysql_details =
     \<lparr>ConnectionDetails.ID = ''conn_1'', Service = ''mysql'', GroupID = ''group_1'',
      Schema = ''public''\<rparr>"

section \<open>Updating a connection (pkg/fivetran/connector_service.go)\<close>

text \<open>
  The request of the provider SDK's \<^verbatim>\<open>ConnectionUpdateService\<close>, as far as
  \<^verbatim>\<open>UpdateConnection\<close> uses it: each setter stores its argument in the request, and a field
  that no setter was called for is left out of the payload.
\<close>

record ConnectionUpdateService =
  connectionID :: "string option"
  runSetupTests :: "bool option"
  paused :: "bool option"
  syncFrequency :: "int option"
  dailySyncTime :: "string option"
  scheduleType :: "string option"
  pauseAfterTrial :: "bool option"
  configCustom :: "(string \<times> json) list option"
  authCustom :: "(string \<times> json) list option"
  networkingMethod :: "string option"
  proxyAgentId :: "string option"
  privateLinkId :: "string option"
  hybridDeploymentAgentId :: "string option"
  dataDelaySensitivity :: "string option"
  dataDelayThreshold :: "int option"

definition NewConnectionUpdate :: ConnectionUpdateService where
  "NewConnectionUpdate =
     \<lparr>connectionID = None, runSetupTests = None, paused = None, syncFrequency = None,
      dailySyncTime = None, scheduleType = None, pauseAfterTrial = None, configCustom = None,
      authCustom = None, networkingMethod = None, proxyAgentId = None, privateLinkId = None,
      hybridDeploymentAgentId = None, dataDelaySensitivity = None, dataDelayThreshold = None\<rparr>"

text \<open>
  The request \<^verbatim>\<open>UpdateConnection\<close> builds, in the order of its statements; it then sends the
  request with \<^verbatim>\<open>DoCustom\<close> and wraps the SDK's error. Nothing is read from the provider
  before the request is sent.
\<close>

definition UpdateConnection_request :: "string \<Rightarrow> fivetran_Connector \<Rightarrow> ConnectionUpdateService" where
  "UpdateConnection_request ConnectionID Connection =
     (let service = NewConnectionUpdate\<lparr>connectionID := Some ConnectionID,
                                         runSetupTests := Some False\<rparr>;
          service = (case fivetran_Connector.Paused Connection of
                       Some p \<Rightarrow> service\<lparr>paused := Some p\<rparr>
                     | None \<Rightarrow> service);
          service = (if fivetran_Connector.SyncFrequency Connection \<noteq> 0
                     then service\<lparr>syncFrequency :=
                            Some (fivetran_Connector.SyncFrequency Connection)\<rparr>
                     else service);
          service = (if fivetran_Connector.DailySyncTime Connection \<noteq> []
                     then service\<lparr>dailySyncTime :=
                            Some (fivetran_Connector.DailySyncTime Connection)\<rparr>
                     else service);
          service = (if fivetran_Connector.ScheduleType Connection \<noteq> []
                     then service\<lparr>scheduleType :=
                            Some (fivetran_Connector.ScheduleType Connection)\<rparr>
                     else service);
          service = (case fivetran_Connector.PauseAfterTrial Connection of
                       Some p \<Rightarrow> service\<lparr>pauseAfterTrial := Some p\<rparr>
                     | None \<Rightarrow> service);
          service = (case fivetran_Connector.Config Connection of
                       Some config \<Rightarrow> service\<lparr>configCustom := Some config\<rparr>
                     | None \<Rightarrow> service);
          service = (case fivetran_Connector.Auth Connection of
                       Some auth \<Rightarrow> service\<lparr>authCustom := Some auth\<rparr>
                     | None \<Rightarrow> service);
          service = (if fivetran_Connector.NetworkingMethod Connection \<noteq> []
                     then service\<lparr>networkingMethod :=
                            Some (fivetran_Connector.NetworkingMethod Connection)\<rparr>
                     else service);
          service = (if fivetran_Connector.ProxyAgentID Connection \<noteq> []
                     then service\<lparr>proxyAgentId :=
                            Some (fivetran_Connector.ProxyAgentID Connection)\<rparr>
                     else service);
          service = (if fivetran_Connector.PrivateLinkID Connection \<noteq> []
                     then service\<lparr>privateLinkId :=
                            Some (fivetran_Connector.PrivateLinkID Connection)\<rparr>
                     else service);
          service = (if fivetran_Connector.HybridDeploymentAgentID Connection \<noteq> []
                     then service\<lparr>hybridDeploymentAgentId :=
                            Some (fivetran_Connector.HybridDeploymentAgentID Connection)\<rparr>
                     else service);
          service = (if fivetran_Connector.DataDelaySensitivity Connection \<noteq> []
                     then service\<lparr>dataDelaySensitivity :=
                            Some (fivetran_Connector.DataDelaySensitivity Connection)\<rparr>
                     else service);
          service = (if fivetran_Connector.DataDelayThreshold Connection \<noteq> 0
                     then service\<lparr>dataDelayThreshold :=
                            Some (fivetran_Connector.DataDelayThreshold Connection)\<rparr>
                     else service)
      in service)"

text \<open>
  A payload is full when it carries every field an update request can carry.
\<close>

definition full_payload :: "ConnectionUpdateService \<Rightarrow> bool" where
  "full_payload service =
     (connectionID service \<noteq> None \<and> runSetupTests service \<noteq> None
      \<and> paused service \<noteq> None \<and> syncFrequency service \<noteq> None
      \<and> dailySyncTime service \<noteq> None \<and> scheduleType service \<noteq> None
      \<and> pauseAfterTrial service \<noteq> None \<and> configCustom service \<noteq> None
      \<and> authCustom service \<noteq> None \<and> networkingMethod service \<noteq> None
      \<and> proxyAgentId service \<noteq> None \<and> privateLinkId service \<noteq> None
      \<and> hybridDeploymentAgentId service \<noteq> None \<and> dataDelaySensitivity service \<noteq> None
      \<and> dataDelayThreshold service \<noteq> None)"

text \<open>
  Modelled from the spec: the provider is outside the repository. The spec's update "sets"
  the fields it sends: the provider keeps for a connection the value last sent for each
  setting, a request replaces the settings it carries and leaves the others as they are.
  The settings of a connection are written as a request that carries them all.
\<close>

definition sent :: "'a option \<Rightarrow> 'a option \<Rightarrow> 'a option" where
  "sent new old = (case new of Some v \<Rightarrow> Some v | None \<Rightarrow> old)"

definition provider_update ::
  "ConnectionUpdateService \<Rightarrow> ConnectionUpdateService \<Rightarrow> ConnectionUpdateService" where
  "provider_update service remote =
     \<lparr>connectionID = connectionID remote,
      runSetupTests = sent (runSetupTests service) (runSetupTests remote),
      paused = sent (paused service) (paused remote),
      syncFrequency = sent (syncFrequency service) (syncFrequency remote),
      dailySyncTime = sent (dailySyncTime service) (dailySyncTime remote),
      scheduleType = sent (scheduleType service) (scheduleType remote),
      pauseAfterTrial = sent (pauseAfterTrial service) (pauseAfterTrial remote),
      configCustom = sent (configCustom service) (configCustom remote),
      authCustom = sent (authCustom service) (authCustom remote),
      networkingMethod = sent (networkingMethod service) (networkingMethod remote),
      proxyAgentId = sent (proxyAgentId service) (proxyAgentId remote),
      privateLinkId = sent (privateLinkId service) (privateLinkId remote),
      hybridDeploymentAgentId =
        sent (hybridDeploymentAgentId service) (hybridDeploymentAgentId remote),
      dataDelaySensitivity = sent (dataDelaySensitivity service) (dataDelaySensitivity remote),
      dataDelayThreshold = sent (dataDelayThreshold service) (dataDelayThreshold remote)\<rparr>"

text \<open>
  The connector \<^verbatim>\<open>toFivetranConnector\<close> makes of \<open>test_connector\<close> (it declares no daily sync
  time), and a connection the provider holds with a daily sync time.
\<close>

definition test_fivetran_connector :: fivetran_Connector where
  "test_fivetran_connector =
     \<lparr>fivetran_Connector.Service = ''postgres'', Config = Some [], Auth = Some [],
      Paused = Some False, GroupID = ''group_1'', SyncFrequency = 60, DailySyncTime = [],
      RunSetupTests = Some True, ScheduleType = ''auto'', PauseAfterTrial = Some False,
      TrustCertificates = Some True, TrustFingerprints = Some True,
      DataDelaySensitivity = [], DataDelayThreshold = 0, NetworkingMethod = [],
      ProxyAgentID = [], PrivateLinkID = [], HybridDeploymentAgentID = []\<rparr>"

definition test_remote_connection :: ConnectionUpdateService where
  "test_remote_connection =
     \<lparr>connectionID = Some ''conn_1'', runSetupTests = Some True, paused = Some True,
      syncFrequency = Some 1440, dailySyncTime = Some ''03:00'', scheduleType = Some ''manual'',
      pauseAfterTrial = Some True, configCustom = Some [], authCustom = Some [],
      networkingMethod = Some ''Directly'', proxyAgentId = None, privateLinkId = None,
      hybridDeploymentAgentId = None, dataDelaySensitivity = Some ''NORMAL'',
      dataDelayThreshold = Some 0\<rparr>"

section \<open>Fingerprints of the declared configuration (utils.go)\<close>




















section \<open>Theorems\<close>

text \<open>
  C6. Retryability of a provider API error depends on the status code alone: two errors
  with the same status code are classified alike whatever their provider code, message
  and raw error; status 429 and every 5xx status are retryable; every other 4xx status is
  terminal; and every code that is neither a success code (2xx) nor a 4xx code is
  retryable.
\<close>

theorem C6_retryable_by_status_code:
  "(StatusCode e1 = StatusCode e2 \<longrightarrow> APIError_IsRetryable e1 = APIError_IsRetryable e2)
   \<and> (StatusCode e = 429 \<longrightarrow> APIError_IsRetryable e)
   \<and> (500 \<le> StatusCode e \<and> StatusCode e \<le> 599 \<longrightarrow> APIError_IsRetryable e)
   \<and> (400 \<le> StatusCode e \<and> StatusCode e \<le> 499 \<and> StatusCode e \<noteq> 429
        \<longrightarrow> \<not> APIError_IsRetryable e)
   \<and> (\<not> (200 \<le> StatusCode e \<and> StatusCode e \<le> 299)
        \<and> \<not> (400 \<le> StatusCode e \<and> StatusCode e \<le> 499) \<longrightarrow> APIError_IsRetryable e)"
  by (auto simp: APIError_IsRetryable_def)

theorem C6_retryable_by_status_code_witness:
  "StatusCode \<lparr>StatusCode = 503, Code = ''a'', Message = ''b'', RawError = ''c''\<rparr>
     = StatusCode \<lparr>StatusCode = 503, Code = ''x'', Message = ''y'', RawError = ''z''\<rparr>
   \<and> APIError_IsRetryable \<lparr>StatusCode = 503, Code = ''a'', Message = ''b'', RawError = ''c''\<rparr>
     = APIError_IsRetryable \<lparr>StatusCode = 503, Code = ''x'', Message = ''y'', RawError = ''z''\<rparr>
   \<and> APIError_IsRetryable \<lparr>StatusCode = 429, Code = [], Message = [], RawError = []\<rparr>
   \<and> APIError_IsRetryable \<lparr>StatusCode = 501, Code = [], Message = [], RawError = []\<rparr>
   \<and> \<not> APIError_IsRetryable \<lparr>StatusCode = 404, Code = [], Message = [], RawError = []\<rparr>
   \<and> APIError_IsRetryable \<lparr>StatusCode = 0, Code = [], Message = [], RawError = []\<rparr>"
  using C6_retryable_by_status_code
          [of "\<lparr>StatusCode = 503, Code = ''a'', Message = ''b'', RawError = ''c''\<rparr>"
              "\<lparr>StatusCode = 503, Code = ''x'', Message = ''y'', RawError = ''z''\<rparr>"
              "\<lparr>StatusCode = 429, Code = [], Message = [], RawError = []\<rparr>"]
        C6_retryable_by_status_code
          [of "\<lparr>StatusCode = 503, Code = ''a'', Message = ''b'', RawError = ''c''\<rparr>"
              "\<lparr>StatusCode = 503, Code = ''x'', Message = ''y'', RawError = ''z''\<rparr>"
              "\<lparr>StatusCode = 501, Code = [], Message = [], RawError = []\<rparr>"]
        C6_retryable_by_status_code
          [of "\<lparr>StatusCode = 503, Code = ''a'', Message = ''b'', RawError = ''c''\<rparr>"
              "\<lparr>StatusCode = 503, Code = ''x'', Message = ''y'', RawError = ''z''\<rparr>"
              "\<lparr>StatusCode = 404, Code = [], Message = [], RawError = []\<rparr>"]
        C6_retryable_by_status_code
          [of "\<lparr>StatusCode = 503, Code = ''a'', Message = ''b'', RawError = ''c''\<rparr>"
              "\<lparr>StatusCode = 503, Code = ''x'', Message = ''y'', RawError = ''z''\<rparr>"
              "\<lparr>StatusCode = 0, Code = [], Message = [], RawError = []\<rparr>"]
  by simp


subsection \<open>The schema comparator\<close>

lemma strings_Join_sublist: "x \<in> set xs \<Longrightarrow> sublist x (strings_Join xs sep)"
proof (induction xs sep rule: strings_Join.induct)
  case (1 sep)
  then show ?case by simp
next
  case (2 x' sep)
  then show ?case by simp
next
  case (3 x' y ys sep)
  show ?case
  proof (cases "x = x'")
    case True
    then show ?thesis by simp
  next
    case False
    with 3 have "sublist x (strings_Join (y # ys) sep)" by simp
    then obtain ps ss where "strings_Join (y # ys) sep = ps @ x @ ss"
      by (auto simp: sublist_def)
    then have "strings_Join (x' # y # ys) sep = (x' @ sep @ ps) @ x @ ss" by simp
    then show ?thesis unfolding sublist_def by blast
  qed
qed

lemma compareTables_range_returns:
  "\<forall>(n, t) \<in> set crTables. t \<noteq> None \<Longrightarrow> \<forall>n. fivetranTables n \<noteq> Some None
   \<Longrightarrow> \<exists>ms. compareTables_range fivetranTables crTables acc = Returns ms"
proof (induction crTables arbitrary: acc)
  case Nil
  then show ?case by simp
next
  case (Cons a crTables)
  obtain n t where a: "a = (n, t)" by (cases a)
  with Cons.prems obtain cr where t: "t = Some cr" by auto
  from Cons.prems have rest: "\<forall>(n, t) \<in> set crTables. t \<noteq> None" by simp
  show ?case
  proof (cases "fivetranTables n")
    case None
    then show ?thesis using Cons.IH[OF rest Cons.prems(2)] a by simp
  next
    case (Some v)
    with Cons.prems(2) obtain live where "v = Some live" by (cases v) auto
    then show ?thesis using Cons.IH[OF rest Cons.prems(2)] a t Some by simp
  qed
qed

lemma compareTables_range_keeps:
  "compareTables_range fivetranTables crTables acc = Returns ms \<Longrightarrow> set acc \<subseteq> set ms"
proof (induction crTables arbitrary: acc)
  case Nil
  then show ?case by simp
next
  case (Cons a crTables)
  obtain n t where a: "a = (n, t)" by (cases a)
  from Cons.prems show ?case unfolding a
    by (auto split: option.splits if_splits dest!: Cons.IH)
qed

lemma compareTables_range_reports:
  "compareTables_range fivetranTables crTables acc = Returns ms
   \<Longrightarrow> (name, Some cr) \<in> set crTables \<Longrightarrow> fivetranTables name = Some (Some live)
   \<Longrightarrow> tableIssues live cr \<noteq> []
   \<Longrightarrow> (''table '' @ name @ '': '' @ strings_Join (tableIssues live cr) '', '') \<in> set ms"
proof (induction crTables arbitrary: acc)
  case Nil
  then show ?case by simp
next
  case (Cons a crTables)
  obtain n t where a: "a = (n, t)" by (cases a)
  show ?case
  proof (cases "a = (name, Some cr)")
    case True
    with Cons.prems have
      "compareTables_range fivetranTables crTables
         (acc @ [''table '' @ name @ '': '' @ strings_Join (tableIssues live cr) '', '']) = Returns ms"
      by simp
    from compareTables_range_keeps[OF this] show ?thesis by simp
  next
    case False
    with Cons.prems(2) have mem: "(name, Some cr) \<in> set crTables" by simp
    from Cons.prems(1) obtain acc' where "compareTables_range fivetranTables crTables acc' = Returns ms"
      unfolding a by (auto split: option.splits if_splits)
    from Cons.IH[OF this mem Cons.prems(3,4)] show ?thesis .
  qed
qed

lemma tableIssues_sync_nil:
  "TableObject.SyncMode cr \<noteq> [] \<Longrightarrow> ConnectionSchemaConfigTableResponse.SyncMode live = None
   \<Longrightarrow> ''sync mode mismatch: expected '' @ TableObject.SyncMode cr @ '', got nil''
         \<in> set (tableIssues live cr)"
  by (simp add: tableIssues_def)

lemma test_sync_mode_nil_evaluates:
  "CompareSchemaWithCR test_fivetranSchema_sync_mode_nil (Some test_crSchema_soft_delete)
     = Returns (False,
         \<lparr>HasMismatch = True, SchemaChangeHandling = None, MissingSchemas = [],
          SchemaMismatches = [],
          TableMismatches = [(''test_schema'',
            [''table test_table: sync mode mismatch: expected SOFT_DELETE, got nil''])]\<rparr>)"
  by (simp add: CompareSchemaWithCR_def test_fivetranSchema_sync_mode_nil_def
      test_crSchema_soft_delete_def compareTablesWithFivetran_def tableIssues_def Let_def)

text \<open>
  C8. Let a declared table be present in the live schema (neither a \<^verbatim>\<open>nil\<close> pointer, so the
  comparison returns). If its declared sync mode is not empty and the live sync mode is
  absent, the table's issues hold \<open>sync mode mismatch: expected <declared>, got nil\<close> and the
  comparator returns a message for that table containing \<open>expected <declared>, got nil\<close>. If
  the live sync mode is present and different, the issue reads \<open>got <live>\<close> instead, which is
  another message unless the live value is the string \<open>nil\<close>. If the declared sync mode is
  empty, no issue of the table is a sync-mode mismatch. On the test's input (live
  \<open>sync_mode = nil\<close>, declared \<open>SOFT_DELETE\<close>) the schema comparison does not match and its
  rendered report contains \<open>expected SOFT_DELETE, got nil\<close>.
\<close>

theorem C8_sync_mode_compared_when_declared:
  assumes "\<forall>(n, t) \<in> set crTables. t \<noteq> None"
    and "\<forall>n. fivetranTables n \<noteq> Some None"
    and "(name, Some cr) \<in> set crTables"
    and "fivetranTables name = Some (Some live)"
  shows "\<exists>tableMismatches.
      compareTablesWithFivetran fivetranTables crTables = Returns tableMismatches
    \<and> (TableObject.SyncMode cr \<noteq> [] \<and> ConnectionSchemaConfigTableResponse.SyncMode live = None \<longrightarrow>
          ''sync mode mismatch: expected '' @ TableObject.SyncMode cr @ '', got nil''
             \<in> set (tableIssues live cr)
        \<and> (\<exists>m \<in> set tableMismatches.
              prefix (''table '' @ name @ '': '') m
            \<and> sublist (''expected '' @ TableObject.SyncMode cr @ '', got nil'') m))
    \<and> (\<forall>s. TableObject.SyncMode cr \<noteq> []
            \<and> ConnectionSchemaConfigTableResponse.SyncMode live = Some s
            \<and> s \<noteq> TableObject.SyncMode cr \<longrightarrow>
          ''sync mode mismatch: expected '' @ TableObject.SyncMode cr @ '', got '' @ s
             \<in> set (tableIssues live cr)
        \<and> (s \<noteq> ''nil'' \<longrightarrow>
              ''sync mode mismatch: expected '' @ TableObject.SyncMode cr @ '', got nil''
                 \<notin> set (tableIssues live cr)))
    \<and> (TableObject.SyncMode cr = [] \<longrightarrow>
          (\<forall>i \<in> set (tableIssues live cr). \<not> prefix ''sync mode mismatch'' i))
    \<and> (case CompareSchemaWithCR test_fivetranSchema_sync_mode_nil (Some test_crSchema_soft_delete) of
          Returns (matches, report) \<Rightarrow>
            \<not> matches \<and> sublist ''expected SOFT_DELETE, got nil'' (SchemaMismatch_String report)
        | Panics \<Rightarrow> False)"
proof -
  from compareTables_range_returns[OF assms(1,2)]
  obtain ms where ms: "compareTablesWithFivetran fivetranTables crTables = Returns ms"
    unfolding compareTablesWithFivetran_def by blast
  have absent: "\<exists>m \<in> set ms. prefix (''table '' @ name @ '': '') m
            \<and> sublist (''expected '' @ TableObject.SyncMode cr @ '', got nil'') m"
    if d: "TableObject.SyncMode cr \<noteq> []"
      and l: "ConnectionSchemaConfigTableResponse.SyncMode live = None"
  proof -
    let ?issue = "''sync mode mismatch: expected '' @ TableObject.SyncMode cr @ '', got nil''"
    let ?m = "''table '' @ name @ '': '' @ strings_Join (tableIssues live cr) '', ''"
    have mem: "?issue \<in> set (tableIssues live cr)" by (rule tableIssues_sync_nil[OF d l])
    then have ne: "tableIssues live cr \<noteq> []" by auto
    have "?m \<in> set ms"
      using compareTables_range_reports[OF ms[unfolded compareTablesWithFivetran_def] assms(3,4) ne] .
    moreover have "prefix (''table '' @ name @ '': '') ?m"
      by (simp add: prefix_def)
    moreover have "sublist (''expected '' @ TableObject.SyncMode cr @ '', got nil'') ?m"
    proof -
      have "sublist ?issue (strings_Join (tableIssues live cr) '', '')"
        by (rule strings_Join_sublist[OF mem])
      moreover have "sublist (''expected '' @ TableObject.SyncMode cr @ '', got nil'') ?issue"
        unfolding sublist_def
        by (rule exI[of _ "''sync mode mismatch: ''"], rule exI[of _ "[]"]) simp
      moreover have "sublist (strings_Join (tableIssues live cr) '', '') ?m"
        unfolding sublist_def
        by (rule exI[of _ "''table '' @ name @ '': ''"], rule exI[of _ "[]"]) simp
      ultimately show ?thesis by (meson sublist_order.order_trans)
    qed
    ultimately show ?thesis by blast
  qed
  have different: "''sync mode mismatch: expected '' @ TableObject.SyncMode cr @ '', got '' @ s
             \<in> set (tableIssues live cr)
        \<and> (s \<noteq> ''nil'' \<longrightarrow>
              ''sync mode mismatch: expected '' @ TableObject.SyncMode cr @ '', got nil''
                 \<notin> set (tableIssues live cr))"
    if "TableObject.SyncMode cr \<noteq> []"
      "ConnectionSchemaConfigTableResponse.SyncMode live = Some s"
      "s \<noteq> TableObject.SyncMode cr" for s
    using that by (auto simp: tableIssues_def split: option.splits)
  have undeclared: "\<forall>i \<in> set (tableIssues live cr). \<not> prefix ''sync mode mismatch'' i"
    if "TableObject.SyncMode cr = []"
    using that by (auto simp: tableIssues_def split: option.splits)
  have example: "(case CompareSchemaWithCR test_fivetranSchema_sync_mode_nil (Some test_crSchema_soft_delete) of
          Returns (matches, report) \<Rightarrow>
            \<not> matches \<and> sublist ''expected SOFT_DELETE, got nil'' (SchemaMismatch_String report)
        | Panics \<Rightarrow> False)"
    by (simp add: test_sync_mode_nil_evaluates SchemaMismatch_String_def sublist_Cons_right)
  show ?thesis
  proof (rule exI[of _ ms], intro conjI impI allI)
    show "compareTablesWithFivetran fivetranTables crTables = Returns ms" by (rule ms)
  next
    assume "TableObject.SyncMode cr \<noteq> [] \<and> ConnectionSchemaConfigTableResponse.SyncMode live = None"
    then show "''sync mode mismatch: expected '' @ TableObject.SyncMode cr @ '', got nil''
             \<in> set (tableIssues live cr)"
      by (elim conjE) (rule tableIssues_sync_nil)
  next
    assume "TableObject.SyncMode cr \<noteq> [] \<and> ConnectionSchemaConfigTableResponse.SyncMode live = None"
    then show "\<exists>m \<in> set ms. prefix (''table '' @ name @ '': '') m
            \<and> sublist (''expected '' @ TableObject.SyncMode cr @ '', got nil'') m"
      by (elim conjE) (rule absent)
  next
    fix s
    assume "TableObject.SyncMode cr \<noteq> []
            \<and> ConnectionSchemaConfigTableResponse.SyncMode live = Some s
            \<and> s \<noteq> TableObject.SyncMode cr"
    then show "''sync mode mismatch: expected '' @ TableObject.SyncMode cr @ '', got '' @ s
             \<in> set (tableIssues live cr)"
      using different[of s] by (elim conjE) (rule conjunct1)
  next
    fix s
    assume "TableObject.SyncMode cr \<noteq> []
            \<and> ConnectionSchemaConfigTableResponse.SyncMode live = Some s
            \<and> s \<noteq> TableObject.SyncMode cr" and "s \<noteq> ''nil''"
    then show "''sync mode mismatch: expected '' @ TableObject.SyncMode cr @ '', got nil''
                 \<notin> set (tableIssues live cr)"
      using different[of s] by (elim conjE) (simp only: simp_thms)
  next
    assume "TableObject.SyncMode cr = []"
    then show "\<forall>i \<in> set (tableIssues live cr). \<not> prefix ''sync mode mismatch'' i"
      by (rule undeclared)
  next
    show "(case CompareSchemaWithCR test_fivetranSchema_sync_mode_nil (Some test_crSchema_soft_delete) of
          Returns (matches, report) \<Rightarrow>
            \<not> matches \<and> sublist ''expected SOFT_DELETE, got nil'' (SchemaMismatch_String report)
        | Panics \<Rightarrow> False)" by (rule example)
  qed
qed

theorem C8_sync_mode_compared_when_declared_witness:
  "list_all (\<lambda>(n, t). t \<noteq> None) [(''test_table'',
        Some \<lparr>TableObject.Enabled = True, Columns = [], SyncMode = ''SOFT_DELETE''\<rparr>)]
   \<and> (\<forall>n. [''test_table'' \<mapsto>
          Some \<lparr>ConnectionSchemaConfigTableResponse.Enabled = Some True, SyncMode = None\<rparr>] n
        \<noteq> Some None)
   \<and> compareTablesWithFivetran
        [''test_table'' \<mapsto>
          Some \<lparr>ConnectionSchemaConfigTableResponse.Enabled = Some True, SyncMode = None\<rparr>]
        [(''test_table'',
          Some \<lparr>TableObject.Enabled = True, Columns = [], SyncMode = ''SOFT_DELETE''\<rparr>)]
      = Returns [''table test_table: sync mode mismatch: expected SOFT_DELETE, got nil'']
   \<and> sublist ''expected SOFT_DELETE, got nil''
        ''table test_table: sync mode mismatch: expected SOFT_DELETE, got nil''"
  using C8_sync_mode_compared_when_declared
    [of "[(''test_table'',
            Some \<lparr>TableObject.Enabled = True, Columns = [], SyncMode = ''SOFT_DELETE''\<rparr>)]"
        "[''test_table'' \<mapsto>
            Some \<lparr>ConnectionSchemaConfigTableResponse.Enabled = Some True, SyncMode = None\<rparr>]"
        "''test_table''"
        "\<lparr>TableObject.Enabled = True, Columns = [], SyncMode = ''SOFT_DELETE''\<rparr>"
        "\<lparr>ConnectionSchemaConfigTableResponse.Enabled = Some True, SyncMode = None\<rparr>"]
  by (simp add: compareTablesWithFivetran_def tableIssues_def sublist_Cons_right)


subsection \<open>The schema builder\<close>

lemma write_Schema_dom [simp]: "dom (schemaObjs (write_Schema a f h)) = dom (schemaObjs h)"
  by (auto simp: write_Schema_def split: option.splits)

lemma write_Table_schemaObjs [simp]: "schemaObjs (write_Table a f h) = schemaObjs h"
  by (auto simp: write_Table_def split: option.splits)

lemma new_Table_schemaObjs [simp]: "schemaObjs (snd (new_Table h)) = schemaObjs h"
  by (simp add: new_Table_def)

lemma builder_wf_New: "builder_wf NewSchemaBuilder"
  by (simp add: builder_wf_def NewSchemaBuilder_def)

lemma builder_wf_step: "builder_wf st \<Longrightarrow> builder_wf (builder_step c st)"
proof (cases st)
  case (Pair b h)
  assume wf: "builder_wf st"
  show ?thesis
  proof (cases c)
    case (CallWithSchemaChangeHandling x)
    with wf Pair show ?thesis by (simp add: builder_wf_def)
  next
    case (CallAddSchema name en)
    with wf Pair show ?thesis
      by (auto simp: builder_wf_def new_Schema_def Schema_Enabled_def)
  next
    case (CallAddTable schema table en sm)
    with wf Pair show ?thesis
      by (auto simp: builder_wf_def Let_def new_Table_def Schema_Table_def Table_Enabled_def
          Table_SyncMode_def split: option.splits)
  next
    case (CallAddColumn schema table column en hs pk)
    with wf Pair show ?thesis
      by (auto simp: builder_wf_def Let_def new_Table_def Schema_Table_def Table_Column_def
          split: option.splits)
  qed
qed

lemma builder_wf_calls: "builder_wf st \<Longrightarrow> builder_wf (builder_calls cs st)"
  unfolding builder_calls_def by (induction cs arbitrary: st) (simp_all add: builder_wf_step)

lemma AddColumn_installs_fresh_table:
  assumes "builder_wf (b, h)" and "err b = None"
    and "schema \<noteq> []" and "table \<noteq> []" and "column \<noteq> []"
    and "SchemaBuilder.schemas b schema = Some s"
  shows "AddColumn schema table column en hs pk (b, h) = (b', h') \<Longrightarrow>
     b' = b \<and>
     table_config h' (SchemaBuilder.schemas b) schema table =
       Some \<lparr>table_enabled = None, table_syncMode = None,
             table_columns = [column \<mapsto> \<lparr>column_enabled = Some en, column_hashed = Some hs,
                                          column_isPrimaryKey = Some pk\<rparr>]\<rparr>"
proof -
  from assms(1,6) obtain obj where obj: "schemaObjs h s = Some obj"
    by (auto simp: builder_wf_def)
  assume "AddColumn schema table column en hs pk (b, h) = (b', h')"
  with assms obj show ?thesis
    by (auto simp: Let_def new_Table_def Schema_Table_def Table_Column_def write_Schema_def
        write_Table_def table_config_def)
qed

lemma AddColumn_error_or_fresh:
  assumes "builder_wf st"
  shows "case Build (AddColumn schema table column en hs pk st) of
       Inl e \<Rightarrow> True
     | Inr (m, handling) \<Rightarrow>
         table_config (snd (AddColumn schema table column en hs pk st)) m schema table =
           Some \<lparr>table_enabled = None, table_syncMode = None,
                 table_columns = [column \<mapsto> \<lparr>column_enabled = Some en, column_hashed = Some hs,
                                              column_isPrimaryKey = Some pk\<rparr>]\<rparr>"
proof (cases st)
  case (Pair b h)
  show ?thesis
  proof (cases "err b = None \<and> schema \<noteq> [] \<and> table \<noteq> [] \<and> column \<noteq> []
                 \<and> SchemaBuilder.schemas b schema \<noteq> None")
    case True
    then obtain s where s: "SchemaBuilder.schemas b schema = Some s" by auto
    obtain b' h' where r: "AddColumn schema table column en hs pk (b, h) = (b', h')"
      by (cases "AddColumn schema table column en hs pk (b, h)")
    from AddColumn_installs_fresh_table[OF assms[unfolded Pair] _ _ _ _ s r] True
    show ?thesis unfolding Pair r by simp
  next
    case False
    then show ?thesis unfolding Pair by (auto split: option.splits)
  qed
qed

lemma AddTable_effect:
  assumes "builder_wf st" and "Build (AddTable schema table en sm st) = Inr (m, handling)"
  shows "table_config (snd (AddTable schema table en sm st)) m schema table =
           Some \<lparr>table_enabled = Some en,
                 table_syncMode = (if sm = [] then None else Some sm),
                 table_columns = Map.empty\<rparr>"
proof (cases st)
  case (Pair b h)
  from assms(2) have ok: "err b = None" "schema \<noteq> []" "table \<noteq> []"
    and m: "m = SchemaBuilder.schemas b"
    unfolding Pair by (auto split: if_splits option.splits simp: Let_def new_Table_def)
  from assms(2) ok obtain s where s: "SchemaBuilder.schemas b schema = Some s"
    unfolding Pair by (cases "SchemaBuilder.schemas b schema") auto
  from assms(1) s obtain obj where obj: "schemaObjs h s = Some obj"
    unfolding Pair by (auto simp: builder_wf_def)
  show ?thesis unfolding Pair m using ok s obj
    by (auto simp: Let_def new_Table_def Schema_Table_def Table_Enabled_def Table_SyncMode_def
        write_Schema_def write_Table_def table_config_def)
qed

lemma AddColumn_keeps_Build:
  assumes "Build st = Inr r" and "schema \<noteq> []" and "table \<noteq> []" and "column \<noteq> []"
    and "fst r schema \<noteq> None"
  shows "Build (AddColumn schema table column en hs pk st) = Inr r"
proof (cases st)
  case (Pair b h)
  with assms show ?thesis
    by (auto simp: Let_def new_Table_def split: option.splits)
qed

lemma AddTable_Build_schema:
  assumes "Build (AddTable schema table en sm st) = Inr r"
  shows "schema \<noteq> [] \<and> table \<noteq> [] \<and> fst r schema \<noteq> None"
proof (cases st)
  case (Pair b h)
  with assms show ?thesis
    by (auto simp: Let_def new_Table_def split: option.splits if_splits)
qed

lemma builder_calls_snoc: "builder_calls (cs @ [c]) st = builder_step c (builder_calls cs st)"
  by (simp add: builder_calls_def)

text \<open>
  C10. Take any sequence of builder calls that contains \<^verbatim>\<open>AddTable(schema, table, enabled,
  syncMode)\<close> and, after any further calls, ends with \<^verbatim>\<open>AddColumn(schema, table, column, ...)\<close>.
  If \<^verbatim>\<open>Build\<close> then returns a configuration, what it holds for the table is a fresh table
  configuration with no enabled flag, no sync mode and the new column as its only column
  (so a column added by an earlier \<^verbatim>\<open>AddColumn\<close> is gone). Right after \<^verbatim>\<open>AddTable\<close> the
  configuration did hold the enabled flag and the sync mode; and when \<^verbatim>\<open>AddColumn\<close> follows
  \<^verbatim>\<open>AddTable\<close> directly with a column name that is not empty, \<^verbatim>\<open>Build\<close> returns a
  configuration whenever it did after \<^verbatim>\<open>AddTable\<close>.
\<close>

theorem C10_AddColumn_installs_fresh_table:
  assumes "stT = builder_calls (pre @ [CallAddTable schema table enabled syncMode]) NewSchemaBuilder"
    and "stC = builder_calls (mid @ [CallAddColumn schema table column en hs pk]) stT"
  shows "(case Build stC of
            Inl e \<Rightarrow> True
          | Inr (m, handling) \<Rightarrow>
              table_config (snd stC) m schema table =
                Some \<lparr>table_enabled = None, table_syncMode = None,
                      table_columns = [column \<mapsto> \<lparr>column_enabled = Some en,
                          column_hashed = Some hs, column_isPrimaryKey = Some pk\<rparr>]\<rparr>)
       \<and> (\<forall>m handling. Build stT = Inr (m, handling) \<longrightarrow>
             table_config (snd stT) m schema table =
               Some \<lparr>table_enabled = Some enabled,
                     table_syncMode = (if syncMode = [] then None else Some syncMode),
                     table_columns = Map.empty\<rparr>)
       \<and> (\<forall>r. mid = [] \<and> column \<noteq> [] \<and> Build stT = Inr r \<longrightarrow> Build stC = Inr r)"
proof (intro conjI allI impI)
  have wfT: "builder_wf stT"
    unfolding assms(1) by (rule builder_wf_calls[OF builder_wf_New])
  have stC: "stC = AddColumn schema table column en hs pk (builder_calls mid stT)"
    unfolding assms(2) by (simp add: builder_calls_snoc)
  have "builder_wf (builder_calls mid stT)" by (rule builder_wf_calls[OF wfT])
  from AddColumn_error_or_fresh[OF this]
  show "case Build stC of
            Inl e \<Rightarrow> True
          | Inr (m, handling) \<Rightarrow>
              table_config (snd stC) m schema table =
                Some \<lparr>table_enabled = None, table_syncMode = None,
                      table_columns = [column \<mapsto> \<lparr>column_enabled = Some en,
                          column_hashed = Some hs, column_isPrimaryKey = Some pk\<rparr>]\<rparr>"
    unfolding stC .
  have stT: "stT = AddTable schema table enabled syncMode (builder_calls pre NewSchemaBuilder)"
    unfolding assms(1) by (simp add: builder_calls_snoc)
  have wfpre: "builder_wf (builder_calls pre NewSchemaBuilder)"
    by (rule builder_wf_calls[OF builder_wf_New])
  {
    fix m handling
    assume "Build stT = Inr (m, handling)"
    then show "table_config (snd stT) m schema table =
               Some \<lparr>table_enabled = Some enabled,
                     table_syncMode = (if syncMode = [] then None else Some syncMode),
                     table_columns = Map.empty\<rparr>"
      unfolding stT by (rule AddTable_effect[OF wfpre])
  }
  {
    fix r
    assume a: "mid = [] \<and> column \<noteq> [] \<and> Build stT = Inr r"
    then have b: "Build stT = Inr r" and c: "column \<noteq> []" and mid: "mid = []" by simp_all
    from AddTable_Build_schema[OF b[unfolded stT]]
    have "schema \<noteq> []" "table \<noteq> []" "fst r schema \<noteq> None" by simp_all
    from AddColumn_keeps_Build[OF b this(1,2) c this(3)]
    show "Build stC = Inr r" unfolding stC mid by (simp add: builder_calls_def)
  }
qed

theorem C10_AddColumn_installs_fresh_table_witness:
  "(let stT = builder_calls ([CallAddSchema ''s'' True] @ [CallAddTable ''s'' ''t'' True ''HISTORY''])
                NewSchemaBuilder;
        stC = builder_calls ([CallAddColumn ''s'' ''t'' ''c1'' True False True]
                @ [CallAddColumn ''s'' ''t'' ''c2'' True True False]) stT
    in (case Build stT of
          Inr (m, handling) \<Rightarrow>
            map_option (\<lambda>t. (table_enabled t, table_syncMode t)) (table_config (snd stT) m ''s'' ''t'')
              = Some (Some True, Some ''HISTORY'')
        | Inl e \<Rightarrow> False)
     \<and> (case Build stC of
          Inr (m, handling) \<Rightarrow>
            map_option (\<lambda>t. (table_enabled t, table_syncMode t, table_columns t ''c1'',
                              table_columns t ''c2''))
              (table_config (snd stC) m ''s'' ''t'')
              = Some (None, None, None,
                      Some \<lparr>column_enabled = Some True, column_hashed = Some True,
                            column_isPrimaryKey = Some False\<rparr>)
        | Inl e \<Rightarrow> False))"
  using C10_AddColumn_installs_fresh_table
    [of "builder_calls ([CallAddSchema ''s'' True] @ [CallAddTable ''s'' ''t'' True ''HISTORY''])
                NewSchemaBuilder"
        "[CallAddSchema ''s'' True]" "''s''" "''t''" True "''HISTORY''"
        "builder_calls ([CallAddColumn ''s'' ''t'' ''c1'' True False True]
                @ [CallAddColumn ''s'' ''t'' ''c2'' True True False])
           (builder_calls ([CallAddSchema ''s'' True] @ [CallAddTable ''s'' ''t'' True ''HISTORY''])
                NewSchemaBuilder)"
        "[CallAddColumn ''s'' ''t'' ''c1'' True False True]" "''c2''" True True False]
  by (simp add: builder_calls_def NewSchemaBuilder_def new_Schema_def new_Table_def Let_def
      Schema_Enabled_def Schema_Table_def Table_Enabled_def Table_SyncMode_def Table_Column_def
      write_Schema_def write_Table_def table_config_def)


subsection \<open>The secret resolver\<close>

lemma cache_sound_extend:
  assumes "cache_sound vc st" and "cache st path = None" and "store_data vc path = Some kvs"
  shows "cache_sound vc (st\<lparr>fetched := fetched st @ [path], cache := (cache st)(path \<mapsto> kvs)\<rparr>)"
proof -
  from assms(1,2) have nf: "path \<notin> set (fetched st)"
    by (auto simp: cache_sound_def)
  with assms show ?thesis
    by (fastforce simp: cache_sound_def list_all_iff)
qed

lemma getPathData_sound:
  assumes "cache_sound vc st" and "getPathData vc st path kp ref = (r, st')"
  shows "(case r of
            Inr kvs \<Rightarrow> store_data vc path = Some kvs \<and> cache_sound vc st'
                        \<and> set (fetched st') = insert path (set (fetched st))
          | Inl e \<Rightarrow> store_data vc path = None)
         \<and> distinct (fetched st') \<and> prefix (fetched st) (fetched st')
         \<and> set (fetched st') \<subseteq> insert path (set (fetched st))"
proof (cases "cache st path")
  case None
  with assms(1) have nf: "path \<notin> set (fetched st)" and d: "distinct (fetched st)"
    by (auto simp: cache_sound_def)
  show ?thesis
  proof (cases "store_data vc path")
    case sd: None
    with assms(2) None have "isl r" and "fetched st' = fetched st @ [path]"
      by (auto simp: getPathData_def Let_def store_data_def
          split: kv_get.splits sum.splits if_splits)
    with sd nf d show ?thesis by (cases r) auto
  next
    case sd: (Some kvs)
    with assms(2) None have r: "r = Inr kvs"
      and st': "st' = st\<lparr>fetched := fetched st @ [path], cache := (cache st)(path \<mapsto> kvs)\<rparr>"
      by (auto simp: getPathData_def Let_def store_data_def
          split: kv_get.splits sum.splits if_splits)
    from cache_sound_extend[OF assms(1) None sd] sd nf d show ?thesis
      unfolding r st' by auto
  qed
next
  case (Some kvs)
  with assms(1) have m: "path \<in> set (fetched st)" by (auto simp: cache_sound_def)
  with assms(1) Some have "store_data vc path = Some kvs"
    by (auto simp: cache_sound_def list_all_iff)
  with assms Some m show ?thesis
    by (auto simp: getPathData_def cache_sound_def)
qed

lemma resolveString_sound:
  assumes "cache_sound vc st" and "resolveString vc st v kp = (r, st')"
  shows "(isl r \<longleftrightarrow> unresolvable vc v)
         \<and> (\<not> isl r \<longrightarrow> cache_sound vc st'
               \<and> set (fetched st') = set (fetched st) \<union> {p. refers_to p v})
         \<and> distinct (fetched st') \<and> prefix (fetched st) (fetched st')"
proof (cases "prefix ''vault:'' v")
  case False
  with assms show ?thesis
    by (auto simp: resolveString_def unresolvable_def refers_to_def cache_sound_def)
next
  case True
  show ?thesis
  proof (cases "parseVaultReference v")
    case (Inl e)
    with assms True show ?thesis
      by (auto simp: resolveString_def unresolvable_def reference_resolves_def refers_to_def
          cache_sound_def)
  next
    case (Inr pk)
    obtain path key where pk: "pk = (path, key)" by (cases pk)
    obtain g st1 where g: "getPathData vc st path kp v = (g, st1)"
      by (cases "getPathData vc st path kp v")
    note gs = getPathData_sound[OF assms(1) g]
    have refs: "{p. refers_to p v} = {path}"
      using True Inr pk by (auto simp: refers_to_def)
    show ?thesis
    proof (cases g)
      case e: (Inl e)
      with assms(2) True Inr pk g have "r = Inl e" "st' = st1"
        by (auto simp: resolveString_def)
      with gs e True Inr pk show ?thesis
        by (auto simp: unresolvable_def reference_resolves_def)
    next
      case k: (Inr kvs)
      with gs have sd: "store_data vc path = Some kvs" by simp
      from assms(2) True Inr pk g k have st': "st' = st1"
        and r: "isl r \<longleftrightarrow> map_of kvs key = None"
        by (auto simp: resolveString_def split: option.splits)
      from gs k r sd True Inr pk refs show ?thesis unfolding st'
        by (auto simp: unresolvable_def reference_resolves_def)
    qed
  qed
qed

lemma pass_ok_string:
  assumes "cache_sound vc st" and "resolveString vc st v kp = (r, st')"
  shows "pass_ok vc st [v] (isl r) st'"
  using resolveString_sound[OF assms] by (auto simp: pass_ok_def)

lemma pass_ok_nothing: "cache_sound vc st \<Longrightarrow> pass_ok vc st [] False st"
  by (auto simp: pass_ok_def cache_sound_def)

lemma pass_ok_fail: "pass_ok vc st vs True st1 \<Longrightarrow> pass_ok vc st (vs @ ws) True st1"
  by (auto simp: pass_ok_def)

lemma pass_ok_seq:
  assumes "pass_ok vc st vs False st1" and "pass_ok vc st1 ws failed st2"
  shows "pass_ok vc st (vs @ ws) failed st2"
  using assms unfolding pass_ok_def by (auto simp: list_ex_iff)

lemma pass_ok_sound: "pass_ok vc st vs False st1 \<Longrightarrow> cache_sound vc st1"
  by (simp add: pass_ok_def)

lemma resolve_pass_ok:
  "cache_sound vc st \<longrightarrow> pass_ok vc st (strings_of v) (isl (fst (resolveValue vc st v kp)))
      (snd (resolveValue vc st v kp))"
  "cache_sound vc st \<longrightarrow> pass_ok vc st (strings_of_map kvs)
      (isl (fst (resolveMap_range vc st kvs kp result)))
      (snd (resolveMap_range vc st kvs kp result))"
  "cache_sound vc st \<longrightarrow> pass_ok vc st (strings_of_slice items)
      (isl (fst (resolveSlice_range vc st items kp i acc)))
      (snd (resolveSlice_range vc st items kp i acc))"
proof (induction vc st v kp and vc st kvs kp result and vc st items kp i acc
    rule: resolveValue_resolveMap_range_resolveSlice_range.induct)
  case (1 vaultClient st kvs keyPath)
  then show ?case by (auto split: prod.splits sum.splits)
next
  case (2 vaultClient st items keyPath)
  then show ?case by (auto split: prod.splits sum.splits)
next
  case (3 vaultClient st v keyPath)
  show ?case
  proof
    assume cs: "cache_sound vaultClient st"
    obtain r st' where r: "resolveString vaultClient st v keyPath = (r, st')"
      by (cases "resolveString vaultClient st v keyPath")
    from pass_ok_string[OF cs r] show "pass_ok vaultClient st (strings_of (JString v))
      (isl (fst (resolveValue vaultClient st (JString v) keyPath)))
      (snd (resolveValue vaultClient st (JString v) keyPath))"
      by (simp add: r)
  qed
next
  case (4 vaultClient st keyPath)
  then show ?case by (simp add: pass_ok_nothing)
next
  case (5 vaultClient st b keyPath)
  then show ?case by (simp add: pass_ok_nothing)
next
  case (6 vaultClient st n keyPath)
  then show ?case by (simp add: pass_ok_nothing)
next
  case (7 vaultClient st keyPath result)
  then show ?case by (simp add: pass_ok_nothing)
next
  case (8 vaultClient st key v rest keyPath result)
  show ?case
  proof
    assume cs: "cache_sound vaultClient st"
    obtain r st1 where r: "resolveValue vaultClient st v (buildKeyPath keyPath key) = (r, st1)"
      by (cases "resolveValue vaultClient st v (buildKeyPath keyPath key)")
    from 8(1) cs r have p1: "pass_ok vaultClient st (strings_of v) (isl r) st1" by simp
    show "pass_ok vaultClient st (strings_of_map ((key, v) # rest))
       (isl (fst (resolveMap_range vaultClient st ((key, v) # rest) keyPath result)))
       (snd (resolveMap_range vaultClient st ((key, v) # rest) keyPath result))"
    proof (cases r)
      case (Inl e)
      with p1 r show ?thesis by (simp add: pass_ok_fail)
    next
      case (Inr b)
      with p1 have p1': "pass_ok vaultClient st (strings_of v) False st1" by simp
      from 8(2)[OF r[symmetric] Inr] pass_ok_sound[OF p1']
      have "pass_ok vaultClient st1 (strings_of_map rest)
         (isl (fst (resolveMap_range vaultClient st1 rest keyPath (AList.update key b result))))
         (snd (resolveMap_range vaultClient st1 rest keyPath (AList.update key b result)))"
        by simp
      from pass_ok_seq[OF p1' this] r Inr show ?thesis by simp
    qed
  qed
next
  case (9 vaultClient st keyPath i result)
  then show ?case by (simp add: pass_ok_nothing)
next
  case (10 vaultClient st item rest keyPath i result)
  show ?case
  proof
    assume cs: "cache_sound vaultClient st"
    obtain r st1 where
      r: "resolveValue vaultClient st item (keyPath @ ''['' @ fmt_nat i @ '']'') = (r, st1)"
      by (cases "resolveValue vaultClient st item (keyPath @ ''['' @ fmt_nat i @ '']'')")
    from 10(1) cs r have p1: "pass_ok vaultClient st (strings_of item) (isl r) st1" by simp
    show "pass_ok vaultClient st (strings_of_slice (item # rest))
       (isl (fst (resolveSlice_range vaultClient st (item # rest) keyPath i result)))
       (snd (resolveSlice_range vaultClient st (item # rest) keyPath i result))"
    proof (cases r)
      case (Inl e)
      with p1 r show ?thesis by (simp add: pass_ok_fail)
    next
      case (Inr b)
      with p1 have p1': "pass_ok vaultClient st (strings_of item) False st1" by simp
      from 10(2)[OF r[symmetric] Inr] pass_ok_sound[OF p1']
      have "pass_ok vaultClient st1 (strings_of_slice rest)
         (isl (fst (resolveSlice_range vaultClient st1 rest keyPath (Suc i) (result[i := b]))))
         (snd (resolveSlice_range vaultClient st1 rest keyPath (Suc i) (result[i := b])))"
        by simp
      from pass_ok_seq[OF p1' this] r Inr show ?thesis by simp
    qed
  qed
qed

lemma cache_sound_initial: "cache_sound vc \<lparr>cache = Map.empty, fetched = []\<rparr>"
  by (simp add: cache_sound_def)

lemma resolveValue_initial:
  "pass_ok vc \<lparr>cache = Map.empty, fetched = []\<rparr> (strings_of doc)
     (isl (fst (resolveValue vc \<lparr>cache = Map.empty, fetched = []\<rparr> doc [])))
     (snd (resolveValue vc \<lparr>cache = Map.empty, fetched = []\<rparr> doc []))"
  using resolve_pass_ok(1)[of vc "\<lparr>cache = Map.empty, fetched = []\<rparr>" doc "[]"]
    cache_sound_initial by blast

lemma count_list_distinct: "distinct xs \<Longrightarrow> count_list xs p = (if p \<in> set xs then 1 else 0)"
  by (induction xs) auto

lemma ResolveSecrets_error_keeps_document:
  "ResolveSecrets lib vc rawConfig = (Some e, rc', fs) \<Longrightarrow> rc' = rawConfig"
  by (auto simp: ResolveSecrets_def split: option.splits sum.splits prod.splits)

lemma ResolveSecrets_fetches:
  assumes "json_Unmarshal lib bytes = Inr doc"
  shows "snd (snd (ResolveSecrets lib vc (Some \<lparr>Raw = Some bytes\<rparr>)))
           = fetched (snd (resolveValue vc \<lparr>cache = Map.empty, fetched = []\<rparr> doc []))"
  using assms by (auto simp: ResolveSecrets_def split: option.splits sum.splits prod.splits)

lemma ResolveSecrets_fails:
  assumes "json_Unmarshal lib bytes = Inr doc"
    and "isl (fst (resolveValue vc \<lparr>cache = Map.empty, fetched = []\<rparr> doc []))"
  shows "\<exists>e fs. ResolveSecrets lib vc (Some \<lparr>Raw = Some bytes\<rparr>)
           = (Some (VaultErr e), Some \<lparr>Raw = Some bytes\<rparr>, fs)"
  using assms by (auto simp: ResolveSecrets_def split: option.splits sum.splits prod.splits)

text \<open>
  C3. Whenever \<^verbatim>\<open>ResolveSecrets\<close> returns an error, the document behind \<^verbatim>\<open>rawConfig\<close> is the
  one the caller passed. And when the document decodes and holds a string value that is a
  reference and does not resolve against the store (it does not parse, the store's fetch of
  its path fails or gives no key/value mapping, or the mapping lacks its key),
  \<^verbatim>\<open>ResolveSecrets\<close> returns a \<^verbatim>\<open>VaultError\<close> and leaves the caller's bytes as they were,
  whatever the other references of the document resolve to.
\<close>

theorem C3_fail_fast_resolution:
  "(\<forall>e rc' fs. ResolveSecrets lib vaultClient rawConfig = (Some e, rc', fs) \<longrightarrow> rc' = rawConfig)
   \<and> (json_Unmarshal lib bytes = Inr doc \<and> list_ex (unresolvable vaultClient) (strings_of doc)
        \<longrightarrow> (\<exists>e fs. ResolveSecrets lib vaultClient (Some \<lparr>Raw = Some bytes\<rparr>)
                      = (Some (VaultErr e), Some \<lparr>Raw = Some bytes\<rparr>, fs)))"
proof (intro conjI allI impI)
  fix e rc' fs
  assume "ResolveSecrets lib vaultClient rawConfig = (Some e, rc', fs)"
  then show "rc' = rawConfig" by (rule ResolveSecrets_error_keeps_document)
next
  assume a: "json_Unmarshal lib bytes = Inr doc \<and> list_ex (unresolvable vaultClient) (strings_of doc)"
  with resolveValue_initial[of vaultClient doc]
  have "isl (fst (resolveValue vaultClient \<lparr>cache = Map.empty, fetched = []\<rparr> doc []))"
    by (simp add: pass_ok_def)
  with a show "\<exists>e fs. ResolveSecrets lib vaultClient (Some \<lparr>Raw = Some bytes\<rparr>)
                      = (Some (VaultErr e), Some \<lparr>Raw = Some bytes\<rparr>, fs)"
    by (intro ResolveSecrets_fails) simp_all
qed

lemma test_failure_stops_processing_evaluates:
  "ResolveSecrets (test_codec test_failure_stops_processing) test_vaultClient
       (Some \<lparr>Raw = Some ''doc''\<rparr>)
     = (Some (VaultErr (NewKeyNotFoundError ''invalid'' ''nonexistent'' ''test-secret''
                          [''api_key'', ''username'', ''password''])),
        Some \<lparr>Raw = Some ''doc''\<rparr>, [''test-secret''])"
  by (simp add: ResolveSecrets_def test_codec_def test_failure_stops_processing_def
      test_vaultClient_def resolveString_def getPathData_def parseVaultReference_def
      strings_SplitN2_def strings_TrimPrefix_def extractSecretData_def buildKeyPath_def
      getKeys_def Let_def)

lemmas vault_eval_defs =
  ResolveSecrets_def test_codec_def test_vaultClient_def resolveString_def getPathData_def
  parseVaultReference_def strings_SplitN2_def strings_TrimPrefix_def extractSecretData_def
  buildKeyPath_def getKeys_def Let_def unresolvable_def reference_resolves_def store_data_def
  refers_to_def fmt_nat.simps digit_char_def

theorem C3_fail_fast_resolution_witness:
  "json_Unmarshal (test_codec test_failure_stops_processing) ''doc''
     = Inr test_failure_stops_processing
   \<and> list_ex (unresolvable test_vaultClient) (strings_of test_failure_stops_processing)
   \<and> \<not> unresolvable test_vaultClient ''vault:test-secret#api_key''
   \<and> ResolveSecrets (test_codec test_failure_stops_processing) test_vaultClient
        (Some \<lparr>Raw = Some ''doc''\<rparr>)
      = (Some (VaultErr (NewKeyNotFoundError ''invalid'' ''nonexistent'' ''test-secret''
                           [''api_key'', ''username'', ''password''])),
         Some \<lparr>Raw = Some ''doc''\<rparr>, [''test-secret''])"
  using C3_fail_fast_resolution
    [of "test_codec test_failure_stops_processing" test_vaultClient
        "Some \<lparr>Raw = Some ''doc''\<rparr>" "''doc''" test_failure_stops_processing]
  by (simp add: vault_eval_defs test_failure_stops_processing_def)

text \<open>
  C4 (as amended). For every document that decodes and every path \<open>p\<close>, one call of
  \<^verbatim>\<open>ResolveSecrets\<close> fetches \<open>p\<close> from the store at most once; and when every reference of the
  document resolves, it fetches \<open>p\<close> exactly once if some reference of the document refers to
  \<open>p\<close>, and not at all otherwise.
\<close>

theorem C4_one_fetch_per_path:
  assumes "json_Unmarshal lib bytes = Inr doc"
  shows "count_list (snd (snd (ResolveSecrets lib vaultClient (Some \<lparr>Raw = Some bytes\<rparr>)))) p \<le> 1
       \<and> (\<not> list_ex (unresolvable vaultClient) (strings_of doc) \<longrightarrow>
            count_list (snd (snd (ResolveSecrets lib vaultClient (Some \<lparr>Raw = Some bytes\<rparr>)))) p
              = (if list_ex (refers_to p) (strings_of doc) then 1 else 0))"
proof -
  let ?st' = "snd (resolveValue vaultClient \<lparr>cache = Map.empty, fetched = []\<rparr> doc [])"
  have fs: "snd (snd (ResolveSecrets lib vaultClient (Some \<lparr>Raw = Some bytes\<rparr>))) = fetched ?st'"
    by (rule ResolveSecrets_fetches[OF assms])
  note ok = resolveValue_initial[of vaultClient doc, unfolded pass_ok_def]
  from ok have d: "distinct (fetched ?st')" by simp
  have "count_list (fetched ?st') p \<le> 1"
    by (simp add: count_list_distinct[OF d])
  moreover have "count_list (fetched ?st') p = (if list_ex (refers_to p) (strings_of doc) then 1 else 0)"
    if "\<not> list_ex (unresolvable vaultClient) (strings_of doc)"
  proof -
    from ok that have "set (fetched ?st') = {p. list_ex (refers_to p) (strings_of doc)}"
      by auto
    then show ?thesis by (simp add: count_list_distinct[OF d])
  qed
  ultimately show ?thesis unfolding fs by blast
qed

theorem C4_one_fetch_per_path_witness:
  "json_Unmarshal (test_codec test_array_with_vault_references) ''doc''
     = Inr test_array_with_vault_references
   \<and> \<not> list_ex (unresolvable test_vaultClient) (strings_of test_array_with_vault_references)
   \<and> length (filter (refers_to ''test-secret'') (strings_of test_array_with_vault_references)) = 2
   \<and> count_list (snd (snd (ResolveSecrets (test_codec test_array_with_vault_references)
        test_vaultClient (Some \<lparr>Raw = Some ''doc''\<rparr>)))) ''test-secret'' = 1"
  using C4_one_fetch_per_path
    [of "test_codec test_array_with_vault_references" "''doc''"
        test_array_with_vault_references test_vaultClient "''test-secret''"]
  by (simp add: vault_eval_defs test_array_with_vault_references_def)

text \<open>
  C4 as stated fails: the pass stops at the first failing reference, so a path that is only
  referred to after it is not fetched at all. Here the first element of a list refers to a
  key its secret lacks, and the second element's path \<open>other-secret\<close> is never fetched.
\<close>

theorem C4_exactly_one_fetch_counterexample:
  "\<not> (\<forall>lib vaultClient bytes doc p.
        json_Unmarshal lib bytes = Inr doc \<and> list_ex (refers_to p) (strings_of doc) \<longrightarrow>
        count_list (snd (snd (ResolveSecrets lib vaultClient (Some \<lparr>Raw = Some bytes\<rparr>)))) p = 1)"
proof
  assume "\<forall>lib vaultClient bytes doc p.
        json_Unmarshal lib bytes = Inr doc \<and> list_ex (refers_to p) (strings_of doc) \<longrightarrow>
        count_list (snd (snd (ResolveSecrets lib vaultClient (Some \<lparr>Raw = Some bytes\<rparr>)))) p = 1"
  then have "json_Unmarshal (test_codec test_failing_then_other_path) ''doc''
          = Inr test_failing_then_other_path
        \<and> list_ex (refers_to ''other-secret'') (strings_of test_failing_then_other_path) \<longrightarrow>
        count_list (snd (snd (ResolveSecrets (test_codec test_failing_then_other_path)
          test_vaultClient (Some \<lparr>Raw = Some ''doc''\<rparr>)))) ''other-secret'' = 1"
    by blast
  then show False
    by (simp add: vault_eval_defs test_failing_then_other_path_def)
qed


subsection \<open>Status conditions and setup tests\<close>

lemma setCondition_range_find:
  "setCondition_range c cs = Some cs' \<Longrightarrow> find (\<lambda>x. Type x = Type c) cs' = Some c"
  by (induction cs arbitrary: cs') (auto split: if_splits)

lemma setCondition_range_None:
  "setCondition_range c cs = None \<Longrightarrow> find (\<lambda>x. Type x = Type c) cs = None"
  by (induction cs) (auto split: if_splits)

lemma setCondition_range_find_other:
  "setCondition_range c cs = Some cs' \<Longrightarrow> t \<noteq> Type c
   \<Longrightarrow> find (\<lambda>x. Type x = t) cs' = find (\<lambda>x. Type x = t) cs"
  by (induction cs arbitrary: cs') (auto split: if_splits)

lemma setCondition_range_filter:
  "setCondition_range c cs = Some cs' \<Longrightarrow> Type c \<in> set ts
   \<Longrightarrow> filter (\<lambda>x. Type x \<notin> set ts) cs' = filter (\<lambda>x. Type x \<notin> set ts) cs"
  by (induction cs arbitrary: cs') (auto split: if_splits)

lemma find_append_None:
  "find P xs = None \<Longrightarrow> find P (xs @ ys) = find P ys"
  by (induction xs) (auto split: if_splits)

lemma find_append_other:
  "\<not> P y \<Longrightarrow> find P (xs @ [y]) = find P xs"
  by (induction xs) auto

lemma setCondition_effect:
  assumes "setCondition env t st reason msg s = (r, s')"
  shows "condition_summary s' t = Some (st, reason, msg)"
    and "t' \<noteq> t \<Longrightarrow> condition_of s' t' = condition_of s t'"
    and "t \<in> set ts \<Longrightarrow> conditions_except ts s' = conditions_except ts s"
    and "calls s' = calls s @ [CallStatusUpdate (connector s')]"
    and "Spec (connector s') = Spec (connector s)"
    and "r = fst (Client_Status_Update env (connector s') (world s))"
proof -
  let ?c = "\<lparr>Type = t, Status = st, Reason = reason, Message = msg,
             LastTransitionTime = metav1_Now env (world s)\<rparr>"
  let ?cs = "Conditions (FivetranConnector.Status (connector s))"
  let ?cs' = "case setCondition_range ?c ?cs of Some replaced \<Rightarrow> replaced | None \<Rightarrow> ?cs @ [?c]"
  from assms have conds: "Conditions (FivetranConnector.Status (connector s')) = ?cs'"
    and calls: "calls s' = calls s @ [CallStatusUpdate (connector s')]"
    and spec: "Spec (connector s') = Spec (connector s)"
    and r: "r = fst (Client_Status_Update env (connector s') (world s))"
    by (auto simp: setCondition_def do_Status_Update_def Let_def split: prod.splits)
  have f: "find (\<lambda>x. Type x = t) ?cs' = Some ?c"
  proof (cases "setCondition_range ?c ?cs")
    case None
    from setCondition_range_None[OF None] show ?thesis
      by (simp add: None find_append_None)
  next
    case (Some a)
    from setCondition_range_find[OF Some] show ?thesis by (simp add: Some)
  qed
  show "condition_summary s' t = Some (st, reason, msg)"
    by (simp add: condition_summary_def condition_of_def conds f)
  show "condition_of s' t' = condition_of s t'" if "t' \<noteq> t"
  proof (cases "setCondition_range ?c ?cs")
    case None
    with that show ?thesis
      by (simp add: condition_of_def conds find_append_other)
  next
    case (Some a)
    from setCondition_range_find_other[OF Some, of t'] that show ?thesis
      by (simp add: condition_of_def conds Some)
  qed
  show "conditions_except ts s' = conditions_except ts s" if "t \<in> set ts"
  proof (cases "setCondition_range ?c ?cs")
    case None
    with that show ?thesis by (simp add: conditions_except_def conds)
  next
    case (Some a)
    from setCondition_range_filter[OF Some, of ts] that show ?thesis
      by (simp add: conditions_except_def conds Some)
  qed
  show "calls s' = calls s @ [CallStatusUpdate (connector s')]" by (rule calls)
  show "Spec (connector s') = Spec (connector s)" by (rule spec)
  show "r = fst (Client_Status_Update env (connector s') (world s))" by (rule r)
qed

lemma setupTests_range_errors:
  "setupTests_range tests (ws, es) = (ws', es')
   \<Longrightarrow> (es' = [] \<longleftrightarrow> es = [] \<and> \<not> list_ex setup_test_failed tests)"
  by (induction tests arbitrary: ws es) (auto simp: setup_test_failed_def split: if_splits)

lemma handleError_setup_tests_failed:
  assumes is_setup: "errors_Is e ErrSetupTestsFailed"
    and not_schema: "\<not> errors_Is e ErrSchemaMismatchAfterRetry"
    and h: "handleError env conditionTypeSetupTestReady reason e s = ((res, r), s')"
  shows "res = no_requeue
    \<and> condition_summary s' conditionTypeConnectorReady
        = Some (ConditionTrue, ConnectorReasonSuccess, msgConnectorReady)
    \<and> conditions_except [conditionTypeConnectorReady, conditionTypeSetupTestReady] s'
        = conditions_except [conditionTypeConnectorReady, conditionTypeSetupTestReady] s
    \<and> (r = None \<longrightarrow> condition_summary s' conditionTypeSetupTestReady
                       = Some (ConditionFalse, reason, error_Error e))"
proof -
  obtain r1 s1 where c1: "setCondition env conditionTypeConnectorReady ConditionTrue
       ConnectorReasonSuccess msgConnectorReady s = (r1, s1)"
    by (cases "setCondition env conditionTypeConnectorReady ConditionTrue
       ConnectorReasonSuccess msgConnectorReady s")
  note e1 = setCondition_effect[OF c1]
  have ne: "conditionTypeConnectorReady \<noteq> conditionTypeSetupTestReady"
    by (simp add: conditionTypeConnectorReady_def conditionTypeSetupTestReady_def)
  show ?thesis
  proof (cases r1)
    case (Some e1')
    with h is_setup not_schema c1 have "res = no_requeue" "s' = s1" "r = Some e1'"
      by (auto simp: handleError_def)
    with e1(1) e1(3)[of "[conditionTypeConnectorReady, conditionTypeSetupTestReady]"]
    show ?thesis by simp
  next
    case None
    obtain r2 s2 where c2: "setCondition env conditionTypeSetupTestReady ConditionFalse
       reason (error_Error e) s1 = (r2, s2)"
      by (cases "setCondition env conditionTypeSetupTestReady ConditionFalse
       reason (error_Error e) s1")
    note e2 = setCondition_effect[OF c2]
    from h is_setup not_schema c1 c2 None have "res = no_requeue" "s' = s2" "r = r2"
      by (auto simp: handleError_def)
    with e1(1) e1(3)[of "[conditionTypeConnectorReady, conditionTypeSetupTestReady]"]
      e2(1) e2(2)[of conditionTypeConnectorReady]
      e2(3)[of "[conditionTypeConnectorReady, conditionTypeSetupTestReady]"] ne
    show ?thesis by (simp add: condition_summary_def)
  qed
qed

lemma updateSetupTestsCondition_effect:
  assumes "updateSetupTestsCondition env ws s = (r, s')"
  shows "condition_of s' conditionTypeConnectorReady = condition_of s conditionTypeConnectorReady
    \<and> conditions_except [conditionTypeSetupTestReady] s'
        = conditions_except [conditionTypeSetupTestReady] s
    \<and> (\<exists>reason msg. condition_summary s' conditionTypeSetupTestReady
                        = Some (ConditionTrue, reason, msg))"
proof -
  have ne: "conditionTypeConnectorReady \<noteq> conditionTypeSetupTestReady"
    by (simp add: conditionTypeConnectorReady_def conditionTypeSetupTestReady_def)
  from assms obtain reason msg where
    "setCondition env conditionTypeSetupTestReady ConditionTrue reason msg s = (r, s')"
    by (auto simp: updateSetupTestsCondition_def Let_def split: if_splits)
  note e = setCondition_effect[OF this]
  from e(1) e(2)[of conditionTypeConnectorReady] e(3)[of "[conditionTypeSetupTestReady]"] ne
  show ?thesis by simp
qed

text \<open>
  C9. Let setup tests be enabled and the provider's \<^verbatim>\<open>RunSetupTests\<close> call succeed. If some
  test failed, \<^verbatim>\<open>reconcileSetupTests\<close> returns an error that is \<^verbatim>\<open>ErrSetupTestsFailed\<close> and
  leaves the resource as it was; \<^verbatim>\<open>handleError\<close> for the setup-test condition then asks for no
  requeue, sets the connector-ready condition to true with the success reason, leaves every
  condition of another type as it was, and, when the status is written, sets the setup-test
  condition to false with the error's message. If no test failed (warnings included),
  \<^verbatim>\<open>reconcileSetupTests\<close> leaves the connector-ready condition and every condition other than
  the setup-test one as they were, and sets the setup-test condition to true.
\<close>

theorem C9_setup_test_failure_keeps_connector_ready:
  assumes "Connector.RunSetupTests (Connector (Spec (connector s))) \<noteq> Some False"
    and "Connections_RunSetupTests env connectorID
           (Connector.TrustCertificates (Connector (Spec (connector s))))
           (Connector.TrustFingerprints (Connector (Spec (connector s)))) (world s)
         = ((tests, None), w1)"
  shows "(list_ex setup_test_failed tests \<longrightarrow>
            (\<exists>ws e s1.
               reconcileSetupTests env connectorID s = ((ws, Some e), s1)
             \<and> errors_Is e ErrSetupTestsFailed
             \<and> connector s1 = connector s
             \<and> (case handleError env conditionTypeSetupTestReady
                        SetupTestsReasonReconciliationFailed e s1 of
                  ((res, r), s2) \<Rightarrow>
                    res = no_requeue
                  \<and> condition_summary s2 conditionTypeConnectorReady
                      = Some (ConditionTrue, ConnectorReasonSuccess, msgConnectorReady)
                  \<and> conditions_except [conditionTypeConnectorReady, conditionTypeSetupTestReady] s2
                      = conditions_except [conditionTypeConnectorReady, conditionTypeSetupTestReady] s
                  \<and> (r = None \<longrightarrow>
                        condition_summary s2 conditionTypeSetupTestReady
                          = Some (ConditionFalse, SetupTestsReasonReconciliationFailed,
                                  error_Error e)))))
       \<and> (\<not> list_ex setup_test_failed tests \<longrightarrow>
            (\<exists>ws r s1.
               reconcileSetupTests env connectorID s = ((ws, r), s1)
             \<and> condition_of s1 conditionTypeConnectorReady
                 = condition_of s conditionTypeConnectorReady
             \<and> conditions_except [conditionTypeSetupTestReady] s1
                 = conditions_except [conditionTypeSetupTestReady] s
             \<and> (\<exists>reason msg. condition_summary s1 conditionTypeSetupTestReady
                                 = Some (ConditionTrue, reason, msg))))"
proof -
  let ?s1 = "s\<lparr>world := w1, calls := calls s @ [CallRunSetupTests connectorID
           (Connector.TrustCertificates (Connector (Spec (connector s))))
           (Connector.TrustFingerprints (Connector (Spec (connector s))))]\<rparr>"
  obtain ws es where range: "setupTests_range tests ([], []) = (ws, es)"
    by (cases "setupTests_range tests ([], [])")
  note iff = setupTests_range_errors[OF range]
  from assms(1) have run: "(case Connector.RunSetupTests (Connector (Spec (connector s))) of
               None \<Rightarrow> True | Some b \<Rightarrow> b)"
    by (auto split: option.splits)
  have call: "do_RunSetupTests env connectorID
           (Connector.TrustCertificates (Connector (Spec (connector s))))
           (Connector.TrustFingerprints (Connector (Spec (connector s)))) s
         = ((tests, None), ?s1)"
    by (simp add: do_RunSetupTests_def assms(2))
  have failed: "\<exists>ws e s1.
               reconcileSetupTests env connectorID s = ((ws, Some e), s1)
             \<and> errors_Is e ErrSetupTestsFailed
             \<and> connector s1 = connector s
             \<and> (case handleError env conditionTypeSetupTestReady
                        SetupTestsReasonReconciliationFailed e s1 of
                  ((res, r), s2) \<Rightarrow>
                    res = no_requeue
                  \<and> condition_summary s2 conditionTypeConnectorReady
                      = Some (ConditionTrue, ConnectorReasonSuccess, msgConnectorReady)
                  \<and> conditions_except [conditionTypeConnectorReady, conditionTypeSetupTestReady] s2
                      = conditions_except [conditionTypeConnectorReady, conditionTypeSetupTestReady] s
                  \<and> (r = None \<longrightarrow>
                        condition_summary s2 conditionTypeSetupTestReady
                          = Some (ConditionFalse, SetupTestsReasonReconciliationFailed,
                                  error_Error e)))"
    if f: "list_ex setup_test_failed tests"
  proof -
    let ?e = "Wrapped (error_Error ErrSetupTestsFailed @ '': '' @ error_Error (Joined es))
                ErrSetupTestsFailed"
    from iff f have es: "es \<noteq> []" by simp
    have rs: "reconcileSetupTests env connectorID s = ((ws, Some ?e), ?s1)"
      using run call range es by (simp add: reconcileSetupTests_def Let_def)
    obtain res r s2 where h: "handleError env conditionTypeSetupTestReady
                        SetupTestsReasonReconciliationFailed ?e ?s1 = ((res, r), s2)"
      by (cases "handleError env conditionTypeSetupTestReady
                        SetupTestsReasonReconciliationFailed ?e ?s1") auto
    have isf: "errors_Is ?e ErrSetupTestsFailed" by simp
    have nis: "\<not> errors_Is ?e ErrSchemaMismatchAfterRetry" by simp
    have same: "conditions_except [conditionTypeConnectorReady, conditionTypeSetupTestReady] ?s1
      = conditions_except [conditionTypeConnectorReady, conditionTypeSetupTestReady] s"
      by (simp add: conditions_except_def)
    from handleError_setup_tests_failed[OF isf nis h] same
    have "case handleError env conditionTypeSetupTestReady
                        SetupTestsReasonReconciliationFailed ?e ?s1 of
                  ((res, r), s2) \<Rightarrow>
                    res = no_requeue
                  \<and> condition_summary s2 conditionTypeConnectorReady
                      = Some (ConditionTrue, ConnectorReasonSuccess, msgConnectorReady)
                  \<and> conditions_except [conditionTypeConnectorReady, conditionTypeSetupTestReady] s2
                      = conditions_except [conditionTypeConnectorReady, conditionTypeSetupTestReady] s
                  \<and> (r = None \<longrightarrow>
                        condition_summary s2 conditionTypeSetupTestReady
                          = Some (ConditionFalse, SetupTestsReasonReconciliationFailed,
                                  error_Error ?e))"
      unfolding h by simp
    with rs isf show ?thesis by (intro exI[of _ ws] exI[of _ ?e] exI[of _ ?s1]) simp
  qed
  have passed: "\<exists>ws r s1.
               reconcileSetupTests env connectorID s = ((ws, r), s1)
             \<and> condition_of s1 conditionTypeConnectorReady
                 = condition_of s conditionTypeConnectorReady
             \<and> conditions_except [conditionTypeSetupTestReady] s1
                 = conditions_except [conditionTypeSetupTestReady] s
             \<and> (\<exists>reason msg. condition_summary s1 conditionTypeSetupTestReady
                                 = Some (ConditionTrue, reason, msg))"
    if f: "\<not> list_ex setup_test_failed tests"
  proof -
    from iff f have es: "es = []" by simp
    obtain r s2 where u: "updateSetupTestsCondition env ws ?s1 = (r, s2)"
      by (cases "updateSetupTestsCondition env ws ?s1")
    have rs: "reconcileSetupTests env connectorID s = ((ws, r), s2)"
      using run call range es u by (simp add: reconcileSetupTests_def Let_def)
    from updateSetupTestsCondition_effect[OF u] rs show ?thesis
      by (intro exI[of _ ws] exI[of _ r] exI[of _ s2])
         (simp add: condition_of_def conditions_except_def)
  qed
  from failed passed show ?thesis by blast
qed

lemmas ctrl_eval_defs =
  test_env_def test_run_def test_connector_def reconcileSetupTests_def do_RunSetupTests_def
  handleError_def setCondition_def do_Status_Update_def updateSetupTestsCondition_def
  setup_test_failed_def setupTestStatusWarning_def setupTestStatusPassed_def
  setupTestStatusSkipped_def conditionTypeSetupTestReady_def conditionTypeConnectorReady_def
  SetupTestsReasonReconciliationFailed_def ConnectorReasonSuccess_def msgConnectorReady_def
  condition_summary_def condition_of_def conditions_except_def no_requeue_def requeued_def
  Let_def

theorem C9_setup_test_failure_keeps_connector_ready_witness:
  "Connector.RunSetupTests (Connector (Spec (connector test_run))) \<noteq> Some False
   \<and> Connections_RunSetupTests
        (test_env [\<lparr>Title = ''Connecting to host'', Status = ''FAILED'', Message = ''timeout''\<rparr>]
           test_no_schema test_details)
        ''conn_1''
        (Connector.TrustCertificates (Connector (Spec (connector test_run))))
        (Connector.TrustFingerprints (Connector (Spec (connector test_run)))) (world test_run)
      = (([\<lparr>Title = ''Connecting to host'', Status = ''FAILED'', Message = ''timeout''\<rparr>], None), 2)
   \<and> list_ex setup_test_failed
        [\<lparr>Title = ''Connecting to host'', Status = ''FAILED'', Message = ''timeout''\<rparr>]
   \<and> (case reconcileSetupTests
          (test_env [\<lparr>Title = ''Connecting to host'', Status = ''FAILED'', Message = ''timeout''\<rparr>]
             test_no_schema test_details) ''conn_1'' test_run of
         ((ws, Some e), s1) \<Rightarrow>
           (case handleError
              (test_env [\<lparr>Title = ''Connecting to host'', Status = ''FAILED'',
                          Message = ''timeout''\<rparr>] test_no_schema test_details)
              conditionTypeSetupTestReady SetupTestsReasonReconciliationFailed e s1 of
              ((res, r), s2) \<Rightarrow>
                \<not> requeued (res, r)
              \<and> condition_summary s2 ''ConnectorReady''
                  = Some (ConditionTrue, ''ReconciledSuccessfully'', ''Connector is ready'')
              \<and> condition_summary s2 ''SetupTestReady''
                  = Some (ConditionFalse, ''ReconciliationFailed'',
                      ''setup tests failed: reconcileSetupTests failed: Connecting to host (status: FAILED) - timeout''))
       | ((ws, None), s1) \<Rightarrow> False)"
  using C9_setup_test_failure_keeps_connector_ready
    [of test_run
        "test_env [\<lparr>Title = ''Connecting to host'', Status = ''FAILED'', Message = ''timeout''\<rparr>]
           test_no_schema test_details"
        "''conn_1''"
        "[\<lparr>Title = ''Connecting to host'', Status = ''FAILED'', Message = ''timeout''\<rparr>]" 2]
  by (simp add: ctrl_eval_defs)



subsection \<open>Schema reconciliation\<close>

lemma run_kinds_refl: "run_kinds s s []"
  by (simp add: run_kinds_def)

lemma run_kinds_trans:
  "run_kinds s s1 k1 \<Longrightarrow> run_kinds s1 s2 k2 \<Longrightarrow> run_kinds s s2 (k1 @ k2)"
  by (auto simp: run_kinds_def)

lemma run_kinds_spec: "run_kinds s s' ks \<Longrightarrow> Spec (connector s') = Spec (connector s)"
  by (simp add: run_kinds_def)

lemma run_kinds_hash:
  "run_kinds s s' ks \<Longrightarrow>
   calculateSchemaHash env (connector s') = calculateSchemaHash env (connector s)"
  by (simp add: run_kinds_def calculateSchemaHash_def)

lemma do_UpdateSchema_kinds:
  "do_UpdateSchema env cid b s = (r, s') \<Longrightarrow> run_kinds s s' [ApplySchema (r = None)]"
  by (auto simp: do_UpdateSchema_def run_kinds_def split: prod.splits)

lemma do_ReloadSchema_kinds:
  "do_ReloadSchema env cid m s = (r, s') \<Longrightarrow> run_kinds s s' [Reload (r = None)]"
  by (auto simp: do_ReloadSchema_def run_kinds_def split: prod.splits)

lemma do_Update_kinds:
  "do_Update env s = (r, s') \<Longrightarrow> run_kinds s s' [Persist (r = None)]"
  by (auto simp: do_Update_def run_kinds_def split: prod.splits)

lemma do_GetSchemaDetails_kinds:
  "do_GetSchemaDetails env cid s = ((d, e), s') \<Longrightarrow>
   run_kinds s s' [Fetch (case e of Some x \<Rightarrow> FetchFailed
       | None \<Rightarrow> (case CompareSchemaWithCR d (ConnectorSchemas (Spec (connector s))) of
                   Panics \<Rightarrow> FetchComparePanics
                 | Returns (matches, mismatchDetails) \<Rightarrow>
                     if matches then FetchMatches else FetchMismatches mismatchDetails))]"
  by (auto simp: do_GetSchemaDetails_def run_kinds_def split: prod.splits)

lemma setCondition_kinds:
  "setCondition env t st reason msg s = (r, s') \<Longrightarrow> run_kinds s s' [StatusWrite]"
  by (auto simp: setCondition_def do_Status_Update_def run_kinds_def Let_def split: prod.splits)

lemma updateSchemaHash_kinds:
  assumes "updateSchemaHash env s = (r, s')"
  shows "(isl (calculateSchemaHash env (connector s)) \<and> r \<noteq> None \<and> s' = s)
       \<or> (\<not> isl (calculateSchemaHash env (connector s)) \<and> run_kinds s s' [Persist (r = None)])"
proof (cases "calculateSchemaHash env (connector s)")
  case (Inl e)
  with assms have "r = Some e" "s' = s" by (auto simp: updateSchemaHash_def)
  with Inl show ?thesis by simp
next
  case (Inr hash)
  with assms have u: "do_Update env (s\<lparr>connector := SetAnnotation annotationSchemaHash hash (connector s)\<rparr>) = (r, s')"
    by (simp add: updateSchemaHash_def)
  from do_Update_kinds[OF u] have "run_kinds s s' [Persist (r = None)]"
    by (simp add: run_kinds_def SetAnnotation_def)
  with Inr show ?thesis by simp
qed

lemma applySchema_kinds:
  assumes "applySchema env cid s = (out, s')"
  shows "(ConnectorSchemas (Spec (connector s)) = None \<and> out = Panics \<and> s' = s)
       \<or> (ConnectorSchemas (Spec (connector s)) \<noteq> None
           \<and> run_kinds s s' [ApplySchema False] \<and> returns_error out)
       \<or> (ConnectorSchemas (Spec (connector s)) \<noteq> None
           \<and> isl (calculateSchemaHash env (connector s))
           \<and> run_kinds s s' [ApplySchema True] \<and> returns_error out)
       \<or> (ConnectorSchemas (Spec (connector s)) \<noteq> None
           \<and> \<not> isl (calculateSchemaHash env (connector s))
           \<and> run_kinds s s' [ApplySchema True, Persist False] \<and> returns_error out)
       \<or> (ConnectorSchemas (Spec (connector s)) \<noteq> None
           \<and> \<not> isl (calculateSchemaHash env (connector s))
           \<and> run_kinds s s' [ApplySchema True, Persist True] \<and> out = Returns None)"
proof (cases "convertSchema (ConnectorSchemas (Spec (connector s)))")
  case None
  with assms show ?thesis by (auto simp: applySchema_def convertSchema_def split: option.splits)
next
  case (Some b)
  then have spec: "ConnectorSchemas (Spec (connector s)) \<noteq> None"
    by (auto simp: convertSchema_def split: option.splits)
  obtain r s1 where u: "do_UpdateSchema env cid b s = (r, s1)"
    by (cases "do_UpdateSchema env cid b s")
  note k1 = do_UpdateSchema_kinds[OF u]
  show ?thesis
  proof (cases r)
    case e: (Some e)
    with assms Some u have "out = Returns (Some (wrap_error ''applySchema: '' e))" "s' = s1"
      by (auto simp: applySchema_def)
    with k1 spec e show ?thesis by (auto simp: returns_error_def)
  next
    case None
    with k1 have k1': "run_kinds s s1 [ApplySchema True]" by simp
    note h1 = run_kinds_hash[OF k1', of env]
    obtain r2 s2 where h: "updateSchemaHash env s1 = (r2, s2)"
      by (cases "updateSchemaHash env s1")
    from assms Some u None h have o: "out = Returns r2" "s' = s2"
      by (auto simp: applySchema_def)
    from updateSchemaHash_kinds[OF h] show ?thesis
    proof
      assume "isl (calculateSchemaHash env (connector s1)) \<and> r2 \<noteq> None \<and> s2 = s1"
      with k1' h1 o spec show ?thesis
        by (auto simp: returns_error_def)
    next
      assume a: "\<not> isl (calculateSchemaHash env (connector s1))
                 \<and> run_kinds s1 s2 [Persist (r2 = None)]"
      with run_kinds_trans[OF k1', of s2 "[Persist (r2 = None)]"]
      have k: "run_kinds s s2 [ApplySchema True, Persist (r2 = None)]" by simp
      with a h1 o spec show ?thesis
        by (cases r2) (auto simp: returns_error_def)
    qed
  qed
qed

lemma reloadSchema_kinds:
  assumes "reloadSchema env cid s = (out, s')" and "ConnectorSchemas (Spec (connector s)) \<noteq> None"
  shows "(run_kinds s s' [Reload False] \<and> returns_error out)
       \<or> (run_kinds s s' [Reload True] \<and> out = Returns None)"
proof -
  from assms(2) obtain sch where sch: "ConnectorSchemas (Spec (connector s)) = Some sch" by auto
  obtain r s1 where d: "do_ReloadSchema env cid
      (if ConnectorSchemaConfig.SchemaChangeHandling sch = ''BLOCK_ALL''
       then ''EXCLUDE'' else ''PRESERVE'') s = (r, s1)"
    by (cases "do_ReloadSchema env cid
      (if ConnectorSchemaConfig.SchemaChangeHandling sch = ''BLOCK_ALL''
       then ''EXCLUDE'' else ''PRESERVE'') s")
  note k = do_ReloadSchema_kinds[OF d]
  from assms(1) sch d have "out = (case r of Some e \<Rightarrow> Returns (Some (wrap_error ''reloadSchema: '' e))
                                     | None \<Rightarrow> Returns None)" "s' = s1"
    by (auto simp: reloadSchema_def Let_def split: option.splits)
  with k show ?thesis by (cases r) (auto simp: returns_error_def)
qed

lemma fetch_compare_kinds:
  assumes g: "do_GetSchemaDetails env cid s = ((d, None), s')"
  shows "case CompareSchemaWithCR d (ConnectorSchemas (Spec (connector s'))) of
           Panics \<Rightarrow> run_kinds s s' [Fetch FetchComparePanics]
         | Returns (matches, mismatchDetails) \<Rightarrow>
             run_kinds s s' [Fetch (if matches then FetchMatches
                                    else FetchMismatches mismatchDetails)]"
proof -
  from do_GetSchemaDetails_kinds[OF g]
  have k: "run_kinds s s' [Fetch (case CompareSchemaWithCR d (ConnectorSchemas (Spec (connector s))) of
                   Panics \<Rightarrow> FetchComparePanics
                 | Returns (matches, mismatchDetails) \<Rightarrow>
                     if matches then FetchMatches else FetchMismatches mismatchDetails)]"
    by simp
  from run_kinds_spec[OF k] have sp: "Spec (connector s') = Spec (connector s)" .
  show ?thesis
    using k unfolding sp
    by (cases "CompareSchemaWithCR d (ConnectorSchemas (Spec (connector s)))") auto
qed

lemma fetch_failed_kinds:
  assumes g: "do_GetSchemaDetails env cid s = ((d, Some e), s')"
  shows "run_kinds s s' [Fetch FetchFailed]"
  using do_GetSchemaDetails_kinds[OF g] by simp

lemma compare_mismatch_report:
  "CompareSchemaWithCR d c = Returns (False, m) \<Longrightarrow> HasMismatch m"
  by (auto simp: CompareSchemaWithCR_def Let_def split: option.splits outcome.splits)

lemma reconcileSchema_retry_kinds:
  assumes r: "reconcileSchema_retry env cid s = (out, s')"
    and spec: "ConnectorSchemas (Spec (connector s)) \<noteq> None"
    and hash: "\<not> isl (calculateSchemaHash env (connector s))"
  shows "\<exists>ks. run_kinds s s' ks \<and> retry_shape ks out"
proof -
  obtain r1 s1 where l: "reloadSchema env cid s = (r1, s1)"
    by (cases "reloadSchema env cid s")
  from reloadSchema_kinds[OF l spec] show ?thesis
  proof
    assume a: "run_kinds s s1 [Reload False] \<and> returns_error r1"
    then obtain e where "r1 = Returns (Some e)" by (auto simp: returns_error_def)
    with r l have "out = Returns (Some (wrap_error ''reconcileSchema reloadSchema retry: '' e))"
      "s' = s1"
      by (auto simp: reconcileSchema_retry_def)
    with a show ?thesis
      by (intro exI[of _ "[Reload False]"]) (simp add: retry_shape_def returns_error_def)
  next
    assume a: "run_kinds s s1 [Reload True] \<and> r1 = Returns None"
    then have k1: "run_kinds s s1 [Reload True]" and r1: "r1 = Returns None" by simp_all
    from run_kinds_spec[OF k1] spec have spec1: "ConnectorSchemas (Spec (connector s1)) \<noteq> None"
      by simp
    from run_kinds_hash[OF k1, of env] hash
    have hash1: "\<not> isl (calculateSchemaHash env (connector s1))" by simp
    obtain r2 s2 where ap: "applySchema env cid s1 = (r2, s2)"
      by (cases "applySchema env cid s1")
    from applySchema_kinds[OF ap] spec1 hash1
    consider (update_failed) "run_kinds s1 s2 [ApplySchema False]" "returns_error r2"
      | (persist_failed) "run_kinds s1 s2 [ApplySchema True, Persist False]" "returns_error r2"
      | (applied) "run_kinds s1 s2 [ApplySchema True, Persist True]" "r2 = Returns None"
      by blast
    then show ?thesis
    proof cases
      case update_failed
      then obtain e where "r2 = Returns (Some e)" by (auto simp: returns_error_def)
      with r l r1 ap
      have "out = Returns (Some (wrap_error ''reconcileSchema applySchema retry: '' e))" "s' = s2"
        by (auto simp: reconcileSchema_retry_def)
      with run_kinds_trans[OF k1 update_failed(1)] show ?thesis
        by (intro exI[of _ "[Reload True, ApplySchema False]"])
           (simp add: retry_shape_def returns_error_def)
    next
      case persist_failed
      then obtain e where "r2 = Returns (Some e)" by (auto simp: returns_error_def)
      with r l r1 ap
      have "out = Returns (Some (wrap_error ''reconcileSchema applySchema retry: '' e))" "s' = s2"
        by (auto simp: reconcileSchema_retry_def)
      with run_kinds_trans[OF k1 persist_failed(1)] show ?thesis
        by (intro exI[of _ "[Reload True, ApplySchema True, Persist False]"])
           (simp add: retry_shape_def returns_error_def)
    next
      case applied
      from run_kinds_trans[OF k1 applied(1)]
      have k12: "run_kinds s s2 [Reload True, ApplySchema True, Persist True]" by simp
      note r2 = applied(2)
      obtain d e3 s3 where g: "do_GetSchemaDetails env cid s2 = ((d, e3), s3)"
        by (cases "do_GetSchemaDetails env cid s2") auto
      show ?thesis
      proof (cases e3)
        case (Some e)
        with r l r1 ap r2 g
        have o: "out = Returns (Some (wrap_error ''reconcileSchema getSchemaDetails retry: '' e))"
          "s' = s3"
          by (auto simp: reconcileSchema_retry_def)
        from g Some have "run_kinds s2 s3 [Fetch FetchFailed]" by (simp add: fetch_failed_kinds)
        from run_kinds_trans[OF k12 this] o show ?thesis
          by (intro exI[of _ "[Reload True, ApplySchema True, Persist True, Fetch FetchFailed]"])
             (simp add: retry_shape_def returns_error_def)
      next
        case n3: None
        with g have g': "do_GetSchemaDetails env cid s2 = ((d, None), s3)" by simp
        note f = fetch_compare_kinds[OF g']
        show ?thesis
        proof (cases "CompareSchemaWithCR d (ConnectorSchemas (Spec (connector s3)))")
          case Panics
          with r l r1 ap r2 g' have o: "out = Panics" "s' = s3"
            by (auto simp: reconcileSchema_retry_def)
          from f Panics have "run_kinds s2 s3 [Fetch FetchComparePanics]" by simp
          from run_kinds_trans[OF k12 this] o show ?thesis
            by (intro exI[of _ "[Reload True, ApplySchema True, Persist True,
                                 Fetch FetchComparePanics]"])
               (simp add: retry_shape_def)
        next
          case rc: (Returns pr)
          obtain m md where pr: "pr = (m, md)" by (cases pr)
          show ?thesis
          proof (cases m)
            case True
            with r l r1 ap r2 g' rc pr have o: "out = Returns None" "s' = s3"
              by (auto simp: reconcileSchema_retry_def)
            from f rc pr True have "run_kinds s2 s3 [Fetch FetchMatches]" by simp
            from run_kinds_trans[OF k12 this] o show ?thesis
              by (intro exI[of _ "[Reload True, ApplySchema True, Persist True,
                                   Fetch FetchMatches]"])
                 (simp add: retry_shape_def)
          next
            case False
            with r l r1 ap r2 g' rc pr
            have o: "out = Returns (Some (mismatch_after_retry_error md))" "s' = s3"
              by (auto simp: reconcileSchema_retry_def)
            from rc pr False have hm: "HasMismatch md"
              by (auto intro: compare_mismatch_report)
            from f rc pr False have "run_kinds s2 s3 [Fetch (FetchMismatches md)]" by simp
            from run_kinds_trans[OF k12 this]
            have "run_kinds s s3 [Reload True, ApplySchema True, Persist True,
                                  Fetch (FetchMismatches md)]"
              by simp
            with hm o show ?thesis
              by (intro exI[of _ "[Reload True, ApplySchema True, Persist True,
                                   Fetch (FetchMismatches md)]"])
                 (simp add: retry_shape_def)
          qed
        qed
      qed
    qed
  qed
qed


lemma reconcileSchema_done_kinds:
  assumes "reconcileSchema_done env s = (out, s')"
  shows "run_kinds s s' [StatusWrite] \<and> out \<noteq> Panics"
  using assms
  by (auto simp: reconcileSchema_done_def split: prod.splits dest: setCondition_kinds)

lemma retry_shape_Returns_None:
  "retry_shape rs (Returns None) \<Longrightarrow>
   rs = [Reload True, ApplySchema True, Persist True, Fetch FetchMatches]"
  by (auto simp: retry_shape_def returns_error_def)

lemma reconcileSchema_apply_kinds:
  assumes r: "reconcileSchema_apply env cid s = (out, s')"
  shows "\<exists>ks. run_kinds s s' ks
            \<and> apply_shape (ConnectorSchemas (Spec (connector s)))
                 (isl (calculateSchemaHash env (connector s))) ks out"
proof -
  let ?spec = "ConnectorSchemas (Spec (connector s))"
  let ?hf = "isl (calculateSchemaHash env (connector s))"
  obtain r1 s1 where a: "applySchema env cid s = (r1, s1)"
    by (cases "applySchema env cid s")
  from applySchema_kinds[OF a]
  consider (panics) "?spec = None" "r1 = Panics" "s1 = s"
    | (update_failed) "?spec \<noteq> None" "run_kinds s s1 [ApplySchema False]" "returns_error r1"
    | (hash_failed) "?spec \<noteq> None" "?hf" "run_kinds s s1 [ApplySchema True]" "returns_error r1"
    | (persist_failed) "?spec \<noteq> None" "\<not> ?hf"
        "run_kinds s s1 [ApplySchema True, Persist False]" "returns_error r1"
    | (applied) "?spec \<noteq> None" "\<not> ?hf"
        "run_kinds s s1 [ApplySchema True, Persist True]" "r1 = Returns None"
    by (elim disjE conjE) auto
  then show ?thesis
  proof cases
    case panics
    with r a have "out = Panics" "s' = s" by (auto simp: reconcileSchema_apply_def)
    with panics(1) show ?thesis
      by (intro exI[of _ "[]"]) (simp add: run_kinds_refl apply_shape_def)
  next
    case update_failed
    then obtain e where "r1 = Returns (Some e)" by (auto simp: returns_error_def)
    with r a have "out = Returns (Some (wrap_error ''reconcileSchema: '' e))" "s' = s1"
      by (auto simp: reconcileSchema_apply_def)
    with update_failed show ?thesis
      by (intro exI[of _ "[ApplySchema False]"]) (simp add: apply_shape_def returns_error_def)
  next
    case hash_failed
    then obtain e where "r1 = Returns (Some e)" by (auto simp: returns_error_def)
    with r a have "out = Returns (Some (wrap_error ''reconcileSchema: '' e))" "s' = s1"
      by (auto simp: reconcileSchema_apply_def)
    with hash_failed show ?thesis
      by (intro exI[of _ "[ApplySchema True]"]) (simp add: apply_shape_def returns_error_def)
  next
    case persist_failed
    then obtain e where "r1 = Returns (Some e)" by (auto simp: returns_error_def)
    with r a have "out = Returns (Some (wrap_error ''reconcileSchema: '' e))" "s' = s1"
      by (auto simp: reconcileSchema_apply_def)
    with persist_failed show ?thesis
      by (intro exI[of _ "[ApplySchema True, Persist False]"])
         (simp add: apply_shape_def returns_error_def)
  next
    case applied
    note spec = applied(1) and hf = applied(2) and k1 = applied(3)
    obtain d e2 s2 where g: "do_GetSchemaDetails env cid s1 = ((d, e2), s2)"
      by (cases "do_GetSchemaDetails env cid s1") auto
    show ?thesis
    proof (cases e2)
      case (Some e)
      with r a applied g
      have o: "out = Returns (Some (wrap_error
                  ''reconcileSchema: failed to get schema details after apply: '' e))" "s' = s2"
        by (auto simp: reconcileSchema_apply_def)
      from g Some have "run_kinds s1 s2 [Fetch FetchFailed]" by (simp add: fetch_failed_kinds)
      from run_kinds_trans[OF k1 this] o spec hf show ?thesis
        by (intro exI[of _ "[ApplySchema True, Persist True, Fetch FetchFailed]"])
           (simp add: apply_shape_def returns_error_def)
    next
      case None
      with g have g': "do_GetSchemaDetails env cid s1 = ((d, None), s2)" by simp
      note f = fetch_compare_kinds[OF g']
      show ?thesis
      proof (cases "CompareSchemaWithCR d (ConnectorSchemas (Spec (connector s2)))")
        case Panics
        with r a applied g' have o: "out = Panics" "s' = s2"
          by (auto simp: reconcileSchema_apply_def)
        from f Panics have "run_kinds s1 s2 [Fetch FetchComparePanics]" by simp
        from run_kinds_trans[OF k1 this] o spec hf show ?thesis
          by (intro exI[of _ "[ApplySchema True, Persist True, Fetch FetchComparePanics]"])
             (simp add: apply_shape_def)
      next
        case rc: (Returns pr)
        obtain m md where pr: "pr = (m, md)" by (cases pr)
        show ?thesis
        proof (cases m)
          case True
          with r a applied g' rc pr have o: "reconcileSchema_done env s2 = (out, s')"
            by (auto simp: reconcileSchema_apply_def)
          from f rc pr True have "run_kinds s1 s2 [Fetch FetchMatches]" by simp
          from run_kinds_trans[OF k1 this]
          have k2: "run_kinds s s2 [ApplySchema True, Persist True, Fetch FetchMatches]" by simp
          from reconcileSchema_done_kinds[OF o]
          have "run_kinds s2 s' [StatusWrite]" and np: "out \<noteq> Panics" by simp_all
          from run_kinds_trans[OF k2 this(1)] np spec hf show ?thesis
            by (intro exI[of _ "[ApplySchema True, Persist True, Fetch FetchMatches,
                                 StatusWrite]"])
               (simp add: apply_shape_def)
        next
          case False
          from rc pr False have hm: "HasMismatch md"
            by (auto intro: compare_mismatch_report)
          from f rc pr False have "run_kinds s1 s2 [Fetch (FetchMismatches md)]" by simp
          from run_kinds_trans[OF k1 this]
          have k2: "run_kinds s s2 [ApplySchema True, Persist True, Fetch (FetchMismatches md)]"
            by simp
          from run_kinds_spec[OF k2] spec
          have spec2: "ConnectorSchemas (Spec (connector s2)) \<noteq> None" by simp
          from run_kinds_hash[OF k2, of env] hf
          have hash2: "\<not> isl (calculateSchemaHash env (connector s2))" by simp
          obtain rr s3 where t: "reconcileSchema_retry env cid s2 = (rr, s3)"
            by (cases "reconcileSchema_retry env cid s2")
          from reconcileSchema_retry_kinds[OF t spec2 hash2]
          obtain rs where k3: "run_kinds s2 s3 rs" and sh: "retry_shape rs rr" by blast
          note k23 = run_kinds_trans[OF k2 k3]
          show ?thesis
          proof (cases "rr = Returns None")
            case rn: True
            with r a applied g' rc pr False t have o: "reconcileSchema_done env s3 = (out, s')"
              by (auto simp: reconcileSchema_apply_def)
            from reconcileSchema_done_kinds[OF o]
            have k4: "run_kinds s3 s' [StatusWrite]" and np: "out \<noteq> Panics" by simp_all
            from sh rn
            have rs: "rs = [Reload True, ApplySchema True, Persist True, Fetch FetchMatches]"
              by (simp add: retry_shape_Returns_None)
            from run_kinds_trans[OF k23 k4] rs np hm spec hf show ?thesis
              by (intro exI[of _ "[ApplySchema True, Persist True, Fetch (FetchMismatches md),
                    Reload True, ApplySchema True, Persist True, Fetch FetchMatches,
                    StatusWrite]"])
                 (simp add: apply_shape_def)
          next
            case rn: False
            with r a applied g' rc pr False t have o: "out = rr" "s' = s3"
              by (auto simp: reconcileSchema_apply_def split: outcome.splits option.splits)
            have "apply_shape ?spec ?hf
                    ([ApplySchema True, Persist True, Fetch (FetchMismatches md)] @ rs) out"
              unfolding apply_shape_def using sh rn o hm spec hf by blast
            with k23 o show ?thesis by blast
          qed
        qed
      qed
    qed
  qed
qed

lemma reconcileSchema_kinds:
  assumes r: "reconcileSchema env cid s = (out, s')"
  shows "\<exists>ks. run_kinds s s' ks
            \<and> reconcile_shape (ConnectorSchemas (Spec (connector s)))
                 (isl (calculateSchemaHash env (connector s))) ks out"
proof -
  let ?spec = "ConnectorSchemas (Spec (connector s))"
  let ?hf = "isl (calculateSchemaHash env (connector s))"
  obtain d e1 s1 where g: "do_GetSchemaDetails env cid s = ((d, e1), s1)"
    by (cases "do_GetSchemaDetails env cid s") auto
  define v where "v = (case e1 of Some x \<Rightarrow> FetchFailed
       | None \<Rightarrow> (case CompareSchemaWithCR d (ConnectorSchemas (Spec (connector s))) of
                   Panics \<Rightarrow> FetchComparePanics
                 | Returns (matches, mismatchDetails) \<Rightarrow>
                     if matches then FetchMatches else FetchMismatches mismatchDetails))"
  from do_GetSchemaDetails_kinds[OF g] have k1: "run_kinds s s1 [Fetch v]"
    by (simp add: v_def)
  note spec1 = run_kinds_spec[OF k1] and hash1 = run_kinds_hash[OF k1, of env]
  show ?thesis
  proof (cases e1)
    case None
    then have vn: "v \<noteq> FetchFailed"
      by (auto simp: v_def split: outcome.splits)
    from None r g have "reconcileSchema_apply env cid s1 = (out, s')"
      by (auto simp: reconcileSchema_def)
    from reconcileSchema_apply_kinds[OF this] spec1 hash1
    obtain ks where "run_kinds s1 s' ks" "apply_shape ?spec ?hf ks out" by auto
    with run_kinds_trans[OF k1 this(1)] vn show ?thesis
      by (intro exI[of _ "Fetch v # ks"]) (auto simp: reconcile_shape_def)
  next
    case (Some e)
    then have vf: "v = FetchFailed" by (simp add: v_def)
    show ?thesis
    proof (cases "ConnectionSchemaDetailsResponse.Code d = SchemaNotFoundError")
      case False
      with Some r g
      have "out = Returns (Some (wrap_error ''reconcileSchema: failed to get schema details: '' e))"
        "s' = s1"
        by (auto simp: reconcileSchema_def)
      with k1 vf show ?thesis
        by (intro exI[of _ "[Fetch FetchFailed]"]) (simp add: reconcile_shape_def)
    next
      case code: True
      obtain r2 s2 where l: "reloadSchema env cid s1 = (r2, s2)"
        by (cases "reloadSchema env cid s1")
      show ?thesis
      proof (cases "ConnectorSchemas (Spec (connector s1))")
        case n: None
        with l have "s2 = s1" "r2 = Panics" by (auto simp: reloadSchema_def)
        with r g Some code l have "out = Panics" "s' = s1" by (auto simp: reconcileSchema_def)
        with k1 vf show ?thesis
          by (intro exI[of _ "[Fetch FetchFailed]"]) (simp add: reconcile_shape_def)
      next
        case sm: (Some sch)
        then have "ConnectorSchemas (Spec (connector s1)) \<noteq> None" by simp
        from reloadSchema_kinds[OF l this] show ?thesis
        proof
          assume a: "run_kinds s1 s2 [Reload False] \<and> returns_error r2"
          then obtain e2 where "r2 = Returns (Some e2)" by (auto simp: returns_error_def)
          with r g Some code l
          have "out = Returns (Some (wrap_error ''reconcileSchema: '' e2))" "s' = s2"
            by (auto simp: reconcileSchema_def)
          with run_kinds_trans[OF k1, of s2 "[Reload False]"] a vf show ?thesis
            by (intro exI[of _ "[Fetch FetchFailed, Reload False]"])
               (simp add: reconcile_shape_def returns_error_def)
        next
          assume a: "run_kinds s1 s2 [Reload True] \<and> r2 = Returns None"
          with run_kinds_trans[OF k1, of s2 "[Reload True]"] vf
          have k12: "run_kinds s s2 [Fetch FetchFailed, Reload True]" by simp
          from a r g Some code l have "reconcileSchema_apply env cid s2 = (out, s')"
            by (auto simp: reconcileSchema_def)
          from reconcileSchema_apply_kinds[OF this]
            run_kinds_spec[OF k12] run_kinds_hash[OF k12, of env]
          obtain ks where "run_kinds s2 s' ks" "apply_shape ?spec ?hf ks out" by auto
          with run_kinds_trans[OF k12 this(1)] show ?thesis
            by (intro exI[of _ "[Fetch FetchFailed, Reload True] @ ks"])
               (auto simp: reconcile_shape_def)
        qed
      qed
    qed
  qed
qed

lemma after_first_apply_head:
  "\<forall>k \<in> set pre. \<not> is_ApplySchema k \<Longrightarrow>
   after_first_apply (pre @ ks) = after_first_apply ks"
  unfolding after_first_apply_def by (rule dropWhile_append2) auto

lemma filter_ApplySchema_head:
  "\<forall>k \<in> set pre. \<not> is_ApplySchema k \<Longrightarrow>
   filter is_ApplySchema (pre @ ks) = filter is_ApplySchema ks"
  by (induction pre) auto

lemma second_comparison_head:
  assumes ks: "ks \<noteq> []"
  shows "second_comparison (pre @ ks) out fs = second_comparison ks out fs"
proof (cases fs)
  case Nil
  then show ?thesis by simp
next
  case (Cons v rest)
  then show ?thesis by (cases v) (simp_all add: last_appendR[OF ks])
qed

lemma first_comparison_head:
  assumes pre: "\<forall>k \<in> set pre. \<not> is_ApplySchema k" and ks: "ks \<noteq> []"
  shows "first_comparison (pre @ ks) out fs = first_comparison ks out fs"
proof (cases fs)
  case Nil
  then show ?thesis by (simp add: recovery_cycles_def after_first_apply_head[OF pre])
next
  case (Cons v rest)
  then show ?thesis
    by (cases v)
       (simp_all add: recovery_cycles_def after_first_apply_head[OF pre]
          second_comparison_head[OF ks])
qed

lemma drift_bounded_head:
  assumes pre: "\<forall>k \<in> set pre. \<not> is_ApplySchema k" and ks: "ks \<noteq> []"
  shows "drift_recovery_bounded (pre @ ks) out = drift_recovery_bounded ks out"
  unfolding drift_recovery_bounded_def post_apply_fetches_def schema_updates_def
    first_comparison_head[OF pre ks] filter_ApplySchema_head[OF pre]
  by (simp add: recovery_cycles_def after_first_apply_head[OF pre])

lemma drift_bounded_head_only:
  assumes pre: "\<forall>k \<in> set pre. \<not> is_ApplySchema k"
  shows "drift_recovery_bounded pre out"
proof -
  from pre have a: "after_first_apply pre = []"
    unfolding after_first_apply_def by (induction pre) auto
  from filter_ApplySchema_head[OF pre, of "[]"] have f: "filter is_ApplySchema pre = []"
    by simp
  show ?thesis
    by (simp add: drift_recovery_bounded_def recovery_cycles_def post_apply_fetches_def
        schema_updates_def a f)
qed

lemma drift_bounded_apply_shape:
  assumes sh: "apply_shape crSchema hash_fails ks out"
  shows "drift_recovery_bounded ks out"
  using sh unfolding apply_shape_def retry_shape_def
  by (elim disjE exE conjE)
     (auto simp add: drift_recovery_bounded_def recovery_cycles_def post_apply_fetches_def
        after_first_apply_def schema_updates_def)

lemma drift_bounded_shape:
  assumes sh: "reconcile_shape crSchema hash_fails ks out"
  shows "drift_recovery_bounded ks out"
proof -
  from sh consider (head) pre where "ks = pre" "\<forall>k \<in> set pre. \<not> is_ApplySchema k"
    | (tail) pre rest where "ks = pre @ rest" "\<forall>k \<in> set pre. \<not> is_ApplySchema k"
        "apply_shape crSchema hash_fails rest out"
    unfolding reconcile_shape_def
  proof (elim disjE exE conjE)
    assume "ks = [Fetch FetchFailed]"
    then show ?thesis using that(1)[of ks] by simp
  next
    assume "ks = [Fetch FetchFailed, Reload False]"
    then show ?thesis using that(1)[of ks] by simp
  next
    fix rest assume "ks = [Fetch FetchFailed, Reload True] @ rest"
      "apply_shape crSchema hash_fails rest out"
    then show ?thesis using that(2)[of "[Fetch FetchFailed, Reload True]" rest] by simp
  next
    fix v rest assume "ks = Fetch v # rest" "apply_shape crSchema hash_fails rest out"
    then show ?thesis using that(2)[of "[Fetch v]" rest] by simp
  qed
  then show ?thesis
  proof cases
    case head
    with drift_bounded_head_only[of pre out] show ?thesis by simp
  next
    case tail
    show ?thesis
    proof (cases "rest = []")
      case True
      with tail drift_bounded_head_only[of pre out] show ?thesis by simp
    next
      case False
      from drift_bounded_apply_shape[OF tail(3)] drift_bounded_head[OF tail(2) False] tail(1)
      show ?thesis by simp
    qed
  qed
qed


lemma mismatch_after_retry_error_Is:
  "errors_Is (mismatch_after_retry_error report) ErrSchemaMismatchAfterRetry"
  by (simp add: mismatch_after_retry_error_def)

lemma handleError_mismatch_after_retry:
  assumes e: "errors_Is e ErrSchemaMismatchAfterRetry"
    and h: "handleError env conditionType reason e st = ((res, r), st')"
  shows "res = no_requeue
    \<and> r = fst (Client_Status_Update env (connector st') (world st))
    \<and> calls st' = calls st @ [CallStatusUpdate (connector st')]
    \<and> condition_summary st' conditionType = Some (ConditionFalse, reason, error_Error e)"
proof -
  from e h have c: "setCondition env conditionType ConditionFalse reason (error_Error e) st = (r, st')"
    and res: "res = no_requeue"
    by (auto simp: handleError_def split: prod.splits)
  from setCondition_effect(1,4,6)[OF c] res show ?thesis by simp
qed

text \<open>
  C2 (as amended). In every run of \<^verbatim>\<open>reconcileSchema\<close> the calls made are those of
  \<open>reconcile_shape\<close>: the first fetch, the reload that creates a schema that was not found,
  and then, from the first schema update on, one of the sequences of \<open>apply_shape\<close>. So:
  when the comparison after the first schema update mismatches, the run makes exactly one
  recovery cycle, which always makes the reload, makes the schema update when the reload
  succeeded, writes the schema hash when the update succeeded, and fetches and compares
  again when that write succeeded; it stops before the second comparison only after a call
  that failed. A run makes no recovery cycle otherwise, never more than one, and never more
  than two schema updates. When the second comparison mismatches too, its fetch is the last
  call of the run, which returns \<^verbatim>\<open>ErrSchemaMismatchAfterRetry\<close> wrapped in a message that
  holds the rendered report of that second comparison. For that error \<^verbatim>\<open>handleError\<close> asks
  for no requeue and returns what the status write returns, so the request runs again
  exactly when the status write fails; the schema condition is set to false with the
  error's message.
\<close>

theorem C2_drift_recovery_bound:
  assumes run: "reconcileSchema env connectorID s = (out, s')"
  shows "(\<exists>cs. calls s' = calls s @ cs
            \<and> reconcile_shape (ConnectorSchemas (Spec (connector s)))
                 (isl (calculateSchemaHash env (connector s)))
                 (map (kind_of (ConnectorSchemas (Spec (connector s)))) cs) out
            \<and> drift_recovery_bounded (map (kind_of (ConnectorSchemas (Spec (connector s)))) cs) out)
       \<and> (\<forall>report st.
            errors_Is (mismatch_after_retry_error report) ErrSchemaMismatchAfterRetry
          \<and> error_Error (mismatch_after_retry_error report)
              = ''reconcileSchema compareSchemaWithCR retry: mismatches: ''
                @ SchemaMismatch_String report
                @ '' - schema still mismatches CR after retry; possible schema config issue''
          \<and> (case handleError env conditionTypeSchemaReady SchemaReasonReconciliationFailed
                     (mismatch_after_retry_error report) st of
                ((res, r), st') \<Rightarrow>
                  res = no_requeue
                \<and> r = fst (Client_Status_Update env (connector st') (world st))
                \<and> requeued (res, r) = (r \<noteq> None)
                \<and> calls st' = calls st @ [CallStatusUpdate (connector st')]
                \<and> condition_summary st' conditionTypeSchemaReady
                    = Some (ConditionFalse, SchemaReasonReconciliationFailed,
                            error_Error (mismatch_after_retry_error report))))"
proof (intro conjI allI)
  from reconcileSchema_kinds[OF run] obtain ks where k: "run_kinds s s' ks"
    and sh: "reconcile_shape (ConnectorSchemas (Spec (connector s)))
                 (isl (calculateSchemaHash env (connector s))) ks out" by blast
  from k obtain cs where cs: "calls s' = calls s @ cs"
    "map (kind_of (ConnectorSchemas (Spec (connector s)))) cs = ks"
    by (auto simp: run_kinds_def)
  from sh drift_bounded_shape[OF sh] cs
  show "\<exists>cs. calls s' = calls s @ cs
            \<and> reconcile_shape (ConnectorSchemas (Spec (connector s)))
                 (isl (calculateSchemaHash env (connector s)))
                 (map (kind_of (ConnectorSchemas (Spec (connector s)))) cs) out
            \<and> drift_recovery_bounded (map (kind_of (ConnectorSchemas (Spec (connector s)))) cs) out"
    by blast
next
  fix report :: SchemaMismatch
  show "errors_Is (mismatch_after_retry_error report) ErrSchemaMismatchAfterRetry"
    by (rule mismatch_after_retry_error_Is)
next
  fix report :: SchemaMismatch
  show "error_Error (mismatch_after_retry_error report)
              = ''reconcileSchema compareSchemaWithCR retry: mismatches: ''
                @ SchemaMismatch_String report
                @ '' - schema still mismatches CR after retry; possible schema config issue''"
    by (simp add: mismatch_after_retry_error_def)
next
  fix report :: SchemaMismatch and st :: "'a run"
  obtain res r st' where h: "handleError env conditionTypeSchemaReady
      SchemaReasonReconciliationFailed (mismatch_after_retry_error report) st = ((res, r), st')"
    by (cases "handleError env conditionTypeSchemaReady
      SchemaReasonReconciliationFailed (mismatch_after_retry_error report) st") auto
  from handleError_mismatch_after_retry[OF mismatch_after_retry_error_Is h]
  have "res = no_requeue
    \<and> r = fst (Client_Status_Update env (connector st') (world st))
    \<and> calls st' = calls st @ [CallStatusUpdate (connector st')]
    \<and> condition_summary st' conditionTypeSchemaReady
        = Some (ConditionFalse, SchemaReasonReconciliationFailed,
                error_Error (mismatch_after_retry_error report))" .
  moreover from this have "requeued (res, r) = (r \<noteq> None)"
    by (simp add: requeued_def no_requeue_def split: option.splits)
  ultimately show "case handleError env conditionTypeSchemaReady SchemaReasonReconciliationFailed
                     (mismatch_after_retry_error report) st of
                ((res, r), st') \<Rightarrow>
                  res = no_requeue
                \<and> r = fst (Client_Status_Update env (connector st') (world st))
                \<and> requeued (res, r) = (r \<noteq> None)
                \<and> calls st' = calls st @ [CallStatusUpdate (connector st')]
                \<and> condition_summary st' conditionTypeSchemaReady
                    = Some (ConditionFalse, SchemaReasonReconciliationFailed,
                            error_Error (mismatch_after_retry_error report))"
    unfolding h by simp
qed

lemmas schema_eval_defs =
  reconcileSchema_def reconcileSchema_apply_def reconcileSchema_retry_def
  reconcileSchema_done_def applySchema_def reloadSchema_def updateSchemaHash_def
  calculateSchemaHash_def convertSchema_def SetAnnotation_def do_GetSchemaDetails_def
  do_ReloadSchema_def do_UpdateSchema_def do_Update_def CompareSchemaWithCR_def
  mismatch_after_retry_error_def SchemaMismatch_String_def test_drift_run_def
  test_drift_report_def test_no_schema_def test_details_def test_env_def test_run_def
  test_connector_def handleError_def setCondition_def do_Status_Update_def
  conditionTypeSchemaReady_def SchemaReasonReconciliationFailed_def SchemaNotFoundError_def
  annotationSchemaHash_def condition_summary_def condition_of_def no_requeue_def requeued_def
  recovery_cycles_def after_first_apply_def drift_recovery_bounded_def post_apply_fetches_def
  schema_updates_def NewSchemaBuilder_def wrap_error_def Let_def

theorem C2_drift_recovery_bound_witness:
  "(case reconcileSchema (test_env [] test_no_schema test_details) ''conn_1'' test_drift_run of
      (out, s') \<Rightarrow>
        out = Returns (Some (mismatch_after_retry_error test_drift_report))
      \<and> map (kind_of (ConnectorSchemas (Spec (connector test_drift_run)))) (calls s')
          = [Fetch (FetchMismatches test_drift_report), ApplySchema True, Persist True,
             Fetch (FetchMismatches test_drift_report),
             Reload True, ApplySchema True, Persist True,
             Fetch (FetchMismatches test_drift_report)]
      \<and> recovery_cycles
           (map (kind_of (ConnectorSchemas (Spec (connector test_drift_run)))) (calls s')) = 1
      \<and> drift_recovery_bounded
           (map (kind_of (ConnectorSchemas (Spec (connector test_drift_run)))) (calls s')) out
      \<and> (case handleError (test_env [] test_no_schema test_details) conditionTypeSchemaReady
                 SchemaReasonReconciliationFailed
                 (mismatch_after_retry_error test_drift_report) s' of
            ((res, r), s2) \<Rightarrow>
              \<not> requeued (res, r)
            \<and> condition_summary s2 ''SchemaReady''
                = Some (ConditionFalse, ''ReconciliationFailed'',
                    ''reconcileSchema compareSchemaWithCR retry: mismatches: Schema Change Handling: expected BLOCK_ALL, got ALLOW_ALL - schema still mismatches CR after retry; possible schema config issue'')))"
  using C2_drift_recovery_bound
    [of "test_env [] test_no_schema test_details" "''conn_1''" test_drift_run
        "fst (reconcileSchema (test_env [] test_no_schema test_details) ''conn_1'' test_drift_run)"
        "snd (reconcileSchema (test_env [] test_no_schema test_details) ''conn_1'' test_drift_run)"]
  by (simp add: schema_eval_defs)

text \<open>
  C2 as stated fails in two ways. When the reload of the recovery cycle fails, the cycle
  ends there: the schema is not applied, fetched or compared again. And when the write of
  the failed condition to the status fails, \<^verbatim>\<open>handleError\<close> returns that failure for the
  mismatch-after-retry error, so the request is run again.
\<close>

theorem C2_recovery_cycle_counterexample:
  "(case reconcileSchema test_reload_fails_env ''conn_1'' test_drift_run of
      (out, s') \<Rightarrow>
        map (kind_of (ConnectorSchemas (Spec (connector test_drift_run)))) (calls s')
          = [Fetch (FetchMismatches test_drift_report), ApplySchema True, Persist True,
             Fetch (FetchMismatches test_drift_report), Reload False]
      \<and> out = Returns (Some (Wrapped
                 ''reconcileSchema reloadSchema retry: reloadSchema: unavailable''
                 (Wrapped ''reloadSchema: unavailable'' (ErrorString ''unavailable'')))))
   \<and> (case reconcileSchema test_status_conflict_env ''conn_1'' test_drift_run of
        (out, s') \<Rightarrow>
          out = Returns (Some (mismatch_after_retry_error test_drift_report))
        \<and> (case handleError test_status_conflict_env conditionTypeSchemaReady
                   SchemaReasonReconciliationFailed
                   (mismatch_after_retry_error test_drift_report) s' of
              ((res, r), s2) \<Rightarrow> r = Some (ErrorString ''conflict'') \<and> requeued (res, r)))"
  by (simp add: schema_eval_defs test_reload_fails_env_def test_status_conflict_env_def)

subsection \<open>Adoption of an existing connector\<close>

lemma handleError_plain_error:
  assumes "handleError env conditionType reason (ErrorString m) s = ((res, r), s')"
  shows "res = no_requeue \<and> r \<noteq> None \<and> requeued (res, r)"
  using assms
  by (auto simp: handleError_def requeued_def split: prod.splits option.splits)

lemma handleExistingConnectorAdoption_service_mismatch:
  assumes g: "Connections_GetConnection env adoptConnectorID (world s) = ((existingConnector, None), w1)"
    and m: "Connector.Service (Connector (Spec (connector s)))
              \<noteq> ConnectionDetails.Service existingConnector"
  shows "handleExistingConnectorAdoption env adoptConnectorID s =
           (Returns (Some (ErrorString
              (''handleExistingConnectorAdoption: service mismatch: spec has ''
               @ [CHR 0x27] @ Connector.Service (Connector (Spec (connector s))) @ [CHR 0x27]
               @ '', existing connector has ''
               @ [CHR 0x27] @ ConnectionDetails.Service existingConnector @ [CHR 0x27]))),
            s\<lparr>world := w1, calls := calls s @ [CallGetConnection adoptConnectorID]\<rparr>)"
  using g m by (simp add: handleExistingConnectorAdoption_def do_GetConnection_def Let_def)

lemma handleExistingConnectorAdoption_identity:
  assumes h: "handleExistingConnectorAdoption env adoptConnectorID s = (out, s')"
    and w: "FivetranConnector.Status (connector s') \<noteq> FivetranConnector.Status (connector s)"
  shows "\<exists>existingConnector w1.
           Connections_GetConnection env adoptConnectorID (world s) = ((existingConnector, None), w1)
         \<and> Connector.Service (Connector (Spec (connector s)))
             = ConnectionDetails.Service existingConnector
         \<and> Connector.GroupID (Connector (Spec (connector s)))
             = ConnectionDetails.GroupID existingConnector
         \<and> adoption_schema_check env (Connector (Spec (connector s))) existingConnector
             = Returns None
         \<and> ConnectorID (FivetranConnector.Status (connector s')) = adoptConnectorID
         \<and> ConnectorURL (FivetranConnector.Status (connector s'))
             = fivetranConnectorURL_prefix @ adoptConnectorID"
proof -
  obtain d e w1 where g: "Connections_GetConnection env adoptConnectorID (world s) = ((d, e), w1)"
    by (cases "Connections_GetConnection env adoptConnectorID (world s)") auto
  let ?s1 = "s\<lparr>world := w1, calls := calls s @ [CallGetConnection adoptConnectorID]\<rparr>"
  from g have dg: "do_GetConnection env adoptConnectorID s = ((d, e), ?s1)"
    by (simp add: do_GetConnection_def)
  show ?thesis
  proof (cases "e = None
      \<and> Connector.Service (Connector (Spec (connector s))) = ConnectionDetails.Service d
      \<and> Connector.GroupID (Connector (Spec (connector s))) = ConnectionDetails.GroupID d
      \<and> adoption_schema_check env (Connector (Spec (connector s))) d = Returns None")
    case True
    with h dg have "updateConnectorIDStatus env adoptConnectorID ?s1 = (case out of Returns r \<Rightarrow> r, s')"
      by (auto simp: handleExistingConnectorAdoption_def Let_def split: prod.splits)
    then have "ConnectorID (FivetranConnector.Status (connector s')) = adoptConnectorID"
      "ConnectorURL (FivetranConnector.Status (connector s')) = fivetranConnectorURL_prefix @ adoptConnectorID"
      by (auto simp: updateConnectorIDStatus_def do_Status_Update_def split: prod.splits)
    with True g show ?thesis by auto
  next
    case False
    with h dg have "connector s' = connector s"
      by (auto simp: handleExistingConnectorAdoption_def Let_def
          split: prod.splits option.splits outcome.splits if_splits)
    with w show ?thesis by simp
  qed
qed

text \<open>
  C7. The resource declares a \<open>postgres\<close> connector and asks to adopt \<open>conn_1\<close>, which the
  provider reports as a \<open>mysql\<close> connector of the same group; every status write succeeds.
  The adoption step of \<^verbatim>\<open>Reconcile\<close> then returns the service-mismatch error itself, a plain
  error that \<^verbatim>\<open>handleError\<close> takes through its default branch, so the request is run
  again; the connector identity in the status stays empty and the connector-ready condition
  is set to false with the error's message.
\<close>

theorem C7_service_mismatch_is_requeued:
  "(case Reconcile_adoption (test_env [] test_no_schema test_mysql_details) test_adopt_run of
      (Returns (Some (res, r)), s') \<Rightarrow>
        r = Some (ErrorString
              (''handleExistingConnectorAdoption: service mismatch: spec has ''
               @ [CHR 0x27] @ ''postgres'' @ [CHR 0x27] @ '', existing connector has ''
               @ [CHR 0x27] @ ''mysql'' @ [CHR 0x27]))
      \<and> requeued (res, r)
      \<and> ConnectorID (FivetranConnector.Status (connector s')) = []
      \<and> condition_summary s' conditionTypeConnectorReady
          = Some (ConditionFalse, ConnectorReasonExistingConnectorAdoptionFailed,
              ''handleExistingConnectorAdoption: service mismatch: spec has ''
               @ [CHR 0x27] @ ''postgres'' @ [CHR 0x27] @ '', existing connector has ''
               @ [CHR 0x27] @ ''mysql'' @ [CHR 0x27])
    | (other, s') \<Rightarrow> False)"
  by (simp add: Reconcile_adoption_def handleExistingConnectorAdoptionIfNeeded_def
      handleExistingConnectorAdoption_def do_GetConnection_def GetAnnotation_def
      annotationAdoptExistingConnectorID_def test_adopt_run_def test_mysql_details_def
      test_env_def test_connector_def handleError_def setCondition_def do_Status_Update_def
      conditionTypeConnectorReady_def ConnectorReasonExistingConnectorAdoptionFailed_def
      condition_summary_def condition_of_def no_requeue_def requeued_def Let_def)



subsection \<open>The update request\<close>

lemma sent_sent: "sent new (sent new old) = sent new old"
  by (cases new) (simp_all add: sent_def)

lemma provider_update_idem:
  "provider_update service (provider_update service remote) = provider_update service remote"
  by (simp add: provider_update_def sent_sent)

lemma guarded_setter:
  "(if c then service\<lparr>syncFrequency := v0\<rparr> else service)
     = service\<lparr>syncFrequency := (if c then v0 else syncFrequency service)\<rparr>"
  "(if c then service\<lparr>dailySyncTime := v1\<rparr> else service)
     = service\<lparr>dailySyncTime := (if c then v1 else dailySyncTime service)\<rparr>"
  "(if c then service\<lparr>scheduleType := v2\<rparr> else service)
     = service\<lparr>scheduleType := (if c then v2 else scheduleType service)\<rparr>"
  "(if c then service\<lparr>networkingMethod := v3\<rparr> else service)
     = service\<lparr>networkingMethod := (if c then v3 else networkingMethod service)\<rparr>"
  "(if c then service\<lparr>proxyAgentId := v4\<rparr> else service)
     = service\<lparr>proxyAgentId := (if c then v4 else proxyAgentId service)\<rparr>"
  "(if c then service\<lparr>privateLinkId := v5\<rparr> else service)
     = service\<lparr>privateLinkId := (if c then v5 else privateLinkId service)\<rparr>"
  "(if c then service\<lparr>hybridDeploymentAgentId := v6\<rparr> else service)
     = service\<lparr>hybridDeploymentAgentId := (if c then v6 else hybridDeploymentAgentId service)\<rparr>"
  "(if c then service\<lparr>dataDelaySensitivity := v7\<rparr> else service)
     = service\<lparr>dataDelaySensitivity := (if c then v7 else dataDelaySensitivity service)\<rparr>"
  "(if c then service\<lparr>dataDelayThreshold := v8\<rparr> else service)
     = service\<lparr>dataDelayThreshold := (if c then v8 else dataDelayThreshold service)\<rparr>"
  "(case x9 of Some p \<Rightarrow> service\<lparr>paused := Some p\<rparr> | None \<Rightarrow> service)
     = service\<lparr>paused := (case x9 of Some p \<Rightarrow> Some p | None \<Rightarrow> paused service)\<rparr>"
  "(case x10 of Some p \<Rightarrow> service\<lparr>pauseAfterTrial := Some p\<rparr> | None \<Rightarrow> service)
     = service\<lparr>pauseAfterTrial := (case x10 of Some p \<Rightarrow> Some p | None \<Rightarrow> pauseAfterTrial service)\<rparr>"
  "(case x11 of Some p \<Rightarrow> service\<lparr>configCustom := Some p\<rparr> | None \<Rightarrow> service)
     = service\<lparr>configCustom := (case x11 of Some p \<Rightarrow> Some p | None \<Rightarrow> configCustom service)\<rparr>"
  "(case x12 of Some p \<Rightarrow> service\<lparr>authCustom := Some p\<rparr> | None \<Rightarrow> service)
     = service\<lparr>authCustom := (case x12 of Some p \<Rightarrow> Some p | None \<Rightarrow> authCustom service)\<rparr>"
  by (simp_all split: option.splits)

lemma case_option_id: "(case x of None \<Rightarrow> None | Some p \<Rightarrow> Some p) = x"
  by (cases x) simp_all

lemma UpdateConnection_request_fields:
  "connectionID (UpdateConnection_request ConnectionID Connection) = Some ConnectionID"
  "runSetupTests (UpdateConnection_request ConnectionID Connection) = Some False"
  "paused (UpdateConnection_request ConnectionID Connection) = fivetran_Connector.Paused Connection"
  "pauseAfterTrial (UpdateConnection_request ConnectionID Connection)
     = fivetran_Connector.PauseAfterTrial Connection"
  "configCustom (UpdateConnection_request ConnectionID Connection)
     = fivetran_Connector.Config Connection"
  "authCustom (UpdateConnection_request ConnectionID Connection)
     = fivetran_Connector.Auth Connection"
  "syncFrequency (UpdateConnection_request ConnectionID Connection)
     = (if fivetran_Connector.SyncFrequency Connection \<noteq> 0
        then Some (fivetran_Connector.SyncFrequency Connection) else None)"
  "dailySyncTime (UpdateConnection_request ConnectionID Connection)
     = (if fivetran_Connector.DailySyncTime Connection \<noteq> []
        then Some (fivetran_Connector.DailySyncTime Connection) else None)"
  "scheduleType (UpdateConnection_request ConnectionID Connection)
     = (if fivetran_Connector.ScheduleType Connection \<noteq> []
        then Some (fivetran_Connector.ScheduleType Connection) else None)"
  "networkingMethod (UpdateConnection_request ConnectionID Connection)
     = (if fivetran_Connector.NetworkingMethod Connection \<noteq> []
        then Some (fivetran_Connector.NetworkingMethod Connection) else None)"
  "proxyAgentId (UpdateConnection_request ConnectionID Connection)
     = (if fivetran_Connector.ProxyAgentID Connection \<noteq> []
        then Some (fivetran_Connector.ProxyAgentID Connection) else None)"
  "privateLinkId (UpdateConnection_request ConnectionID Connection)
     = (if fivetran_Connector.PrivateLinkID Connection \<noteq> []
        then Some (fivetran_Connector.PrivateLinkID Connection) else None)"
  "hybridDeploymentAgentId (UpdateConnection_request ConnectionID Connection)
     = (if fivetran_Connector.HybridDeploymentAgentID Connection \<noteq> []
        then Some (fivetran_Connector.HybridDeploymentAgentID Connection) else None)"
  "dataDelaySensitivity (UpdateConnection_request ConnectionID Connection)
     = (if fivetran_Connector.DataDelaySensitivity Connection \<noteq> []
        then Some (fivetran_Connector.DataDelaySensitivity Connection) else None)"
  "dataDelayThreshold (UpdateConnection_request ConnectionID Connection)
     = (if fivetran_Connector.DataDelayThreshold Connection \<noteq> 0
        then Some (fivetran_Connector.DataDelayThreshold Connection) else None)"
  unfolding UpdateConnection_request_def NewConnectionUpdate_def
  by (simp_all only: guarded_setter Let_def ConnectionUpdateService.simps case_option_id)


text \<open>
  C5 (as amended). The request \<^verbatim>\<open>UpdateConnection\<close> sends is made from the connection's
  identity and the connector alone: it names the connection, turns the setup tests of the
  update off, carries \<^verbatim>\<open>paused\<close>, \<^verbatim>\<open>pause_after_trial\<close>, the configuration and the
  authentication when their pointer is not \<^verbatim>\<open>nil\<close>, and each other field exactly when the
  connector's value is not the zero value of its type; a field at its zero value is left
  out. At a provider that stores what a request carries, sending the request a second time
  leaves the connection as the first left it.
\<close>

theorem C5_update_sends_declared_fields:
  "(let service = UpdateConnection_request ConnectionID Connection in
      connectionID service = Some ConnectionID
    \<and> runSetupTests service = Some False
    \<and> paused service = fivetran_Connector.Paused Connection
    \<and> pauseAfterTrial service = fivetran_Connector.PauseAfterTrial Connection
    \<and> configCustom service = fivetran_Connector.Config Connection
    \<and> authCustom service = fivetran_Connector.Auth Connection
    \<and> syncFrequency service
          = (if fivetran_Connector.SyncFrequency Connection \<noteq> 0
             then Some (fivetran_Connector.SyncFrequency Connection) else None)
    \<and> dailySyncTime service
          = (if fivetran_Connector.DailySyncTime Connection \<noteq> []
             then Some (fivetran_Connector.DailySyncTime Connection) else None)
    \<and> scheduleType service
          = (if fivetran_Connector.ScheduleType Connection \<noteq> []
             then Some (fivetran_Connector.ScheduleType Connection) else None)
    \<and> networkingMethod service
          = (if fivetran_Connector.NetworkingMethod Connection \<noteq> []
             then Some (fivetran_Connector.NetworkingMethod Connection) else None)
    \<and> proxyAgentId service
          = (if fivetran_Connector.ProxyAgentID Connection \<noteq> []
             then Some (fivetran_Connector.ProxyAgentID Connection) else None)
    \<and> privateLinkId service
          = (if fivetran_Connector.PrivateLinkID Connection \<noteq> []
             then Some (fivetran_Connector.PrivateLinkID Connection) else None)
    \<and> hybridDeploymentAgentId service
          = (if fivetran_Connector.HybridDeploymentAgentID Connection \<noteq> []
             then Some (fivetran_Connector.HybridDeploymentAgentID Connection) else None)
    \<and> dataDelaySensitivity service
          = (if fivetran_Connector.DataDelaySensitivity Connection \<noteq> []
             then Some (fivetran_Connector.DataDelaySensitivity Connection) else None)
    \<and> dataDelayThreshold service
          = (if fivetran_Connector.DataDelayThreshold Connection \<noteq> 0
             then Some (fivetran_Connector.DataDelayThreshold Connection) else None)
    \<and> provider_update service (provider_update service remote)
          = provider_update service remote)"
  unfolding Let_def
  by (intro conjI UpdateConnection_request_fields provider_update_idem)

text \<open>
  C5 as stated fails: a field at its zero value is left out of the request. Here the
  connector declares no daily sync time, the request carries none, and the connection keeps
  the daily sync time \<open>03:00\<close> the provider held.
\<close>

theorem C5_full_payload_counterexample:
  "\<not> full_payload (UpdateConnection_request ''conn_1'' test_fivetran_connector)
   \<and> fivetran_Connector.DailySyncTime test_fivetran_connector = []
   \<and> dailySyncTime (UpdateConnection_request ''conn_1'' test_fivetran_connector) = None
   \<and> dailySyncTime test_remote_connection = Some ''03:00''
   \<and> dailySyncTime (provider_update (UpdateConnection_request ''conn_1'' test_fivetran_connector)
                       test_remote_connection) = Some ''03:00''"
  by (simp add: full_payload_def UpdateConnection_request_fields provider_update_def sent_def
      test_fivetran_connector_def test_remote_connection_def)



subsection \<open>Fingerprints\<close>























end
